theory Spec2Isabelle
  imports Main "HOL-Library.List_Lexorder" "HOL-Library.Char_ord"
begin

section \<open>Documents of the store\<close>

text \<open>
  The server keeps four collections of documents (computers, bookings, users and
  notifications). Object ids, dates (\<^verbatim>\<open>yyyy-MM-dd\<close>), times (\<^verbatim>\<open>HH:mm\<close>) and statuses are
  strings, as in the JavaScript source; the store compares strings byte by byte, which
  is the lexicographic order on \<^typ>\<open>string\<close>.
\<close>

type_synonym oid = string

record computer =
  cid :: oid
  cname :: string
  location :: string
  specifications :: string
  cstatus :: string

text \<open>The project fields of a booking are stored as they arrive and never inspected.\<close>

record details =
  requiresGPU :: "bool option"
  gpuMemoryRequired :: "nat option"
  problemStatement :: "string option"
  datasetType :: "string option"
  datasetSize :: "(nat \<times> string) option"
  datasetLink :: "string option"
  bottleneckExplanation :: "string option"

record booking =
  bid :: oid
  userId :: string
  computerId :: oid
  startDate :: string
  endDate :: string
  startTime :: string
  endTime :: string
  reason :: string
  status :: string
  rejectionReason :: "string option"
  project :: details

record user =
  uid :: oid
  firebaseUid :: string
  role :: string

text \<open>Of a notification the recipient, the title, the type and the reference of the
  booking are kept; the text of the message, built from the same values, is left out.\<close>

record notification =
  recipient :: string
  title :: string
  ntype :: string
  refBooking :: string

text \<open>Calls to the store that can fail, and the exceptions a handler can see.\<close>

datatype store_call =
    BookingFind
  | BookingSave oid
  | ComputerFindById oid
  | ComputerSave oid
  | NotificationSave string
  | UserFind

datatype exn = StoreError store_call | TypeError | DuplicateKey oid | CastError string

text \<open>What the server writes to its console; the interpolated values are the arguments.\<close>

datatype log_entry =
    LogComputerUpdated oid string
  | LogComputerNotBooked oid string
  | LogComputerNotFound oid
  | LogBookingProcessed oid
  | LogNotificationsSent oid
  | LogUpdatedCount nat
  | ErrExpirationService exn
  | ErrHandlingExpired exn
  | ErrSendingNotifications exn
  | ErrCreatingBooking exn
  | ErrUpdatingStatus exn
  | ErrUpdatingTime exn

record world =
  computers :: "computer list"
  bookings :: "booking list"
  users :: "user list"
  notifications :: "notification list"
  console :: "log_entry list"

subsection \<open>Object ids\<close>

text \<open>
  The ids of the documents are object ids, which the store writes as 24 hexadecimal digits
  in lower case. A route that looks a document up by an id taken from the request
  (\<^verbatim>\<open>findById\<close>, \<^verbatim>\<open>findByIdAndUpdate\<close>) first casts the string to an object id: a string
  of 24 hexadecimal digits, in either case, denotes the id written with its digits in
  lower case, and for any other string the call throws a cast error. This is the cast
  of the driver in its current version; earlier versions also read a string of twelve
  bytes as an id, which is left out.
\<close>

definition isHexDigit :: "char \<Rightarrow> bool" where
  "isHexDigit c \<longleftrightarrow>
     (CHR ''0'' \<le> c \<and> c \<le> CHR ''9'') \<or> (CHR ''a'' \<le> c \<and> c \<le> CHR ''f'') \<or>
     (CHR ''A'' \<le> c \<and> c \<le> CHR ''F'')"

definition toLowerCase :: "string \<Rightarrow> string" where
  "toLowerCase s =
     map (\<lambda>c. if CHR ''A'' \<le> c \<and> c \<le> CHR ''Z'' then char_of (of_char c + (32::nat)) else c) s"

definition castObjectId :: "string \<Rightarrow> oid option" where
  "castObjectId s =
     (if length s = 24 \<and> list_all isHexDigit s then Some (toLowerCase s) else None)"

subsection \<open>Queries and updates by id\<close>

text \<open>The lookup of a document by an object id, the cast being done.\<close>

definition Computer_findById :: "oid \<Rightarrow> world \<Rightarrow> computer option" where
  "Computer_findById i w = find (\<lambda>c. cid c = i) (computers w)"

definition Booking_findById :: "oid \<Rightarrow> world \<Rightarrow> booking option" where
  "Booking_findById i w = find (\<lambda>b. bid b = i) (bookings w)"

definition set_computer_status :: "oid \<Rightarrow> string \<Rightarrow> world \<Rightarrow> world" where
  "set_computer_status i s w =
     w\<lparr>computers := map (\<lambda>c. if cid c = i then c\<lparr>cstatus := s\<rparr> else c) (computers w)\<rparr>"

text \<open>\<^verbatim>\<open>booking.save()\<close> after assignments to \<^verbatim>\<open>status\<close> and \<^verbatim>\<open>rejectionReason\<close>: the two
  modified paths are written to the stored document with the same id.\<close>

definition save_booking :: "oid \<Rightarrow> string \<Rightarrow> string option \<Rightarrow> world \<Rightarrow> world" where
  "save_booking i s r w =
     w\<lparr>bookings := map (\<lambda>b. if bid b = i then b\<lparr>status := s, rejectionReason := r\<rparr> else b)
                       (bookings w)\<rparr>"

definition save_booking_status :: "oid \<Rightarrow> string \<Rightarrow> world \<Rightarrow> world" where
  "save_booking_status i s w =
     w\<lparr>bookings := map (\<lambda>b. if bid b = i then b\<lparr>status := s\<rparr> else b) (bookings w)\<rparr>"

definition admins :: "world \<Rightarrow> user list" where
  "admins w = filter (\<lambda>u. role u = ''admin'') (users w)"

definition console_log :: "log_entry \<Rightarrow> world \<Rightarrow> world" where
  "console_log e w = w\<lparr>console := console w @ [e]\<rparr>"

definition insert_notification :: "notification \<Rightarrow> world \<Rightarrow> world" where
  "insert_notification n w = w\<lparr>notifications := notifications w @ [n]\<rparr>"

text \<open>\<^verbatim>\<open>booking._id.toString().slice(-6).toUpperCase()\<close>\<close>

definition toUpperCase :: "string \<Rightarrow> string" where
  "toUpperCase s =
     map (\<lambda>c. if CHR ''a'' \<le> c \<and> c \<le> CHR ''z'' then char_of (of_char c - (32::nat)) else c) s"

definition userBookingId :: "oid \<Rightarrow> string" where
  "userBookingId i = toUpperCase (drop (length i - 6) i)"

section \<open>The expiration service\<close>

text \<open>
  A procedure takes the world and returns the exception it raised, if any, with the world
  as it was left. \<open>faults\<close> says which calls to the store fail in a run.
\<close>

type_synonym proc = "world \<Rightarrow> exn option \<times> world"
type_synonym faults = "store_call \<Rightarrow> bool"

definition no_faults :: faults where
  "no_faults = (\<lambda>_. False)"

definition done_proc :: proc where
  "done_proc w = (None, w)"

definition seq :: "proc \<Rightarrow> proc \<Rightarrow> proc" where
  "seq p q w = (case p w of (None, w') \<Rightarrow> q w' | (Some e, w') \<Rightarrow> (Some e, w'))"

definition try_catch :: "proc \<Rightarrow> (exn \<Rightarrow> proc) \<Rightarrow> proc" where
  "try_catch body handler w =
     (case body w of (None, w') \<Rightarrow> (None, w') | (Some e, w') \<Rightarrow> handler e w')"

definition store_op :: "faults \<Rightarrow> store_call \<Rightarrow> (world \<Rightarrow> world) \<Rightarrow> proc" where
  "store_op f c effect w = (if f c then (Some (StoreError c), w) else (None, effect w))"

definition log_proc :: "log_entry \<Rightarrow> proc" where
  "log_proc e w = (None, console_log e w)"

fun for_each :: "('a \<Rightarrow> proc) \<Rightarrow> 'a list \<Rightarrow> proc" where
  "for_each h [] = done_proc"
| "for_each h (x # xs) = seq (h x) (for_each h xs)"

text \<open>The query of \<^verbatim>\<open>checkExpiredBookings\<close>: status approved, and either a booking that starts
  and ends today with an end time before the current time, or an end date before today.\<close>

definition hasEnded :: "string \<Rightarrow> string \<Rightarrow> booking \<Rightarrow> bool" where
  "hasEnded currentDate currentTime b \<longleftrightarrow>
     (startDate b = currentDate \<and> endDate b = currentDate \<and> endTime b < currentTime)
     \<or> endDate b < currentDate"

definition isExpired :: "string \<Rightarrow> string \<Rightarrow> booking \<Rightarrow> bool" where
  "isExpired currentDate currentTime b \<longleftrightarrow>
     status b = ''approved'' \<and> hasEnded currentDate currentTime b"

definition expiredBookings :: "string \<Rightarrow> string \<Rightarrow> world \<Rightarrow> booking list" where
  "expiredBookings currentDate currentTime w = filter (isExpired currentDate currentTime) (bookings w)"

definition sendExpirationNotifications :: "faults \<Rightarrow> booking \<Rightarrow> computer option \<Rightarrow> proc" where
  "sendExpirationNotifications f b computer =
     try_catch
       (seq (store_op f (NotificationSave (userId b))
               (insert_notification
                  \<lparr>recipient = userId b, title = ''Booking Session Ended'', ntype = ''info'',
                   refBooking = userBookingId (bid b)\<rparr>))
        (seq (\<lambda>w. if f UserFind then (Some (StoreError UserFind), w)
                   else for_each
                          (\<lambda>a. store_op f (NotificationSave (uid a))
                                  (insert_notification
                                     \<lparr>recipient = uid a, title = ''Computer Available'',
                                      ntype = ''success'', refBooking = userBookingId (bid b)\<rparr>))
                          (admins w) w)
             (log_proc (LogNotificationsSent (bid b)))))
       (\<lambda>e. log_proc (ErrSendingNotifications e))"

definition handleExpiredBooking :: "faults \<Rightarrow> booking \<Rightarrow> proc" where
  "handleExpiredBooking f b =
     try_catch
       (seq (store_op f (BookingSave (bid b)) (save_booking_status (bid b) ''completed''))
          (\<lambda>w. if f (ComputerFindById (computerId b))
                then (Some (StoreError (ComputerFindById (computerId b))), w)
                else
                  (let computer = Computer_findById (computerId b) w in
                   seq (case computer of
                          Some c \<Rightarrow>
                            if cstatus c = ''booked''
                            then seq (store_op f (ComputerSave (cid c))
                                        (set_computer_status (cid c) ''available''))
                                     (log_proc (LogComputerUpdated (cid c) ''available''))
                            else log_proc (LogComputerNotBooked (cid c) (cstatus c))
                        | None \<Rightarrow> log_proc (LogComputerNotFound (computerId b)))
                       (seq (sendExpirationNotifications f b computer)
                            (log_proc (LogBookingProcessed (bid b)))) w)))
       (\<lambda>e. log_proc (ErrHandlingExpired e))"

definition checkExpiredBookings :: "faults \<Rightarrow> string \<Rightarrow> string \<Rightarrow> proc" where
  "checkExpiredBookings f currentDate currentTime =
     try_catch
       (\<lambda>w. if f BookingFind then (Some (StoreError BookingFind), w)
             else
               (let expired = expiredBookings currentDate currentTime w in
                seq (for_each (handleExpiredBooking f) expired)
                    (log_proc (LogUpdatedCount (length expired))) w))
       (\<lambda>e. log_proc (ErrExpirationService e))"

section \<open>The booking routes\<close>

datatype response = Json nat booking | Message nat string

text \<open>A field of a request body is absent (\<open>None\<close>) or a string; \<^verbatim>\<open>!x\<close> holds of an absent
  field and of the empty string.\<close>

definition falsy :: "string option \<Rightarrow> bool" where
  "falsy x \<longleftrightarrow> x = None \<or> x = Some ''''"

definition str :: "string option \<Rightarrow> string" where
  "str x = (case x of None \<Rightarrow> '''' | Some s \<Rightarrow> s)"

record create_body =
  req_computerId :: "string option"
  req_startDate :: "string option"
  req_endDate :: "string option"
  req_startTime :: "string option"
  req_endTime :: "string option"
  req_reason :: "string option"
  req_project :: details

record status_body =
  req_status :: "string option"
  req_rejectionReason :: "string option"

text \<open>Modelled from the spec: the Booking schema (\<^verbatim>\<open>models/booking\<close>) is not among the
  sources. Following the spec, a booking built from a request is persisted with status
  pending and without a rejection reason; the id is the one the driver generated, and the
  reference to the computer is kept as an object id.\<close>

definition new_Booking :: "oid \<Rightarrow> string \<Rightarrow> create_body \<Rightarrow> booking" where
  "new_Booking newId actor body =
     \<lparr>bid = newId, userId = actor,
      computerId = (case castObjectId (str (req_computerId body)) of
                      Some j \<Rightarrow> j | None \<Rightarrow> str (req_computerId body)),
      startDate = str (req_startDate body), endDate = str (req_endDate body),
      startTime = str (req_startTime body), endTime = str (req_endTime body),
      reason = str (req_reason body), status = ''pending'', rejectionReason = None,
      project = req_project body\<rparr>"

text \<open>\<^verbatim>\<open>router.post("/")\<close>. \<open>actor\<close> is the uid of the verified token, \<open>newId\<close> the id
  generated for the new document; the store refuses a second document with the same id,
  which the handler reports as its generic error, as it does the cast error of a computer
  id that is not an object id.\<close>

definition createBooking :: "oid \<Rightarrow> string \<Rightarrow> create_body \<Rightarrow> world \<Rightarrow> response \<times> world" where
  "createBooking newId actor body w =
     (if falsy (req_computerId body) \<or> falsy (req_startDate body) \<or> falsy (req_endDate body) \<or>
         falsy (req_startTime body) \<or> falsy (req_endTime body) \<or> falsy (req_reason body)
      then (Message 400 ''Missing required fields'', w)
      else
        (case castObjectId (str (req_computerId body)) of
           None \<Rightarrow> (Message 500 ''Error creating booking'',
                    console_log (ErrCreatingBooking (CastError (str (req_computerId body)))) w)
         | Some j \<Rightarrow>
             (case Computer_findById j w of
                None \<Rightarrow> (Message 404 ''Computer not found'', w)
              | Some computer \<Rightarrow>
                  (let booking = new_Booking newId actor body in
                   if newId \<in> set (map bid (bookings w))
                   then (Message 500 ''Error creating booking'',
                         console_log (ErrCreatingBooking (DuplicateKey newId)) w)
                   else
                     (let w1 = w\<lparr>bookings := bookings w @ [booking]\<rparr>;
                          adminNotifications =
                            map (\<lambda>admin. \<lparr>recipient = firebaseUid admin,
                                          title = ''New Booking Request'',
                                          ntype = ''info'', refBooking = userBookingId newId\<rparr>)
                                (admins w1);
                          w2 = (if length adminNotifications > 0
                                then w1\<lparr>notifications := notifications w1 @ adminNotifications\<rparr>
                                else w1)
                      in (Json 201 booking, w2))))))"

text \<open>\<^verbatim>\<open>router.put("/:id/status")\<close>. The booking is looked up with its computer populated;
  when the computer is gone, reading \<^verbatim>\<open>booking.computerId._id\<close> throws after the booking has
  been saved, and the handler answers 500, as it does when the id of the request is not an
  object id.\<close>

definition setBookingStatus :: "string \<Rightarrow> oid \<Rightarrow> status_body \<Rightarrow> world \<Rightarrow> response \<times> world" where
  "setBookingStatus actor i body w =
     (case find (\<lambda>u. firebaseUid u = actor) (users w) of
        None \<Rightarrow> (Message 403 ''Admin access required'', w)
      | Some u \<Rightarrow>
          if role u \<noteq> ''admin'' then (Message 403 ''Admin access required'', w)
          else if str (req_status body) \<notin> set [''approved'', ''rejected'', ''cancelled'']
          then (Message 400 ''Invalid status'', w)
          else if str (req_status body) = ''rejected'' \<and> falsy (req_rejectionReason body)
          then (Message 400 ''Rejection reason is required'', w)
          else
            (case castObjectId i of
               None \<Rightarrow> (Message 500 ''Error updating booking status'',
                        console_log (ErrUpdatingStatus (CastError i)) w)
             | Some j \<Rightarrow>
            (case Booking_findById j w of
               None \<Rightarrow> (Message 404 ''Booking not found'', w)
             | Some b \<Rightarrow>
                 (let st = str (req_status body);
                      populated = Computer_findById (computerId b) w;
                      r = (if st = ''rejected'' then req_rejectionReason body
                           else rejectionReason b);
                      booking = b\<lparr>status := st, rejectionReason := r\<rparr>;
                      w1 = save_booking (bid b) st r w
                  in case populated of
                       None \<Rightarrow> (Message 500 ''Error updating booking status'',
                                console_log (ErrUpdatingStatus TypeError) w1)
                     | Some c \<Rightarrow>
                         (let w2 =
                                (if st = ''approved''
                                 then set_computer_status (cid c) ''booked'' w1
                                 else if st = ''rejected'' \<or> st = ''cancelled''
                                 then (case find (\<lambda>other. computerId other = cid c \<and>
                                                          status other = ''approved'' \<and>
                                                          bid other \<noteq> bid booking)
                                                 (bookings w1) of
                                         None \<Rightarrow> set_computer_status (cid c) ''available'' w1
                                       | Some other \<Rightarrow> w1)
                                 else w1);
                              notifTitle =
                                (if st = ''approved'' then ''Booking Approved''
                                 else if st = ''rejected'' then ''Booking Rejected''
                                 else if st = ''cancelled'' then ''Booking Cancelled''
                                 else '''');
                              w3 =
                                (if notifTitle \<noteq> ''''
                                 then insert_notification
                                        \<lparr>recipient = userId booking, title = notifTitle,
                                         ntype = (if st = ''approved'' then ''success'' else ''error''),
                                         refBooking = userBookingId (bid booking)\<rparr> w2
                                 else w2)
                          in (Json 200 booking, w3))))))"

text \<open>\<^verbatim>\<open>router.put("/:id/time")\<close>: an admin moves an approved booking to other times, another
  end date or another computer. The fields of the body that are present are assigned to
  the booking, which is then saved.\<close>

record time_body =
  upd_startTime :: "string option"
  upd_endTime :: "string option"
  upd_computerId :: "string option"
  upd_endDate :: "string option"

definition assign_time :: "oid option \<Rightarrow> time_body \<Rightarrow> booking \<Rightarrow> booking" where
  "assign_time newComputerId body b =
     b\<lparr>computerId := (case newComputerId of None \<Rightarrow> computerId b | Some k \<Rightarrow> k),
       startTime := (if falsy (upd_startTime body) then startTime b else str (upd_startTime body)),
       endTime := (if falsy (upd_endTime body) then endTime b else str (upd_endTime body)),
       endDate := (if falsy (upd_endDate body) then endDate b else str (upd_endDate body))\<rparr>"

definition save_booking_time :: "oid \<Rightarrow> oid option \<Rightarrow> time_body \<Rightarrow> world \<Rightarrow> world" where
  "save_booking_time i newComputerId body w =
     w\<lparr>bookings := map (\<lambda>b. if bid b = i then assign_time newComputerId body b else b)
                       (bookings w)\<rparr>"

definition updateBookingTime :: "string \<Rightarrow> oid \<Rightarrow> time_body \<Rightarrow> world \<Rightarrow> response \<times> world" where
  "updateBookingTime actor i body w =
     (case find (\<lambda>u. firebaseUid u = actor) (users w) of
        None \<Rightarrow> (Message 403 ''Admin access required'', w)
      | Some u \<Rightarrow>
          if role u \<noteq> ''admin'' then (Message 403 ''Admin access required'', w)
          else
            (case castObjectId i of
               None \<Rightarrow> (Message 500 ''Error updating booking time'',
                        console_log (ErrUpdatingTime (CastError i)) w)
             | Some j \<Rightarrow>
            (case Booking_findById j w of
               None \<Rightarrow> (Message 404 ''Booking not found'', w)
             | Some b \<Rightarrow>
                 if status b \<noteq> ''approved''
                 then (Message 400 ''Can only update approved bookings'', w)
                 else if \<not> falsy (upd_computerId body) \<and> str (upd_computerId body) \<noteq> computerId b
                 then
                   (case castObjectId (str (upd_computerId body)) of
                      None \<Rightarrow> (Message 500 ''Error updating booking time'',
                               console_log (ErrUpdatingTime (CastError (str (upd_computerId body)))) w)
                    | Some k \<Rightarrow>
                        (case Computer_findById k w of
                           None \<Rightarrow> (Message 404 ''New computer not found'', w)
                         | Some newComputer \<Rightarrow>
                             (let w1 = (case find (\<lambda>other. computerId other = computerId b \<and>
                                                           status other = ''approved'' \<and>
                                                           bid other \<noteq> bid b)
                                                  (bookings w) of
                                          None \<Rightarrow> set_computer_status (computerId b) ''available'' w
                                        | Some other \<Rightarrow> w);
                                  w2 = set_computer_status k ''booked'' w1
                              in (Json 200 (assign_time (Some k) body b),
                                  save_booking_time (bid b) (Some k) body w2))))
                 else (Json 200 (assign_time None body b),
                       save_booking_time (bid b) None body w))))"

section \<open>The booking form\<close>

text \<open>
  A JavaScript \<^verbatim>\<open>Date\<close> is a number of milliseconds. The form reads dates in local time
  only, so a date is modelled by its local wall-clock value: milliseconds since the local
  midnight that begins 1 January 1970 (a Thursday), in a zone without clock changes.
  The functions below are those the form imports from \<^verbatim>\<open>date-fns\<close>.
\<close>

type_synonym jsdate = int

definition msPerDay :: int where
  "msPerDay = 86400000"

definition msPerHour :: int where
  "msPerHour = 3600000"

definition msPerMinute :: int where
  "msPerMinute = 60000"

definition getDay :: "jsdate \<Rightarrow> int" where
  "getDay d = (d div msPerDay + 4) mod 7"

definition getHours :: "jsdate \<Rightarrow> int" where
  "getHours d = (d mod msPerDay) div msPerHour"

definition getMinutes :: "jsdate \<Rightarrow> int" where
  "getMinutes d = (d mod msPerHour) div msPerMinute"

definition isBefore :: "jsdate \<Rightarrow> jsdate \<Rightarrow> bool" where
  "isBefore d dateToCompare \<longleftrightarrow> d < dateToCompare"

definition differenceInCalendarDays :: "jsdate \<Rightarrow> jsdate \<Rightarrow> int" where
  "differenceInCalendarDays laterDate earlierDate =
     laterDate div msPerDay - earlierDate div msPerDay"

definition compareLocalAscending :: "jsdate \<Rightarrow> jsdate \<Rightarrow> int" where
  "compareLocalAscending laterDate earlierDate = sgn (laterDate - earlierDate)"

text \<open>Full days between two dates: the calendar difference, less one when the last day is
  not complete.\<close>

definition differenceInDays :: "jsdate \<Rightarrow> jsdate \<Rightarrow> int" where
  "differenceInDays laterDate earlierDate =
     (let sign = compareLocalAscending laterDate earlierDate;
          difference = \<bar>differenceInCalendarDays laterDate earlierDate\<bar>;
          shifted = laterDate - sign * difference * msPerDay;
          isLastDayNotFull =
            (if compareLocalAscending shifted earlierDate = - sign then 1 else 0)
      in sign * (difference - isLastDayNotFull))"

text \<open>Full hours between two dates, rounded towards zero.\<close>

definition differenceInHours :: "jsdate \<Rightarrow> jsdate \<Rightarrow> int" where
  "differenceInHours laterDate earlierDate =
     sgn (laterDate - earlierDate) * (\<bar>laterDate - earlierDate\<bar> div msPerHour)"

text \<open>\<^verbatim>\<open>getDateTime\<close> of \<^verbatim>\<open>handleSubmit\<close>: the day of \<open>date\<close> with the hours and minutes of
  \<open>time\<close>, seconds and milliseconds zero.\<close>

definition getDateTime :: "jsdate \<Rightarrow> jsdate \<Rightarrow> jsdate" where
  "getDateTime date time =
     (date div msPerDay) * msPerDay + getHours time * msPerHour + getMinutes time * msPerMinute"

subsection \<open>Formatting\<close>

fun digits :: "nat \<Rightarrow> string" where
  "digits n =
     (if n < 10 then [char_of (48 + n)] else digits (n div 10) @ [char_of (48 + n mod 10)])"

definition pad :: "nat \<Rightarrow> nat \<Rightarrow> string" where
  "pad k n = replicate (k - length (digits n)) CHR ''0'' @ digits n"

text \<open>Year, month and day of a day number (proleptic Gregorian calendar).\<close>

definition civil_from_days :: "int \<Rightarrow> int \<times> int \<times> int" where
  "civil_from_days z0 =
     (let z = z0 + 719468;
          era = z div 146097;
          doe = z - era * 146097;
          yoe = (doe - doe div 1460 + doe div 36524 - doe div 146096) div 365;
          y = yoe + era * 400;
          doy = doe - (365 * yoe + yoe div 4 - yoe div 100);
          mp = (5 * doy + 2) div 153;
          d = doy - (153 * mp + 2) div 5 + 1;
          m = (if mp < 10 then mp + 3 else mp - 9)
      in (if m \<le> 2 then y + 1 else y, m, d))"

text \<open>\<^verbatim>\<open>format(date, "yyyy-MM-dd")\<close> and \<^verbatim>\<open>format(time, "HH:mm")\<close>; \<^verbatim>\<open>yyyy\<close> is the year of
  the era, so the year 0 is written \<^verbatim>\<open>0001\<close>.\<close>

definition format_date :: "jsdate \<Rightarrow> string" where
  "format_date d =
     (case civil_from_days (d div msPerDay) of
        (y, m, dd) \<Rightarrow>
          pad 4 (nat (if y > 0 then y else 1 - y)) @ ''-'' @ pad 2 (nat m) @ ''-'' @ pad 2 (nat dd))"

definition format_time :: "jsdate \<Rightarrow> string" where
  "format_time t = pad 2 (nat (getHours t)) @ '':'' @ pad 2 (nat (getMinutes t))"

subsection \<open>The state of the form and its submission\<close>

record form =
  selectedComputer :: string
  f_startDate :: "jsdate option"
  f_endDate :: "jsdate option"
  f_startTime :: "jsdate option"
  f_endTime :: "jsdate option"
  f_reason :: string
  hasGPU :: bool
  currentGPUMemory :: nat
  f_bottleneckExplanation :: string
  f_problemStatement :: string
  f_datasetType :: string
  f_datasetLink :: string
  f_datasetSize :: nat
  datasetSizeUnit :: string

text \<open>\<^verbatim>\<open>String.prototype.trim\<close> strips white space and line terminators from both ends. A
  character of a text of the form is a code unit below 256; of these, the white space and
  line terminators are U+0009 to U+000D, the space and the no-break space U+00A0.\<close>

definition isWhiteSpace :: "char \<Rightarrow> bool" where
  "isWhiteSpace c \<longleftrightarrow>
     c \<in> set [CHR 0x09, CHR 0x0A, CHR 0x0B, CHR 0x0C, CHR 0x0D, CHR 0x20, CHR 0xA0]"

definition trim :: "string \<Rightarrow> string" where
  "trim s = rev (dropWhile isWhiteSpace (rev (dropWhile isWhiteSpace s)))"

text \<open>The checks of \<^verbatim>\<open>handleSubmit\<close> before the request is sent: the message passed to
  \<^verbatim>\<open>setError\<close> by the first check that fails, or \<open>None\<close> when all pass.\<close>

definition validateForm :: "form \<Rightarrow> string option" where
  "validateForm fm =
     (case (f_startDate fm, f_endDate fm, f_startTime fm, f_endTime fm) of
        (Some sDate, Some eDate, Some sTime, Some eTime) \<Rightarrow>
          if selectedComputer fm = '''' \<or> trim (f_reason fm) = '''' \<or>
             trim (f_problemStatement fm) = '''' \<or> f_datasetType fm = '''' \<or>
             trim (f_datasetLink fm) = '''' \<or> trim (f_bottleneckExplanation fm) = '''' \<or>
             f_datasetSize fm = 0
          then Some ''Please fill in all required fields''
          else if getDay sDate = 0
          then Some ''Lab is closed on Sundays. Please select a different start date.''
          else if getDay eDate = 0
          then Some ''Lab is closed on Sundays. Please select a different end date.''
          else if isBefore eDate sDate
          then Some ''End date must be after or equal to start date''
          else if differenceInDays eDate sDate + 1 > 7
          then Some ''Booking duration cannot exceed 7 days''
          else
            (let startDateTime = getDateTime sDate sTime;
                 endDateTime = getDateTime eDate eTime
             in if isBefore endDateTime startDateTime
                then Some ''End time must be after start time''
                else if differenceInDays eDate sDate = 0 \<and>
                        differenceInHours endDateTime startDateTime < 1
                then Some ''Minimum booking duration is 1 hour for same-day bookings''
                else None)
      | _ \<Rightarrow> Some ''Please fill in all required fields'')"

definition bookingData :: "form \<Rightarrow> create_body" where
  "bookingData fm =
     \<lparr>req_computerId = Some (selectedComputer fm),
      req_startDate = map_option format_date (f_startDate fm),
      req_endDate = map_option format_date (f_endDate fm),
      req_startTime = map_option format_time (f_startTime fm),
      req_endTime = map_option format_time (f_endTime fm),
      req_reason = Some (trim (f_reason fm)),
      req_project =
        \<lparr>requiresGPU = Some (hasGPU fm), gpuMemoryRequired = Some (currentGPUMemory fm),
         problemStatement = Some (trim (f_problemStatement fm)),
         datasetType = Some (f_datasetType fm),
         datasetSize = Some (f_datasetSize fm, datasetSizeUnit fm),
         datasetLink = Some (trim (f_datasetLink fm)),
         bottleneckExplanation = Some (trim (f_bottleneckExplanation fm))\<rparr>\<rparr>"

datatype feedback = SetError string | SetSuccess string

text \<open>\<^verbatim>\<open>handleSubmit\<close>: a failed check sets the error and sends nothing; otherwise the
  request goes to the server, whose error message, if any, is shown.\<close>

definition handleSubmit :: "oid \<Rightarrow> string \<Rightarrow> form \<Rightarrow> world \<Rightarrow> feedback \<times> world" where
  "handleSubmit newId actor fm w =
     (case validateForm fm of
        Some msg \<Rightarrow> (SetError msg, w)
      | None \<Rightarrow>
          (case createBooking newId actor (bookingData fm) w of
             (Json code booking, w') \<Rightarrow> (SetSuccess ''Booking request submitted successfully!'', w')
           | (Message code msg, w') \<Rightarrow>
               (SetError (if msg = '''' then ''Failed to create booking'' else msg), w')))"

section \<open>Operations of the engine\<close>

text \<open>The operations that write to the store: the three routes and the sweep, which runs
  with the store calls that fail during it.\<close>

datatype op =
    CreateBooking oid string create_body
  | SetBookingStatus string oid status_body
  | UpdateBookingTime string oid time_body
  | ExpirationSweep faults string string

fun apply_op :: "world \<Rightarrow> op \<Rightarrow> world" where
  "apply_op w (CreateBooking newId actor body) = snd (createBooking newId actor body w)"
| "apply_op w (SetBookingStatus actor i body) = snd (setBookingStatus actor i body w)"
| "apply_op w (UpdateBookingTime actor i body) = snd (updateBookingTime actor i body w)"
| "apply_op w (ExpirationSweep f currentDate currentTime) =
     snd (checkExpiredBookings f currentDate currentTime w)"

definition run :: "world \<Rightarrow> op list \<Rightarrow> world" where
  "run w ops = foldl apply_op w ops"

section \<open>Properties stated by the specification\<close>

text \<open>The statuses from which the specification allows no further change.\<close>

definition terminal :: "string \<Rightarrow> bool" where
  "terminal s \<longleftrightarrow> s \<in> set [''rejected'', ''cancelled'', ''completed'']"

text \<open>The selection as the specification words it: the end date is before today, or it is
  today and the end time is before the current time.\<close>

definition claimed_selection :: "string \<Rightarrow> string \<Rightarrow> booking \<Rightarrow> bool" where
  "claimed_selection currentDate currentTime b \<longleftrightarrow>
     endDate b < currentDate \<or> (endDate b = currentDate \<and> endTime b < currentTime)"

text \<open>The resource invariant as the specification words it, at a given date and time: a
  computer is booked exactly when an approved booking on it has not yet ended.\<close>

definition claimed_invariant :: "string \<Rightarrow> string \<Rightarrow> world \<Rightarrow> bool" where
  "claimed_invariant currentDate currentTime w \<longleftrightarrow>
     (\<forall>c \<in> set (computers w).
        cstatus c = ''booked'' \<longleftrightarrow>
        (\<exists>b \<in> set (bookings w).
           computerId b = cid c \<and> status b = ''approved'' \<and>
           \<not> hasEnded currentDate currentTime b))"

text \<open>The part of it that the engine maintains: a booked computer has an approved booking.\<close>

definition booked_has_approved :: "world \<Rightarrow> bool" where
  "booked_has_approved w \<longleftrightarrow>
     (\<forall>c \<in> set (computers w).
        cstatus c = ''booked'' \<longrightarrow>
        (\<exists>b \<in> set (bookings w). computerId b = cid c \<and> status b = ''approved''))"

text \<open>A consistent state: ids are unique in each collection, as the store guarantees, and
  every booked computer has an approved booking.\<close>

definition consistent :: "world \<Rightarrow> bool" where
  "consistent w \<longleftrightarrow>
     distinct (map bid (bookings w)) \<and> distinct (map cid (computers w)) \<and>
     booked_has_approved w"

text \<open>The store serves an operation when, in a sweep, no read and no save of a computer
  fails; the routes are modelled with a working store throughout.\<close>

definition computer_calls_succeed :: "faults \<Rightarrow> bool" where
  "computer_calls_succeed f \<longleftrightarrow> (\<forall>i. \<not> f (ComputerFindById i) \<and> \<not> f (ComputerSave i))"

fun served :: "op \<Rightarrow> bool" where
  "served (ExpirationSweep f currentDate currentTime) = computer_calls_succeed f"
| "served (CreateBooking newId actor body) = True"
| "served (SetBookingStatus actor i body) = True"
| "served (UpdateBookingTime actor i body) = True"

text \<open>Everything of a computer but its status.\<close>

definition sans_status :: "computer \<Rightarrow> computer" where
  "sans_status c = c\<lparr>cstatus := ''''\<rparr>"

text \<open>A rejected booking carries a non-empty rejection reason.\<close>

definition rejected_has_reason :: "world \<Rightarrow> bool" where
  "rejected_has_reason w \<longleftrightarrow>
     (\<forall>b \<in> set (bookings w). status b = ''rejected'' \<longrightarrow> \<not> falsy (rejectionReason b))"

text \<open>The console entries that close the handling of one expired booking.\<close>

fun isOutcome :: "log_entry \<Rightarrow> bool" where
  "isOutcome (LogBookingProcessed i) = True"
| "isOutcome (ErrHandlingExpired e) = True"
| "isOutcome _ = False"

subsection \<open>The handling of one expired booking\<close>

text \<open>What the handling does to the computer once the booking is saved and the computer
  has been read: a booked computer is released, and what was found is logged.\<close>

definition release_computer :: "booking \<Rightarrow> world \<Rightarrow> world" where
  "release_computer b w =
     (case Computer_findById (computerId b) w of
        None \<Rightarrow> console_log (LogComputerNotFound (computerId b)) w
      | Some c \<Rightarrow>
          if cstatus c = ''booked''
          then console_log (LogComputerUpdated (cid c) ''available'')
                 (set_computer_status (cid c) ''available'' w)
          else console_log (LogComputerNotBooked (cid c) (cstatus c)) w)"

text \<open>The notifications of an expiration: one for the user of the booking, then one for
  each admin. Those stored are the ones before the first call that fails; that call, if
  there is one, is what the service reports instead of the notifications being sent.\<close>

definition user_notice :: "booking \<Rightarrow> notification" where
  "user_notice b =
     \<lparr>recipient = userId b, title = ''Booking Session Ended'', ntype = ''info'',
      refBooking = userBookingId (bid b)\<rparr>"

definition admin_notice :: "booking \<Rightarrow> user \<Rightarrow> notification" where
  "admin_notice b a =
     \<lparr>recipient = uid a, title = ''Computer Available'', ntype = ''success'',
      refBooking = userBookingId (bid b)\<rparr>"

definition expiration_notices :: "faults \<Rightarrow> booking \<Rightarrow> world \<Rightarrow> notification list" where
  "expiration_notices f b w =
     (if f (NotificationSave (userId b)) then []
      else user_notice b #
           (if f UserFind then []
            else map (admin_notice b)
                   (takeWhile (\<lambda>a. \<not> f (NotificationSave (uid a))) (admins w))))"

definition notification_failure :: "faults \<Rightarrow> booking \<Rightarrow> world \<Rightarrow> store_call option" where
  "notification_failure f b w =
     (if f (NotificationSave (userId b)) then Some (NotificationSave (userId b))
      else if f UserFind then Some UserFind
      else map_option (\<lambda>a. NotificationSave (uid a))
             (find (\<lambda>a. f (NotificationSave (uid a))) (admins w)))"

definition notify_expiration :: "faults \<Rightarrow> booking \<Rightarrow> world \<Rightarrow> world" where
  "notify_expiration f b w =
     console_log (case notification_failure f b w of
                    None \<Rightarrow> LogNotificationsSent (bid b)
                  | Some c \<Rightarrow> ErrSendingNotifications (StoreError c))
       (w\<lparr>notifications := notifications w @ expiration_notices f b w\<rparr>)"

subsection \<open>The interval rules\<close>

datatype rejection =
    MissingFields
  | ClosureDayStart
  | ClosureDayEnd
  | EndBeforeStart
  | DurationTooLong
  | EndBeforeStartInstant
  | DurationTooShort

text \<open>The rules of the specification, in its order, on a request given by the day numbers of
  the two dates and the minutes of the day of the two times; the first rule that fails
  gives the rejection. The closure day is Sunday, and day 0 is a Thursday.\<close>

definition weekday :: "int \<Rightarrow> int" where
  "weekday dayNumber = (dayNumber + 4) mod 7"

definition interval_rules :: "bool \<Rightarrow> int \<Rightarrow> int \<Rightarrow> int \<Rightarrow> int \<Rightarrow> rejection option" where
  "interval_rules missing startDay endDay startMinute endMinute =
     (if missing then Some MissingFields
      else if weekday startDay = 0 then Some ClosureDayStart
      else if weekday endDay = 0 then Some ClosureDayEnd
      else if endDay < startDay then Some EndBeforeStart
      else if endDay - startDay + 1 > 7 then Some DurationTooLong
      else if endDay * 1440 + endMinute < startDay * 1440 + startMinute
      then Some EndBeforeStartInstant
      else if endDay = startDay \<and>
              (endDay * 1440 + endMinute) - (startDay * 1440 + startMinute) < 60
      then Some DurationTooShort
      else None)"

text \<open>The message the form shows for each rejection.\<close>

fun message_of :: "rejection \<Rightarrow> string" where
  "message_of MissingFields = ''Please fill in all required fields''"
| "message_of ClosureDayStart = ''Lab is closed on Sundays. Please select a different start date.''"
| "message_of ClosureDayEnd = ''Lab is closed on Sundays. Please select a different end date.''"
| "message_of EndBeforeStart = ''End date must be after or equal to start date''"
| "message_of DurationTooLong = ''Booking duration cannot exceed 7 days''"
| "message_of EndBeforeStartInstant = ''End time must be after start time''"
| "message_of DurationTooShort = ''Minimum booking duration is 1 hour for same-day bookings''"

text \<open>A required field of the form is missing.\<close>

definition formMissing :: "form \<Rightarrow> bool" where
  "formMissing fm \<longleftrightarrow>
     selectedComputer fm = '''' \<or> f_startDate fm = None \<or> f_endDate fm = None \<or>
     f_startTime fm = None \<or> f_endTime fm = None \<or> trim (f_reason fm) = '''' \<or>
     trim (f_problemStatement fm) = '''' \<or> f_datasetType fm = '''' \<or>
     trim (f_datasetLink fm) = '''' \<or> trim (f_bottleneckExplanation fm) = '''' \<or>
     f_datasetSize fm = 0"

definition dayNumber :: "jsdate option \<Rightarrow> int" where
  "dayNumber d = (case d of None \<Rightarrow> 0 | Some t \<Rightarrow> t div msPerDay)"

definition minuteOfDay :: "jsdate option \<Rightarrow> int" where
  "minuteOfDay d = (case d of None \<Rightarrow> 0 | Some t \<Rightarrow> getHours t * 60 + getMinutes t)"

text \<open>The value a date picker delivers is the start of a day.\<close>

definition startOfDay :: "jsdate option \<Rightarrow> bool" where
  "startOfDay d \<longleftrightarrow> (case d of None \<Rightarrow> True | Some t \<Rightarrow> t mod msPerDay = 0)"

section \<open>A small laboratory\<close>

definition pc1 :: computer where
  "pc1 = \<lparr>cid = ''0000000000000000000000c1'', cname = ''PC-1'', location = ''Lab A'',
          specifications = ''RTX 3090'', cstatus = ''available''\<rparr>"

definition admin1 :: user where
  "admin1 = \<lparr>uid = ''0000000000000000000000a0'', firebaseUid = ''admin1'', role = ''admin''\<rparr>"

definition alice :: user where
  "alice = \<lparr>uid = ''0000000000000000000000a1'', firebaseUid = ''alice'', role = ''user''\<rparr>"

definition lab :: world where
  "lab = \<lparr>computers = [pc1], bookings = [], users = [admin1, alice],
          notifications = [], console = []\<rparr>"

definition no_details :: details where
  "no_details = \<lparr>requiresGPU = None, gpuMemoryRequired = None, problemStatement = None,
                 datasetType = None, datasetSize = None, datasetLink = None,
                 bottleneckExplanation = None\<rparr>"

text \<open>Monday 10 June 2024, 09:00 to 10:00.\<close>

definition monday_request :: create_body where
  "monday_request =
     \<lparr>req_computerId = Some ''0000000000000000000000c1'', req_startDate = Some ''2024-06-10'',
      req_endDate = Some ''2024-06-10'', req_startTime = Some ''09:00'',
      req_endTime = Some ''10:00'', req_reason = Some ''test'', req_project = no_details\<rparr>"

text \<open>Monday 10 June 2024, 09:00, to Wednesday 12 June 2024, 10:00.\<close>

definition threeday_request :: create_body where
  "threeday_request =
     \<lparr>req_computerId = Some ''0000000000000000000000c1'', req_startDate = Some ''2024-06-10'',
      req_endDate = Some ''2024-06-12'', req_startTime = Some ''09:00'',
      req_endTime = Some ''10:00'', req_reason = Some ''training run'',
      req_project = no_details\<rparr>"

text \<open>Sunday 9 June 2024.\<close>

definition sunday_request :: create_body where
  "sunday_request =
     \<lparr>req_computerId = Some ''0000000000000000000000c1'', req_startDate = Some ''2024-06-09'',
      req_endDate = Some ''2024-06-09'', req_startTime = Some ''09:00'',
      req_endTime = Some ''10:00'', req_reason = Some ''test'', req_project = no_details\<rparr>"

definition approve :: status_body where
  "approve = \<lparr>req_status = Some ''approved'', req_rejectionReason = None\<rparr>"

definition reject :: status_body where
  "reject = \<lparr>req_status = Some ''rejected'', req_rejectionReason = Some ''no free slot''\<rparr>"

definition reject_without_reason :: status_body where
  "reject_without_reason = \<lparr>req_status = Some ''rejected'', req_rejectionReason = None\<rparr>"

definition complete :: status_body where
  "complete = \<lparr>req_status = Some ''completed'', req_rejectionReason = None\<rparr>"

text \<open>An approved booking from Monday 10 June to Tuesday 11 June 2024, 10:00.\<close>

definition overnight :: booking where
  "overnight =
     \<lparr>bid = ''0000000000000000000000b3'', userId = ''alice'', computerId = ''0000000000000000000000c1'', startDate = ''2024-06-10'',
      endDate = ''2024-06-11'', startTime = ''09:00'', endTime = ''10:00'',
      reason = ''test'', status = ''approved'', rejectionReason = None,
      project = no_details\<rparr>"

text \<open>Two approved bookings that ended on 10 June 2024, on a booked computer.\<close>

definition ended1 :: booking where
  "ended1 = overnight\<lparr>bid := ''0000000000000000000000b1'', endDate := ''2024-06-10''\<rparr>"

definition ended2 :: booking where
  "ended2 = overnight\<lparr>bid := ''0000000000000000000000b2'', endDate := ''2024-06-10''\<rparr>"

definition busy_lab :: world where
  "busy_lab = lab\<lparr>computers := [pc1\<lparr>cstatus := ''booked''\<rparr>], bookings := [ended1, ended2]\<rparr>"

definition maintenance_lab :: world where
  "maintenance_lab = lab\<lparr>computers := [pc1\<lparr>cstatus := ''maintenance''\<rparr>]\<rparr>"

text \<open>Requests of alice for two bookings of the computer, and decisions of the admin.\<close>

definition create_b1 :: op where
  "create_b1 = CreateBooking ''0000000000000000000000b1'' ''alice'' monday_request"

definition create_b2 :: op where
  "create_b2 = CreateBooking ''0000000000000000000000b2'' ''alice'' threeday_request"

definition approve_b1 :: op where
  "approve_b1 = SetBookingStatus ''admin1'' ''0000000000000000000000b1'' approve"

definition approve_b2 :: op where
  "approve_b2 = SetBookingStatus ''admin1'' ''0000000000000000000000b2'' approve"

definition reject_b1 :: op where
  "reject_b1 = SetBookingStatus ''admin1'' ''0000000000000000000000b1'' reject"

text \<open>The laboratory after the first booking has been created and rejected.\<close>

definition rejected_lab :: world where
  "rejected_lab = run lab [create_b1, reject_b1]"

text \<open>The computer in maintenance, with an approved booking that ended on 10 June 2024,
  beside a second computer with a pending booking.\<close>

definition pc2 :: computer where
  "pc2 = \<lparr>cid = ''0000000000000000000000c2'', cname = ''PC-2'', location = ''Lab A'',
          specifications = ''RTX 4090'', cstatus = ''available''\<rparr>"

definition waiting :: booking where
  "waiting = overnight\<lparr>bid := ''0000000000000000000000b4'', computerId := ''0000000000000000000000c2'', status := ''pending''\<rparr>"

definition closed_lab :: world where
  "closed_lab = lab\<lparr>computers := [pc1\<lparr>cstatus := ''maintenance''\<rparr>, pc2],
                   bookings := [ended1, waiting]\<rparr>"

text \<open>Runs of the sweep in which the save of the first booking fails, and in which the
  save of the computer fails.\<close>

definition first_save_fails :: faults where
  "first_save_fails c \<longleftrightarrow> c = BookingSave ''0000000000000000000000b1''"

definition release_fails :: faults where
  "release_fails c \<longleftrightarrow> c = ComputerSave ''0000000000000000000000c1''"

text \<open>Runs in which the query of the sweep fails, and in which the read of the computer
  fails.\<close>

definition query_fails :: faults where
  "query_fails c \<longleftrightarrow> c = BookingFind"

definition lookup_fails :: faults where
  "lookup_fails c \<longleftrightarrow> c = ComputerFindById ''0000000000000000000000c1''"

text \<open>The laboratory with both computers, and the request of the admin to move the first
  booking to the second computer.\<close>

definition two_lab :: world where
  "two_lab = lab\<lparr>computers := [pc1, pc2]\<rparr>"

definition move_b1 :: op where
  "move_b1 = UpdateBookingTime ''admin1'' ''0000000000000000000000b1''
               \<lparr>upd_startTime = None, upd_endTime = None,
                upd_computerId = Some ''0000000000000000000000c2'', upd_endDate = None\<rparr>"

text \<open>The form filled in for Monday 10 June 2024 (day 19884), 09:00 to 10:00.\<close>

definition monday_form :: form where
  "monday_form =
     \<lparr>selectedComputer = ''0000000000000000000000c1'', f_startDate = Some (19884 * 86400000),
      f_endDate = Some (19884 * 86400000),
      f_startTime = Some (19884 * 86400000 + 9 * 3600000),
      f_endTime = Some (19884 * 86400000 + 10 * 3600000),
      f_reason = ''test'', hasGPU = False, currentGPUMemory = 0,
      f_bottleneckExplanation = ''memory'', f_problemStatement = ''segmentation'',
      f_datasetType = ''Image'', f_datasetLink = ''http://example.org/data'',
      f_datasetSize = 2, datasetSizeUnit = ''GB''\<rparr>"

text \<open>The same form for Sunday 9 June 2024, and for Monday from 09:00 to 09:30.\<close>

definition sunday_form :: form where
  "sunday_form =
     monday_form\<lparr>f_startDate := Some (19883 * 86400000), f_endDate := Some (19883 * 86400000)\<rparr>"

definition short_form :: form where
  "short_form = monday_form\<lparr>f_endTime := Some (19884 * 86400000 + 9 * 3600000 + 30 * 60000)\<rparr>"

section \<open>Effects of the expiration service\<close>

lemma admin_notifications_frame:
  "\<exists>r w'. for_each (\<lambda>a. store_op f (NotificationSave (uid a)) (insert_notification (n a))) as w = (r, w')
     \<and> bookings w' = bookings w \<and> computers w' = computers w \<and> users w' = users w
     \<and> console w' = console w"
proof (induction as arbitrary: w)
  case Nil
  then show ?case by (simp add: done_proc_def)
next
  case (Cons a as)
  show ?case
  proof (cases "f (NotificationSave (uid a))")
    case True
    then show ?thesis by (simp add: seq_def store_op_def)
  next
    case False
    from Cons.IH [of "insert_notification (n a) w"] False
    show ?thesis by (auto simp: seq_def store_op_def insert_notification_def)
  qed
qed

lemma sendExpirationNotifications_frame:
  "\<exists>w' e. sendExpirationNotifications f b c w = (None, w')
     \<and> bookings w' = bookings w \<and> computers w' = computers w \<and> users w' = users w
     \<and> console w' = console w @ [e] \<and> \<not> isOutcome e"
proof (cases "f (NotificationSave (userId b))")
  case True
  then show ?thesis
    by (simp add: sendExpirationNotifications_def try_catch_def seq_def store_op_def
        log_proc_def console_log_def)
next
  case save: False
  show ?thesis
  proof (cases "f UserFind")
    case True
    with save show ?thesis
      by (simp add: sendExpirationNotifications_def try_catch_def seq_def store_op_def
          log_proc_def console_log_def insert_notification_def)
  next
    case False
    let ?n = "\<lambda>a. \<lparr>recipient = uid a, title = ''Computer Available'',
                     ntype = ''success'', refBooking = userBookingId (bid b)\<rparr>"
    let ?w1 = "insert_notification
                 \<lparr>recipient = userId b, title = ''Booking Session Ended'', ntype = ''info'',
                  refBooking = userBookingId (bid b)\<rparr> w"
    obtain r w2 where loop:
      "for_each (\<lambda>a. store_op f (NotificationSave (uid a)) (insert_notification (?n a)))
         (admins ?w1) ?w1 = (r, w2)"
      and frame: "bookings w2 = bookings ?w1" "computers w2 = computers ?w1"
        "users w2 = users ?w1" "console w2 = console ?w1"
      using admin_notifications_frame [of f ?n "admins ?w1" ?w1] by blast
    from save False loop frame show ?thesis
      by (cases r)
        (simp_all add: sendExpirationNotifications_def try_catch_def seq_def store_op_def
          log_proc_def console_log_def insert_notification_def)
  qed
qed


lemma save_booking_status_frame [simp]:
  "computers (save_booking_status j s w) = computers w"
  "users (save_booking_status j s w) = users w"
  "console (save_booking_status j s w) = console w"
  "notifications (save_booking_status j s w) = notifications w"
  by (simp_all add: save_booking_status_def)

lemma set_computer_status_frame [simp]:
  "bookings (set_computer_status j s w) = bookings w"
  "users (set_computer_status j s w) = users w"
  "console (set_computer_status j s w) = console w"
  "notifications (set_computer_status j s w) = notifications w"
  by (simp_all add: set_computer_status_def)

lemma computers_set_computer_status [simp]:
  "computers (set_computer_status j s w) =
     map (\<lambda>c. if cid c = j then c\<lparr>cstatus := s\<rparr> else c) (computers w)"
  by (simp add: set_computer_status_def)

lemma bookings_save_booking_status [simp]:
  "bookings (save_booking_status j s w) =
     map (\<lambda>b. if bid b = j then b\<lparr>status := s\<rparr> else b) (bookings w)"
  by (simp add: save_booking_status_def)

lemma console_log_frame [simp]:
  "bookings (console_log e w) = bookings w"
  "computers (console_log e w) = computers w"
  "users (console_log e w) = users w"
  "notifications (console_log e w) = notifications w"
  "console (console_log e w) = console w @ [e]"
  by (simp_all add: console_log_def)

lemma Computer_findById_frame [simp]:
  "Computer_findById i (save_booking_status j s w) = Computer_findById i w"
  "Computer_findById i (console_log e w) = Computer_findById i w"
  by (simp_all add: Computer_findById_def)

lemma handleExpiredBooking_effect:
  "\<exists>w' es. handleExpiredBooking f b w = (None, w')
     \<and> users w' = users w
     \<and> bookings w' = (if f (BookingSave (bid b)) then bookings w
                      else bookings (save_booking_status (bid b) ''completed'' w))
     \<and> computers w' =
         (if f (BookingSave (bid b)) \<or> f (ComputerFindById (computerId b)) then computers w
          else case Computer_findById (computerId b) w of
                 None \<Rightarrow> computers w
               | Some c \<Rightarrow> if cstatus c = ''booked'' \<and> \<not> f (ComputerSave (cid c))
                           then computers (set_computer_status (cid c) ''available'' w)
                           else computers w)
     \<and> console w' = console w @ es \<and> length (filter isOutcome es) = 1
     \<and> (f (BookingSave (bid b)) \<longrightarrow> ErrHandlingExpired (StoreError (BookingSave (bid b))) \<in> set es)"
proof (cases "f (BookingSave (bid b))")
  case True
  then show ?thesis
    by (simp add: handleExpiredBooking_def try_catch_def seq_def store_op_def log_proc_def)
next
  case save: False
  let ?w1 = "save_booking_status (bid b) ''completed'' w"
  show ?thesis
  proof (cases "f (ComputerFindById (computerId b))")
    case True
    with save show ?thesis
      by (simp add: handleExpiredBooking_def try_catch_def seq_def store_op_def log_proc_def)
  next
    case find: False
    show ?thesis
    proof (cases "Computer_findById (computerId b) w")
      case None
      let ?w2 = "console_log (LogComputerNotFound (computerId b)) ?w1"
      obtain w3 e where send: "sendExpirationNotifications f b None ?w2 = (None, w3)"
        and frame: "bookings w3 = bookings ?w2" "computers w3 = computers ?w2"
          "users w3 = users ?w2" "console w3 = console ?w2 @ [e]" "\<not> isOutcome e"
        using sendExpirationNotifications_frame [of f b None ?w2] by blast
      from save find None send frame show ?thesis
        by (simp add: handleExpiredBooking_def try_catch_def seq_def store_op_def log_proc_def)
    next
      case (Some c)
      show ?thesis
      proof (cases "cstatus c = ''booked''")
        case False
        let ?w2 = "console_log (LogComputerNotBooked (cid c) (cstatus c)) ?w1"
        obtain w3 e where send: "sendExpirationNotifications f b (Some c) ?w2 = (None, w3)"
          and frame: "bookings w3 = bookings ?w2" "computers w3 = computers ?w2"
            "users w3 = users ?w2" "console w3 = console ?w2 @ [e]" "\<not> isOutcome e"
          using sendExpirationNotifications_frame [of f b "Some c" ?w2] by blast
        from save find Some False send frame show ?thesis
          by (simp add: handleExpiredBooking_def try_catch_def seq_def store_op_def log_proc_def)
      next
        case booked: True
        show ?thesis
        proof (cases "f (ComputerSave (cid c))")
          case True
          with save find Some booked show ?thesis
            by (simp add: handleExpiredBooking_def try_catch_def seq_def store_op_def
                log_proc_def)
        next
          case False
          let ?w2 = "console_log (LogComputerUpdated (cid c) ''available'')
                       (set_computer_status (cid c) ''available'' ?w1)"
          obtain w3 e where send: "sendExpirationNotifications f b (Some c) ?w2 = (None, w3)"
            and frame: "bookings w3 = bookings ?w2" "computers w3 = computers ?w2"
              "users w3 = users ?w2" "console w3 = console ?w2 @ [e]" "\<not> isOutcome e"
            using sendExpirationNotifications_frame [of f b "Some c" ?w2] by blast
          from save find Some booked False send frame show ?thesis
            by (simp add: handleExpiredBooking_def try_catch_def seq_def store_op_def
                log_proc_def)
        qed
      qed
    qed
  qed
qed

lemma find_cid_unique:
  assumes "distinct (map cid cs)" "find (\<lambda>c. cid c = k) cs = Some c0" "c \<in> set cs" "cid c = cid c0"
  shows "c = c0"
proof -
  from assms(2) have "c0 \<in> set cs" by (auto simp: find_Some_iff)
  with assms(1,3,4) show ?thesis by (auto simp: distinct_map dest: inj_onD)
qed

lemma handleExpiredBooking_computers:
  assumes "distinct (map cid (computers w))"
  shows "\<exists>w'. handleExpiredBooking f b w = (None, w')
     \<and> map sans_status (computers w') = map sans_status (computers w)
     \<and> (\<forall>c \<in> set (computers w). cstatus c \<noteq> ''booked'' \<longrightarrow> c \<in> set (computers w'))"
proof -
  obtain w' es where h: "handleExpiredBooking f b w = (None, w')"
    and comp: "computers w' =
         (if f (BookingSave (bid b)) \<or> f (ComputerFindById (computerId b)) then computers w
          else case Computer_findById (computerId b) w of
                 None \<Rightarrow> computers w
               | Some c \<Rightarrow> if cstatus c = ''booked'' \<and> \<not> f (ComputerSave (cid c))
                           then computers (set_computer_status (cid c) ''available'' w)
                           else computers w)"
    using handleExpiredBooking_effect [of f b w] by blast
  have "map sans_status (computers w') = map sans_status (computers w)"
    unfolding comp by (auto simp: sans_status_def split: option.splits)
  moreover have "c \<in> set (computers w')" if "c \<in> set (computers w)" "cstatus c \<noteq> ''booked''" for c
  proof (cases "computers w' = computers w")
    case True
    with that show ?thesis by simp
  next
    case False
    then obtain c0 where c0: "Computer_findById (computerId b) w = Some c0" "cstatus c0 = ''booked''"
      and eq: "computers w' = computers (set_computer_status (cid c0) ''available'' w)"
      unfolding comp by (auto split: option.splits if_splits)
    have "cid c \<noteq> cid c0"
      using find_cid_unique [OF assms c0(1) [unfolded Computer_findById_def] that(1)] that(2) c0(2)
      by auto
    with that(1) show ?thesis unfolding eq by (auto simp: image_iff intro!: bexI [of _ c])
  qed
  ultimately show ?thesis using h by blast
qed

lemma sweep_loop_computers:
  assumes "distinct (map cid (computers w))"
  shows "\<exists>w'. for_each (handleExpiredBooking f) xs w = (None, w')
     \<and> map sans_status (computers w') = map sans_status (computers w)
     \<and> (\<forall>c \<in> set (computers w). cstatus c \<noteq> ''booked'' \<longrightarrow> c \<in> set (computers w'))"
  using assms
proof (induction xs arbitrary: w)
  case Nil
  then show ?case by (simp add: done_proc_def)
next
  case (Cons x xs)
  obtain w1 where h: "handleExpiredBooking f x w = (None, w1)"
    and s1: "map sans_status (computers w1) = map sans_status (computers w)"
    and k1: "\<forall>c \<in> set (computers w). cstatus c \<noteq> ''booked'' \<longrightarrow> c \<in> set (computers w1)"
    using handleExpiredBooking_computers [OF Cons.prems, of f x] by blast
  have "map cid (computers w1) = map cid (computers w)"
  proof -
    have "map cid (computers w1) = map cid (map sans_status (computers w1))"
      by (simp add: sans_status_def comp_def)
    also have "\<dots> = map cid (map sans_status (computers w))" by (simp only: s1)
    also have "\<dots> = map cid (computers w)" by (simp add: sans_status_def comp_def)
    finally show ?thesis .
  qed
  with Cons.prems have d1: "distinct (map cid (computers w1))" by simp
  from Cons.IH [OF d1] obtain w2 where l: "for_each (handleExpiredBooking f) xs w1 = (None, w2)"
    and s2: "map sans_status (computers w2) = map sans_status (computers w1)"
    and k2: "\<forall>c \<in> set (computers w1). cstatus c \<noteq> ''booked'' \<longrightarrow> c \<in> set (computers w2)"
    by blast
  from h l s1 s2 k1 k2 show ?case by (auto simp: seq_def)
qed

lemma sweep_loop_bookings:
  "\<exists>w' es. for_each (handleExpiredBooking f) xs w = (None, w')
     \<and> users w' = users w
     \<and> bookings w' =
         map (\<lambda>b. if bid b \<in> set (map bid (filter (\<lambda>x. \<not> f (BookingSave (bid x))) xs))
                  then b\<lparr>status := ''completed''\<rparr> else b) (bookings w)
     \<and> console w' = console w @ es \<and> length (filter isOutcome es) = length xs
     \<and> (\<forall>x \<in> set xs. f (BookingSave (bid x)) \<longrightarrow>
            ErrHandlingExpired (StoreError (BookingSave (bid x))) \<in> set es)"
proof (induction xs arbitrary: w)
  case Nil
  then show ?case by (simp add: done_proc_def)
next
  case (Cons x xs)
  obtain w1 es1 where h: "handleExpiredBooking f x w = (None, w1)"
    and u1: "users w1 = users w"
    and b1: "bookings w1 = (if f (BookingSave (bid x)) then bookings w
                      else bookings (save_booking_status (bid x) ''completed'' w))"
    and c1: "console w1 = console w @ es1" "length (filter isOutcome es1) = 1"
    and e1: "f (BookingSave (bid x)) \<longrightarrow> ErrHandlingExpired (StoreError (BookingSave (bid x))) \<in> set es1"
    using handleExpiredBooking_effect [of f x w] by blast
  from Cons.IH [of w1] obtain w2 es2 where l: "for_each (handleExpiredBooking f) xs w1 = (None, w2)"
    and u2: "users w2 = users w1"
    and b2: "bookings w2 =
         map (\<lambda>b. if bid b \<in> set (map bid (filter (\<lambda>x. \<not> f (BookingSave (bid x))) xs))
                  then b\<lparr>status := ''completed''\<rparr> else b) (bookings w1)"
    and c2: "console w2 = console w1 @ es2" "length (filter isOutcome es2) = length xs"
    and e2: "\<forall>x \<in> set xs. f (BookingSave (bid x)) \<longrightarrow>
            ErrHandlingExpired (StoreError (BookingSave (bid x))) \<in> set es2"
    by blast
  have bk: "bookings w2 =
         map (\<lambda>b. if bid b \<in> set (map bid (filter (\<lambda>y. \<not> f (BookingSave (bid y))) (x # xs)))
                  then b\<lparr>status := ''completed''\<rparr> else b) (bookings w)"
    unfolding b2 b1 by (auto simp: image_iff)
  have "for_each (handleExpiredBooking f) (x # xs) w = (None, w2)"
    using h l by (simp add: seq_def)
  moreover have "console w2 = console w @ (es1 @ es2)" using c1 c2 by simp
  moreover have "length (filter isOutcome (es1 @ es2)) = length (x # xs)" using c1 c2 by simp
  moreover have "\<forall>y \<in> set (x # xs). f (BookingSave (bid y)) \<longrightarrow>
            ErrHandlingExpired (StoreError (BookingSave (bid y))) \<in> set (es1 @ es2)"
    using e1 e2 by auto
  moreover have "users w2 = users w" using u1 u2 by simp
  ultimately show ?case using bk by (intro exI [of _ w2] exI [of _ "es1 @ es2"] conjI)
qed

lemma checkExpiredBookings_find_fails:
  "f BookingFind \<Longrightarrow>
   checkExpiredBookings f cd ct w = (None, console_log (ErrExpirationService (StoreError BookingFind)) w)"
  by (simp add: checkExpiredBookings_def try_catch_def log_proc_def)

lemma checkExpiredBookings_loop:
  assumes "\<not> f BookingFind"
    and "for_each (handleExpiredBooking f) (expiredBookings cd ct w) w = (None, w1)"
  shows "checkExpiredBookings f cd ct w =
           (None, console_log (LogUpdatedCount (length (expiredBookings cd ct w))) w1)"
  using assms by (simp add: checkExpiredBookings_def try_catch_def log_proc_def seq_def Let_def)

lemma checkExpiredBookings_effect:
  assumes "\<not> f BookingFind"
  shows "\<exists>w' es. checkExpiredBookings f cd ct w = (None, w')
     \<and> users w' = users w
     \<and> bookings w' =
         map (\<lambda>b. if bid b \<in> set (map bid (filter (\<lambda>x. \<not> f (BookingSave (bid x))) (expiredBookings cd ct w)))
                  then b\<lparr>status := ''completed''\<rparr> else b) (bookings w)
     \<and> console w' = console w @ es @ [LogUpdatedCount (length (expiredBookings cd ct w))]
     \<and> length (filter isOutcome es) = length (expiredBookings cd ct w)
     \<and> (\<forall>x \<in> set (expiredBookings cd ct w). f (BookingSave (bid x)) \<longrightarrow>
            ErrHandlingExpired (StoreError (BookingSave (bid x))) \<in> set es)"
proof -
  let ?xs = "expiredBookings cd ct w"
  obtain w1 es where l: "for_each (handleExpiredBooking f) ?xs w = (None, w1)"
    and u: "users w1 = users w"
    and b: "bookings w1 =
         map (\<lambda>b. if bid b \<in> set (map bid (filter (\<lambda>x. \<not> f (BookingSave (bid x))) ?xs))
                  then b\<lparr>status := ''completed''\<rparr> else b) (bookings w)"
    and c: "console w1 = console w @ es" "length (filter isOutcome es) = length ?xs"
    and e: "\<forall>x \<in> set ?xs. f (BookingSave (bid x)) \<longrightarrow>
            ErrHandlingExpired (StoreError (BookingSave (bid x))) \<in> set es"
    using sweep_loop_bookings [of f ?xs w] by blast
  let ?w' = "console_log (LogUpdatedCount (length ?xs)) w1"
  have "checkExpiredBookings f cd ct w = (None, ?w')"
    using checkExpiredBookings_loop [of f cd ct w w1] assms l by simp
  moreover have "users ?w' = users w" using u by simp
  moreover have "bookings ?w' =
         map (\<lambda>b. if bid b \<in> set (map bid (filter (\<lambda>x. \<not> f (BookingSave (bid x))) ?xs))
                  then b\<lparr>status := ''completed''\<rparr> else b) (bookings w)"
    using b by simp
  moreover have "console ?w' = console w @ es @ [LogUpdatedCount (length ?xs)]"
    using c by simp
  ultimately show ?thesis using c(2) e
    by (intro exI [of _ ?w'] exI [of _ es] conjI)
qed

lemma checkExpiredBookings_never_throws:
  "fst (checkExpiredBookings f cd ct w) = None"
proof (cases "f BookingFind")
  case True
  then show ?thesis by (simp add: checkExpiredBookings_find_fails)
next
  case False
  from checkExpiredBookings_effect [of f cd ct w] False show ?thesis by auto
qed

lemma no_expired_after:
  "filter (isExpired cd ct)
     (map (\<lambda>b. if bid b \<in> set (map bid (filter (isExpired cd ct) bs))
               then b\<lparr>status := ''completed''\<rparr> else b) bs) = []"
  by (auto simp: filter_empty_conv isExpired_def image_iff)

lemma sweep_bookings_no_faults:
  "bookings (snd (checkExpiredBookings no_faults cd ct w)) =
     map (\<lambda>b. if bid b \<in> set (map bid (expiredBookings cd ct w))
              then b\<lparr>status := ''completed''\<rparr> else b) (bookings w)"
proof -
  have nf: "\<not> no_faults BookingFind" by (simp add: no_faults_def)
  from checkExpiredBookings_effect [of no_faults cd ct w] nf show ?thesis
    by (auto simp: no_faults_def)
qed

lemma sweep_nothing_expired:
  assumes "expiredBookings cd ct w = []"
  shows "checkExpiredBookings f cd ct w =
     (None, if f BookingFind then console_log (ErrExpirationService (StoreError BookingFind)) w
            else console_log (LogUpdatedCount 0) w)"
  using assms
  by (simp add: checkExpiredBookings_def try_catch_def log_proc_def seq_def done_proc_def)

lemma sweep_bookings_shape:
  "\<exists>P. bookings (snd (checkExpiredBookings f cd ct w)) =
         map (\<lambda>b. if P b then b\<lparr>status := ''completed''\<rparr> else b) (bookings w)"
proof (cases "f BookingFind")
  case True
  then show ?thesis
    by (intro exI [of _ "\<lambda>_. False"]) (simp add: checkExpiredBookings_find_fails)
next
  case False
  with checkExpiredBookings_effect [of f cd ct w]
  obtain w' where "checkExpiredBookings f cd ct w = (None, w')"
    and "bookings w' =
         map (\<lambda>b. if bid b \<in> set (map bid (filter (\<lambda>x. \<not> f (BookingSave (bid x))) (expiredBookings cd ct w)))
                  then b\<lparr>status := ''completed''\<rparr> else b) (bookings w)"
    by blast
  then show ?thesis
    by (intro exI [of _ "\<lambda>b. bid b \<in> set (map bid (filter (\<lambda>x. \<not> f (BookingSave (bid x))) (expiredBookings cd ct w)))"])
      simp
qed

lemma sweep_computers:
  assumes "distinct (map cid (computers w))"
  shows "map sans_status (computers (snd (checkExpiredBookings f cd ct w))) =
           map sans_status (computers w)
       \<and> (\<forall>c \<in> set (computers w). cstatus c \<noteq> ''booked'' \<longrightarrow>
             c \<in> set (computers (snd (checkExpiredBookings f cd ct w))))"
proof (cases "f BookingFind")
  case True
  then show ?thesis by (simp add: checkExpiredBookings_find_fails)
next
  case False
  obtain w1 where l: "for_each (handleExpiredBooking f) (expiredBookings cd ct w) w = (None, w1)"
    and s: "map sans_status (computers w1) = map sans_status (computers w)"
    and k: "\<forall>c \<in> set (computers w). cstatus c \<noteq> ''booked'' \<longrightarrow> c \<in> set (computers w1)"
    using sweep_loop_computers [OF assms, of f "expiredBookings cd ct w"] by blast
  from checkExpiredBookings_loop [of f cd ct w w1] False l
  have "computers (snd (checkExpiredBookings f cd ct w)) = computers w1" by simp
  with s k show ?thesis by simp
qed

lemma sweep_bookings_distinct:
  assumes "distinct (map bid (bookings w))"
  shows "bookings (snd (checkExpiredBookings f cd ct w)) =
     map (\<lambda>x. if isExpired cd ct x \<and> \<not> f BookingFind \<and> \<not> f (BookingSave (bid x))
              then x\<lparr>status := ''completed''\<rparr> else x) (bookings w)"
proof (cases "f BookingFind")
  case True
  then show ?thesis by (simp add: checkExpiredBookings_find_fails)
next
  case False
  with checkExpiredBookings_effect [of f cd ct w]
  obtain w' where r: "checkExpiredBookings f cd ct w = (None, w')"
    and b: "bookings w' =
         map (\<lambda>b. if bid b \<in> set (map bid (filter (\<lambda>x. \<not> f (BookingSave (bid x))) (expiredBookings cd ct w)))
                  then b\<lparr>status := ''completed''\<rparr> else b) (bookings w)"
    by blast
  have "(bid x \<in> set (map bid (filter (\<lambda>x. \<not> f (BookingSave (bid x))) (expiredBookings cd ct w))))
        = (isExpired cd ct x \<and> \<not> f (BookingSave (bid x)))" if "x \<in> set (bookings w)" for x
  proof
    assume "bid x \<in> set (map bid (filter (\<lambda>x. \<not> f (BookingSave (bid x))) (expiredBookings cd ct w)))"
    then obtain y where y: "y \<in> set (bookings w)" "isExpired cd ct y" "\<not> f (BookingSave (bid y))"
      "bid y = bid x"
      by (auto simp: expiredBookings_def)
    with assms that have "y = x" by (auto simp: distinct_map dest: inj_onD)
    with y show "isExpired cd ct x \<and> \<not> f (BookingSave (bid x))" by simp
  next
    assume "isExpired cd ct x \<and> \<not> f (BookingSave (bid x))"
    with that show "bid x \<in> set (map bid (filter (\<lambda>x. \<not> f (BookingSave (bid x))) (expiredBookings cd ct w)))"
      by (auto simp: expiredBookings_def)
  qed
  then have "map (\<lambda>b. if bid b \<in> set (map bid (filter (\<lambda>x. \<not> f (BookingSave (bid x))) (expiredBookings cd ct w)))
                  then b\<lparr>status := ''completed''\<rparr> else b) (bookings w)
      = map (\<lambda>x. if isExpired cd ct x \<and> \<not> f BookingFind \<and> \<not> f (BookingSave (bid x))
              then x\<lparr>status := ''completed''\<rparr> else x) (bookings w)"
    using False by (intro map_cong) simp_all
  with r b show ?thesis by simp
qed

subsection \<open>The handling of one booking, case by case\<close>

lemma admin_notices_loop:
  "for_each (\<lambda>a. store_op f (NotificationSave (uid a)) (insert_notification (n a))) as w =
     (map_option (\<lambda>a. StoreError (NotificationSave (uid a)))
        (find (\<lambda>a. f (NotificationSave (uid a))) as),
      w\<lparr>notifications :=
           notifications w @ map n (takeWhile (\<lambda>a. \<not> f (NotificationSave (uid a))) as)\<rparr>)"
proof (induction as arbitrary: w)
  case Nil
  then show ?case by (simp add: done_proc_def)
next
  case (Cons a as)
  show ?case
  proof (cases "f (NotificationSave (uid a))")
    case True
    then show ?thesis by (simp add: seq_def store_op_def)
  next
    case False
    with Cons.IH [of "insert_notification (n a) w"] show ?thesis
      by (simp add: seq_def store_op_def insert_notification_def)
  qed
qed

lemma sendExpirationNotifications_exact:
  "sendExpirationNotifications f b c w = (None, notify_expiration f b w)"
proof (cases "f (NotificationSave (userId b))")
  case True
  then show ?thesis
    by (simp add: sendExpirationNotifications_def try_catch_def seq_def store_op_def
        log_proc_def notify_expiration_def notification_failure_def expiration_notices_def)
next
  case save: False
  show ?thesis
  proof (cases "f UserFind")
    case True
    with save show ?thesis
      by (simp add: sendExpirationNotifications_def try_catch_def seq_def store_op_def
          log_proc_def notify_expiration_def notification_failure_def expiration_notices_def
          insert_notification_def user_notice_def console_log_def)
  next
    case False
    have adm: "admins (insert_notification n w) = admins w" for n
      by (simp add: admins_def insert_notification_def)
    show ?thesis
    proof (cases "find (\<lambda>a. f (NotificationSave (uid a))) (admins w)")
      case None
      with save False show ?thesis
        by (simp add: sendExpirationNotifications_def try_catch_def seq_def store_op_def
            log_proc_def notify_expiration_def notification_failure_def expiration_notices_def
            insert_notification_def user_notice_def admin_notice_def console_log_def
            admin_notices_loop adm [unfolded insert_notification_def] comp_def)
    next
      case (Some a)
      with save False show ?thesis
        by (simp add: sendExpirationNotifications_def try_catch_def seq_def store_op_def
            log_proc_def notify_expiration_def notification_failure_def expiration_notices_def
            insert_notification_def user_notice_def admin_notice_def console_log_def
            admin_notices_loop adm [unfolded insert_notification_def] comp_def)
    qed
  qed
qed

lemma handleExpiredBooking_save_fails:
  assumes "f (BookingSave (bid b))"
  shows "handleExpiredBooking f b w =
           (None, console_log (ErrHandlingExpired (StoreError (BookingSave (bid b)))) w)"
  using assms
  by (simp add: handleExpiredBooking_def try_catch_def seq_def store_op_def log_proc_def)

lemma handleExpiredBooking_find_fails:
  assumes "\<not> f (BookingSave (bid b))" "f (ComputerFindById (computerId b))"
  shows "handleExpiredBooking f b w =
           (None, console_log (ErrHandlingExpired (StoreError (ComputerFindById (computerId b))))
                    (save_booking_status (bid b) ''completed'' w))"
  using assms
  by (simp add: handleExpiredBooking_def try_catch_def seq_def store_op_def log_proc_def)

lemma handleExpiredBooking_release_fails:
  assumes "\<not> f (BookingSave (bid b))" "\<not> f (ComputerFindById (computerId b))"
    and "Computer_findById (computerId b) w = Some c" "cstatus c = ''booked''"
    and "f (ComputerSave (cid c))"
  shows "handleExpiredBooking f b w =
           (None, console_log (ErrHandlingExpired (StoreError (ComputerSave (cid c))))
                    (save_booking_status (bid b) ''completed'' w))"
  using assms
  by (simp add: handleExpiredBooking_def try_catch_def seq_def store_op_def log_proc_def)

lemma handleExpiredBooking_processed:
  assumes "\<not> f (BookingSave (bid b))" "\<not> f (ComputerFindById (computerId b))"
    and "\<forall>c. Computer_findById (computerId b) w = Some c \<and> cstatus c = ''booked'' \<longrightarrow>
             \<not> f (ComputerSave (cid c))"
  shows "handleExpiredBooking f b w =
           (None, console_log (LogBookingProcessed (bid b))
                    (notify_expiration f b
                       (release_computer b (save_booking_status (bid b) ''completed'' w))))"
proof (cases "Computer_findById (computerId b) w")
  case None
  with assms show ?thesis
    by (simp add: handleExpiredBooking_def try_catch_def seq_def store_op_def log_proc_def
        sendExpirationNotifications_exact release_computer_def)
next
  case (Some c)
  with assms show ?thesis
    by (simp add: handleExpiredBooking_def try_catch_def seq_def store_op_def log_proc_def
        sendExpirationNotifications_exact release_computer_def)
qed

lemma handleExpiredBooking_never_throws:
  "fst (handleExpiredBooking f b w) = None"
  using handleExpiredBooking_effect [of f b w] by auto

lemma for_each_never_throws:
  assumes "\<And>x v. fst (h x v) = None"
  shows "for_each h xs w = (None, foldl (\<lambda>v x. snd (h x v)) w xs)"
proof (induction xs arbitrary: w)
  case Nil
  then show ?case by (simp add: done_proc_def)
next
  case (Cons x xs)
  obtain w1 where h: "h x w = (None, w1)"
    using assms [of x w] by (cases "h x w") simp
  then have "snd (h x w) = w1" by simp
  with h Cons.IH [of w1] show ?case by (simp add: seq_def)
qed

lemma checkExpiredBookings_exact:
  assumes "\<not> f BookingFind"
  shows "checkExpiredBookings f cd ct w =
           (None, console_log (LogUpdatedCount (length (expiredBookings cd ct w)))
                    (foldl (\<lambda>v x. snd (handleExpiredBooking f x v)) w (expiredBookings cd ct w)))"
proof -
  have "for_each (handleExpiredBooking f) (expiredBookings cd ct w) w =
          (None, foldl (\<lambda>v x. snd (handleExpiredBooking f x v)) w (expiredBookings cd ct w))"
    by (rule for_each_never_throws) (rule handleExpiredBooking_never_throws)
  with assms show ?thesis
    using checkExpiredBookings_loop [of f cd ct w] by simp
qed

section \<open>Effects of the routes\<close>

lemma save_booking_frame [simp]:
  "computers (save_booking j s r w) = computers w"
  "users (save_booking j s r w) = users w"
  "console (save_booking j s r w) = console w"
  "notifications (save_booking j s r w) = notifications w"
  "bookings (save_booking j s r w) =
     map (\<lambda>b. if bid b = j then b\<lparr>status := s, rejectionReason := r\<rparr> else b) (bookings w)"
  by (simp_all add: save_booking_def)

lemma insert_notification_frame [simp]:
  "bookings (insert_notification n w) = bookings w"
  "computers (insert_notification n w) = computers w"
  "users (insert_notification n w) = users w"
  "console (insert_notification n w) = console w"
  by (simp_all add: insert_notification_def)

lemma setBookingStatus_cases:
  obtains (unchanged)
      "snd (setBookingStatus actor i body w) = w"
      "(\<forall>u. find (\<lambda>u. firebaseUid u = actor) (users w) = Some u \<longrightarrow> role u \<noteq> ''admin'')
       \<or> str (req_status body) \<notin> set [''approved'', ''rejected'', ''cancelled'']
       \<or> (str (req_status body) = ''rejected'' \<and> falsy (req_rejectionReason body))
       \<or> (\<exists>j. castObjectId i = Some j \<and> Booking_findById j w = None)"
  | (missing_computer) b j where
      "Booking_findById j w = Some b"
      "str (req_status body) \<in> set [''approved'', ''rejected'', ''cancelled'']"
      "str (req_status body) = ''rejected'' \<longrightarrow> \<not> falsy (req_rejectionReason body)"
      "Computer_findById (computerId b) w = None"
      "snd (setBookingStatus actor i body w) =
         console_log (ErrUpdatingStatus TypeError)
           (save_booking (bid b) (str (req_status body))
              (if str (req_status body) = ''rejected'' then req_rejectionReason body
               else rejectionReason b) w)"
      "castObjectId i = Some j"
  | (approved) b c n j where
      "Booking_findById j w = Some b"
      "str (req_status body) = ''approved''"
      "Computer_findById (computerId b) w = Some c"
      "snd (setBookingStatus actor i body w) =
         insert_notification n
           (set_computer_status (cid c) ''booked''
              (save_booking (bid b) ''approved'' (rejectionReason b) w))"
      "castObjectId i = Some j"
  | (released) b c n j where
      "Booking_findById j w = Some b"
      "str (req_status body) \<in> set [''rejected'', ''cancelled'']"
      "str (req_status body) = ''rejected'' \<longrightarrow> \<not> falsy (req_rejectionReason body)"
      "Computer_findById (computerId b) w = Some c"
      "find (\<lambda>other. computerId other = cid c \<and> status other = ''approved'' \<and> bid other \<noteq> bid b)
         (bookings (save_booking (bid b) (str (req_status body))
              (if str (req_status body) = ''rejected'' then req_rejectionReason body
               else rejectionReason b) w)) = None"
      "snd (setBookingStatus actor i body w) =
         insert_notification n
           (set_computer_status (cid c) ''available''
              (save_booking (bid b) (str (req_status body))
                 (if str (req_status body) = ''rejected'' then req_rejectionReason body
                  else rejectionReason b) w))"
      "castObjectId i = Some j"
  | (kept) b c n other j where
      "Booking_findById j w = Some b"
      "str (req_status body) \<in> set [''rejected'', ''cancelled'']"
      "str (req_status body) = ''rejected'' \<longrightarrow> \<not> falsy (req_rejectionReason body)"
      "Computer_findById (computerId b) w = Some c"
      "find (\<lambda>other. computerId other = cid c \<and> status other = ''approved'' \<and> bid other \<noteq> bid b)
         (bookings (save_booking (bid b) (str (req_status body))
              (if str (req_status body) = ''rejected'' then req_rejectionReason body
               else rejectionReason b) w)) = Some other"
      "snd (setBookingStatus actor i body w) =
         insert_notification n
           (save_booking (bid b) (str (req_status body))
              (if str (req_status body) = ''rejected'' then req_rejectionReason body
               else rejectionReason b) w)"
      "castObjectId i = Some j"
  | (cast_error)
      "castObjectId i = None"
      "snd (setBookingStatus actor i body w) = console_log (ErrUpdatingStatus (CastError i)) w"
proof (cases "find (\<lambda>u. firebaseUid u = actor) (users w)")
  case None
  then have "snd (setBookingStatus actor i body w) = w" by (simp add: setBookingStatus_def)
  then show ?thesis using None by (intro unchanged) simp_all
next
  case (Some u)
  show ?thesis
  proof (cases "role u \<noteq> ''admin'' \<or> str (req_status body) \<notin> set [''approved'', ''rejected'', ''cancelled'']
      \<or> (str (req_status body) = ''rejected'' \<and> falsy (req_rejectionReason body))")
    case True
    with Some have "snd (setBookingStatus actor i body w) = w"
      by (auto simp: setBookingStatus_def)
    then show ?thesis using Some True by (intro unchanged) auto
  next
    case False
    then have adm: "role u = ''admin''"
      and st: "str (req_status body) \<in> set [''approved'', ''rejected'', ''cancelled'']"
      and rr: "str (req_status body) = ''rejected'' \<longrightarrow> \<not> falsy (req_rejectionReason body)"
      by auto
    show ?thesis
    proof (cases "castObjectId i")
      case None
      with Some adm st rr have "snd (setBookingStatus actor i body w) =
          console_log (ErrUpdatingStatus (CastError i)) w"
        by (auto simp: setBookingStatus_def)
      with None show ?thesis by (rule cast_error)
    next
      case j: (Some j)
      show ?thesis
      proof (cases "Booking_findById j w")
        case None
        with Some adm st rr j have "snd (setBookingStatus actor i body w) = w"
          by (auto simp: setBookingStatus_def)
        then show ?thesis using j None by (intro unchanged) auto
      next
        case b: (Some b)
        show ?thesis
        proof (cases "Computer_findById (computerId b) w")
          case None
          with Some adm st rr b j have "snd (setBookingStatus actor i body w) =
             console_log (ErrUpdatingStatus TypeError)
               (save_booking (bid b) (str (req_status body))
                  (if str (req_status body) = ''rejected'' then req_rejectionReason body
                   else rejectionReason b) w)"
            by (auto simp: setBookingStatus_def Let_def)
          with b st rr None show ?thesis using j by (rule missing_computer)
        next
          case c: (Some c)
          show ?thesis
          proof (cases "str (req_status body) = ''approved''")
            case True
            with Some adm b c j have "\<exists>n. snd (setBookingStatus actor i body w) =
             insert_notification n
               (set_computer_status (cid c) ''booked''
                  (save_booking (bid b) ''approved'' (rejectionReason b) w))"
              by (auto simp: setBookingStatus_def Let_def)
            then obtain n where "snd (setBookingStatus actor i body w) =
             insert_notification n
               (set_computer_status (cid c) ''booked''
                  (save_booking (bid b) ''approved'' (rejectionReason b) w))" ..
            with b True c show ?thesis using j by (rule approved)
          next
            case False
            with st have st': "str (req_status body) \<in> set [''rejected'', ''cancelled'']" by auto
            let ?w1 = "save_booking (bid b) (str (req_status body))
                  (if str (req_status body) = ''rejected'' then req_rejectionReason body
                   else rejectionReason b) w"
            show ?thesis
            proof (cases "find (\<lambda>other. computerId other = cid c \<and> status other = ''approved'' \<and> bid other \<noteq> bid b)
                (bookings ?w1)")
              case None
              with Some adm b c st' rr False j have "\<exists>n. snd (setBookingStatus actor i body w) =
                insert_notification n (set_computer_status (cid c) ''available'' ?w1)"
                by (auto simp: setBookingStatus_def Let_def)
              then obtain n where "snd (setBookingStatus actor i body w) =
                insert_notification n (set_computer_status (cid c) ''available'' ?w1)" ..
              with b st' rr c None show ?thesis using j by (rule released)
            next
              case o: (Some other)
              with Some adm b c st' rr False j have "\<exists>n. snd (setBookingStatus actor i body w) =
                insert_notification n ?w1"
                by (auto simp: setBookingStatus_def Let_def)
              then obtain n where "snd (setBookingStatus actor i body w) = insert_notification n ?w1" ..
              with b st' rr c o show ?thesis using j by (rule kept)
            qed
          qed
        qed
      qed
    qed
  qed
qed

lemma Booking_findById_Some:
  "Booking_findById i w = Some b \<Longrightarrow> bid b = i \<and> b \<in> set (bookings w)"
  by (auto simp: Booking_findById_def find_Some_iff)

lemma Booking_findById_distinct:
  "distinct (map bid (bookings w)) \<Longrightarrow> b \<in> set (bookings w) \<Longrightarrow> Booking_findById (bid b) w = Some b"
proof -
  assume d: "distinct (map bid (bookings w))" and m: "b \<in> set (bookings w)"
  then obtain b' where f: "find (\<lambda>x. bid x = bid b) (bookings w) = Some b'"
    by (cases "find (\<lambda>x. bid x = bid b) (bookings w)") (auto simp: find_None_iff)
  then have "b' \<in> set (bookings w)" "bid b' = bid b" by (auto simp: find_Some_iff)
  with d m have "b' = b" by (auto simp: distinct_map dest: inj_onD)
  with f show ?thesis by (simp add: Booking_findById_def)
qed

lemma Computer_findById_Some:
  "Computer_findById i w = Some c \<Longrightarrow> cid c = i \<and> c \<in> set (computers w)"
  by (auto simp: Computer_findById_def find_Some_iff)

lemma createBooking_cases:
  obtains (refused) "snd (createBooking newId actor body w) = w"
  | (duplicate) "snd (createBooking newId actor body w) =
                   console_log (ErrCreatingBooking (DuplicateKey newId)) w"
  | (created) c where
      "Computer_findById (computerId (new_Booking newId actor body)) w = Some c"
      "newId \<notin> set (map bid (bookings w))"
      "bookings (snd (createBooking newId actor body w)) = bookings w @ [new_Booking newId actor body]"
      "computers (snd (createBooking newId actor body w)) = computers w"
      "users (snd (createBooking newId actor body w)) = users w"
      "console (snd (createBooking newId actor body w)) = console w"
  | (cast_error) "snd (createBooking newId actor body w) =
                    console_log (ErrCreatingBooking (CastError (str (req_computerId body)))) w"
proof (cases "falsy (req_computerId body) \<or> falsy (req_startDate body) \<or> falsy (req_endDate body) \<or>
         falsy (req_startTime body) \<or> falsy (req_endTime body) \<or> falsy (req_reason body)")
  case True
  then have "snd (createBooking newId actor body w) = w" by (auto simp: createBooking_def)
  then show ?thesis by (rule refused)
next
  case wf: False
  show ?thesis
  proof (cases "castObjectId (str (req_computerId body))")
    case None
    with wf have "snd (createBooking newId actor body w) =
                    console_log (ErrCreatingBooking (CastError (str (req_computerId body)))) w"
      by (auto simp: createBooking_def)
    then show ?thesis by (rule cast_error)
  next
    case j: (Some j)
    show ?thesis
    proof (cases "Computer_findById j w")
      case None
      with wf j have "snd (createBooking newId actor body w) = w" by (auto simp: createBooking_def)
      then show ?thesis by (rule refused)
    next
      case (Some c)
      show ?thesis
      proof (cases "newId \<in> set (map bid (bookings w))")
        case True
        with wf j Some have "snd (createBooking newId actor body w) =
                     console_log (ErrCreatingBooking (DuplicateKey newId)) w"
          by (auto simp: createBooking_def Let_def)
        then show ?thesis by (rule duplicate)
      next
        case False
        with wf j Some show ?thesis
          by (intro created [of c]) (auto simp: createBooking_def Let_def new_Booking_def)
      qed
    qed
  qed
qed

lemma setBookingStatus_bookings:
  assumes "find (\<lambda>u. firebaseUid u = actor) (users w) = Some u" "role u = ''admin''"
    and "str (req_status body) \<in> set [''approved'', ''rejected'', ''cancelled'']"
    and "\<not> (str (req_status body) = ''rejected'' \<and> falsy (req_rejectionReason body))"
    and "Booking_findById j w = Some b"
    and "castObjectId i = Some j"
  shows "bookings (snd (setBookingStatus actor i body w)) =
     map (\<lambda>x. if bid x = j
              then x\<lparr>status := str (req_status body),
                     rejectionReason := (if str (req_status body) = ''rejected''
                                         then req_rejectionReason body else rejectionReason b)\<rparr>
              else x) (bookings w)"
proof -
  from assms(5) have i: "bid b = j" by (simp add: Booking_findById_Some)
  show ?thesis
  proof (cases rule: setBookingStatus_cases [of actor i body w])
    case unchanged
    with assms show ?thesis by auto
  next
    case (missing_computer b' j')
    with assms(5,6) i show ?thesis by simp
  next
    case (approved b' c n j')
    with assms(5,6) i show ?thesis by simp
  next
    case (released b' c n j')
    with assms(5,6) i show ?thesis by simp
  next
    case (kept b' c n other j')
    with assms(5,6) i show ?thesis by simp
  next
    case cast_error
    with assms(6) show ?thesis by simp
  qed
qed

subsection \<open>The route that moves a booking\<close>

lemma save_booking_time_frame [simp]:
  "computers (save_booking_time j k body w) = computers w"
  "users (save_booking_time j k body w) = users w"
  "console (save_booking_time j k body w) = console w"
  "notifications (save_booking_time j k body w) = notifications w"
  "bookings (save_booking_time j k body w) =
     map (\<lambda>b. if bid b = j then assign_time k body b else b) (bookings w)"
  by (simp_all add: save_booking_time_def)

lemma assign_time_frame [simp]:
  "bid (assign_time k body b) = bid b"
  "status (assign_time k body b) = status b"
  "rejectionReason (assign_time k body b) = rejectionReason b"
  "computerId (assign_time None body b) = computerId b"
  "computerId (assign_time (Some j) body b) = j"
  by (simp_all add: assign_time_def)

lemma updateBookingTime_cases:
  obtains (unchanged) "snd (updateBookingTime actor i body w) = w"
  | (cast_error) e where
      "snd (updateBookingTime actor i body w) = console_log (ErrUpdatingTime e) w"
  | (same_computer) b j where
      "Booking_findById j w = Some b" "status b = ''approved''"
      "snd (updateBookingTime actor i body w) = save_booking_time (bid b) None body w"
  | (released) b j k c where
      "Booking_findById j w = Some b" "status b = ''approved''"
      "Computer_findById k w = Some c"
      "find (\<lambda>other. computerId other = computerId b \<and> status other = ''approved'' \<and>
                     bid other \<noteq> bid b) (bookings w) = None"
      "snd (updateBookingTime actor i body w) =
         save_booking_time (bid b) (Some k) body
           (set_computer_status k ''booked''
              (set_computer_status (computerId b) ''available'' w))"
  | (kept) b j k c other where
      "Booking_findById j w = Some b" "status b = ''approved''"
      "Computer_findById k w = Some c"
      "find (\<lambda>other. computerId other = computerId b \<and> status other = ''approved'' \<and>
                     bid other \<noteq> bid b) (bookings w) = Some other"
      "snd (updateBookingTime actor i body w) =
         save_booking_time (bid b) (Some k) body (set_computer_status k ''booked'' w)"
proof (cases "find (\<lambda>u. firebaseUid u = actor) (users w)")
  case None
  then have "snd (updateBookingTime actor i body w) = w" by (simp add: updateBookingTime_def)
  then show ?thesis by (rule unchanged)
next
  case (Some u)
  show ?thesis
  proof (cases "role u = ''admin''")
    case False
    with Some have "snd (updateBookingTime actor i body w) = w"
      by (simp add: updateBookingTime_def)
    then show ?thesis by (rule unchanged)
  next
    case adm: True
    show ?thesis
    proof (cases "castObjectId i")
      case None
      with Some adm have "snd (updateBookingTime actor i body w) =
          console_log (ErrUpdatingTime (CastError i)) w"
        by (simp add: updateBookingTime_def)
      then show ?thesis by (rule cast_error)
    next
      case j: (Some j)
      show ?thesis
      proof (cases "Booking_findById j w")
        case None
        with Some adm j have "snd (updateBookingTime actor i body w) = w"
          by (simp add: updateBookingTime_def)
        then show ?thesis by (rule unchanged)
      next
        case b: (Some b)
        show ?thesis
        proof (cases "status b = ''approved''")
          case False
          with Some adm j b have "snd (updateBookingTime actor i body w) = w"
            by (simp add: updateBookingTime_def)
          then show ?thesis by (rule unchanged)
        next
          case st: True
          show ?thesis
          proof (cases "\<not> falsy (upd_computerId body) \<and> str (upd_computerId body) \<noteq> computerId b")
            case False
            with Some adm j b st have "snd (updateBookingTime actor i body w) =
                save_booking_time (bid b) None body w"
              by (auto simp: updateBookingTime_def)
            with b st show ?thesis by (rule same_computer)
          next
            case change: True
            show ?thesis
            proof (cases "castObjectId (str (upd_computerId body))")
              case None
              with Some adm j b st change have "snd (updateBookingTime actor i body w) =
                  console_log (ErrUpdatingTime (CastError (str (upd_computerId body)))) w"
                by (simp add: updateBookingTime_def)
              then show ?thesis by (rule cast_error)
            next
              case k: (Some k)
              show ?thesis
              proof (cases "Computer_findById k w")
                case None
                with Some adm j b st change k have "snd (updateBookingTime actor i body w) = w"
                  by (simp add: updateBookingTime_def)
                then show ?thesis by (rule unchanged)
              next
                case c: (Some c)
                show ?thesis
                proof (cases "find (\<lambda>other. computerId other = computerId b \<and>
                    status other = ''approved'' \<and> bid other \<noteq> bid b) (bookings w)")
                  case None
                  with Some adm j b st change k c have "snd (updateBookingTime actor i body w) =
                     save_booking_time (bid b) (Some k) body
                       (set_computer_status k ''booked''
                          (set_computer_status (computerId b) ''available'' w))"
                    by (simp add: updateBookingTime_def Let_def)
                  with b st c None show ?thesis by (rule released)
                next
                  case o: (Some other)
                  with Some adm j b st change k c have "snd (updateBookingTime actor i body w) =
                     save_booking_time (bid b) (Some k) body (set_computer_status k ''booked'' w)"
                    by (simp add: updateBookingTime_def Let_def)
                  with b st c o show ?thesis by (rule kept)
                qed
              qed
            qed
          qed
        qed
      qed
    qed
  qed
qed

section \<open>Consistency is preserved\<close>

lemma consistent_cong:
  "bookings w' = bookings w \<Longrightarrow> computers w' = computers w \<Longrightarrow> consistent w' = consistent w"
  by (simp add: consistent_def booked_has_approved_def)

lemma booked_has_approvedI:
  assumes "\<And>c. c \<in> set (computers w) \<Longrightarrow> cstatus c = ''booked'' \<Longrightarrow>
             \<exists>b \<in> set (bookings w). computerId b = cid c \<and> status b = ''approved''"
  shows "booked_has_approved w"
  using assms by (simp add: booked_has_approved_def)

lemma booked_has_approvedD:
  assumes "booked_has_approved w" "c \<in> set (computers w)" "cstatus c = ''booked''"
  obtains b where "b \<in> set (bookings w)" "computerId b = cid c" "status b = ''approved''"
  using assms by (auto simp: booked_has_approved_def)

lemma bid_unique:
  assumes "distinct (map bid bs)" "x \<in> set bs" "y \<in> set bs" "bid x = bid y"
  shows "x = y"
  using assms by (auto simp: distinct_map dest: inj_onD)

lemma create_consistent:
  assumes "consistent w"
  shows "consistent (snd (createBooking newId actor body w))"
proof (cases rule: createBooking_cases [of newId actor body w])
  case refused
  with assms show ?thesis by simp
next
  case duplicate
  with assms show ?thesis by (simp add: consistent_cong [OF console_log_frame(1,2)])
next
  case cast_error
  with assms show ?thesis by (simp add: consistent_cong [OF console_log_frame(1,2)])
next
  case (created c)
  have "bid (new_Booking newId actor body) = newId" by (simp add: new_Booking_def)
  with assms created(2,3,4) show ?thesis
    by (auto simp: consistent_def booked_has_approved_def)
qed

lemma setBookingStatus_consistent:
  assumes "consistent w"
  shows "consistent (snd (setBookingStatus actor i body w))"
proof -
  from assms have d: "distinct (map bid (bookings w))" and dc: "distinct (map cid (computers w))"
    and inv: "booked_has_approved w"
    by (simp_all add: consistent_def)
  show ?thesis
  proof (cases rule: setBookingStatus_cases [of actor i body w])
    case unchanged
    with assms show ?thesis by simp
  next
    case (missing_computer b)
    let ?w1 = "save_booking (bid b) (str (req_status body))
              (if str (req_status body) = ''rejected'' then req_rejectionReason body
               else rejectionReason b) w"
    from missing_computer(1) have b: "b \<in> set (bookings w)" by (simp add: Booking_findById_Some)
    have "booked_has_approved ?w1"
    proof (rule booked_has_approvedI)
      fix c assume "c \<in> set (computers ?w1)" "cstatus c = ''booked''"
      then have c: "c \<in> set (computers w)" "cstatus c = ''booked''" by simp_all
      with inv obtain b' where b': "b' \<in> set (bookings w)" "computerId b' = cid c"
        "status b' = ''approved''"
        by (rule booked_has_approvedD)
      have "bid b' \<noteq> bid b"
      proof
        assume "bid b' = bid b"
        with d b b' have "b' = b" by (auto intro: bid_unique)
        with b'(2) missing_computer(4) c(1) show False
          by (auto simp: Computer_findById_def find_None_iff)
      qed
      with b' show "\<exists>x \<in> set (bookings ?w1). computerId x = cid c \<and> status x = ''approved''"
        by (auto simp: image_iff intro!: bexI [of _ b'])
    qed
    moreover have "distinct (map bid (bookings ?w1))" "distinct (map cid (computers ?w1))"
      using d dc by (simp_all add: comp_def if_distrib [of bid] cong: if_cong)
    ultimately have "consistent ?w1" by (simp add: consistent_def)
    then show ?thesis unfolding missing_computer(5)
      by (simp only: consistent_cong [OF console_log_frame(1,2)])
  next
    case (approved b c0 n)
    let ?w1 = "save_booking (bid b) ''approved'' (rejectionReason b) w"
    let ?w2 = "set_computer_status (cid c0) ''booked'' ?w1"
    from approved(1) have b: "b \<in> set (bookings w)" by (simp add: Booking_findById_Some)
    from approved(3) have c0: "cid c0 = computerId b" by (simp add: Computer_findById_Some)
    have "booked_has_approved ?w2"
    proof (rule booked_has_approvedI)
      fix c' assume "c' \<in> set (computers ?w2)" "cstatus c' = ''booked''"
      then obtain c where c: "c \<in> set (computers w)" "cid c' = cid c"
        "cid c = cid c0 \<or> cstatus c = ''booked''"
        by (auto split: if_splits)
      show "\<exists>x \<in> set (bookings ?w2). computerId x = cid c' \<and> status x = ''approved''"
      proof (cases "cid c = cid c0")
        case True
        from b have "b\<lparr>status := ''approved'', rejectionReason := rejectionReason b\<rparr>
                       \<in> set (bookings ?w2)"
          by (auto simp: image_iff intro!: bexI [of _ b])
        with True c(2) c0 show ?thesis
          by (intro bexI [of _ "b\<lparr>status := ''approved'', rejectionReason := rejectionReason b\<rparr>"])
            simp_all
      next
        case False
        with c have "cstatus c = ''booked''" by simp
        with inv c(1) obtain b' where b': "b' \<in> set (bookings w)" "computerId b' = cid c"
          "status b' = ''approved''"
          by (rule booked_has_approvedD)
        let ?g = "\<lambda>x. if bid x = bid b
                       then x\<lparr>status := ''approved'', rejectionReason := rejectionReason b\<rparr>
                       else x"
        from b'(1) have "?g b' \<in> set (bookings ?w2)" by simp
        moreover from b' c(2) have "computerId (?g b') = cid c'" "status (?g b') = ''approved''"
          by simp_all
        ultimately show ?thesis by (intro bexI [of _ "?g b'"]) simp_all
      qed
    qed
    moreover have "distinct (map bid (bookings ?w2))" "distinct (map cid (computers ?w2))"
      using d dc by (simp_all add: comp_def if_distrib [of bid] if_distrib [of cid] cong: if_cong)
    ultimately have "consistent ?w2" by (simp add: consistent_def)
    then show ?thesis unfolding approved(4)
      by (simp only: consistent_cong [OF insert_notification_frame(1,2)])
  next
    case (released b c0 n)
    let ?w1 = "save_booking (bid b) (str (req_status body))
              (if str (req_status body) = ''rejected'' then req_rejectionReason body
               else rejectionReason b) w"
    let ?w2 = "set_computer_status (cid c0) ''available'' ?w1"
    from released(1) have b: "b \<in> set (bookings w)" by (simp add: Booking_findById_Some)
    from released(4) have c0: "cid c0 = computerId b" by (simp add: Computer_findById_Some)
    have "booked_has_approved ?w2"
    proof (rule booked_has_approvedI)
      fix c' assume "c' \<in> set (computers ?w2)" "cstatus c' = ''booked''"
      then have c: "c' \<in> set (computers w)" "cid c' \<noteq> cid c0" "cstatus c' = ''booked''"
        by (auto split: if_splits)
      from inv c(1,3) obtain b' where b': "b' \<in> set (bookings w)" "computerId b' = cid c'"
        "status b' = ''approved''"
        by (rule booked_has_approvedD)
      have "bid b' \<noteq> bid b"
      proof
        assume "bid b' = bid b"
        with d b b' have "b' = b" by (auto intro: bid_unique)
        with b'(2) c0 c(2) show False by simp
      qed
      with b' show "\<exists>x \<in> set (bookings ?w2). computerId x = cid c' \<and> status x = ''approved''"
        by (auto simp: image_iff intro!: bexI [of _ b'])
    qed
    moreover have "distinct (map bid (bookings ?w2))" "distinct (map cid (computers ?w2))"
      using d dc by (simp_all add: comp_def if_distrib [of bid] if_distrib [of cid] cong: if_cong)
    ultimately have "consistent ?w2" by (simp add: consistent_def)
    then show ?thesis unfolding released(6)
      by (simp only: consistent_cong [OF insert_notification_frame(1,2)])
  next
    case (kept b c0 n other)
    let ?w1 = "save_booking (bid b) (str (req_status body))
              (if str (req_status body) = ''rejected'' then req_rejectionReason body
               else rejectionReason b) w"
    from kept(1) have b: "b \<in> set (bookings w)" by (simp add: Booking_findById_Some)
    from kept(4) have c0: "cid c0 = computerId b" by (simp add: Computer_findById_Some)
    from kept(5) have other: "other \<in> set (bookings ?w1)" "computerId other = cid c0"
      "status other = ''approved''"
      by (auto simp: find_Some_iff in_set_conv_nth)
    have "booked_has_approved ?w1"
    proof (rule booked_has_approvedI)
      fix c assume "c \<in> set (computers ?w1)" "cstatus c = ''booked''"
      then have c: "c \<in> set (computers w)" "cstatus c = ''booked''" by simp_all
      with inv obtain b' where b': "b' \<in> set (bookings w)" "computerId b' = cid c"
        "status b' = ''approved''"
        by (rule booked_has_approvedD)
      show "\<exists>x \<in> set (bookings ?w1). computerId x = cid c \<and> status x = ''approved''"
      proof (cases "bid b' = bid b")
        case True
        with d b b' have "b' = b" by (auto intro: bid_unique)
        with b'(2) c0 other show ?thesis by auto
      next
        case False
        with b' show ?thesis by (auto simp: image_iff intro!: bexI [of _ b'])
      qed
    qed
    moreover have "distinct (map bid (bookings ?w1))" "distinct (map cid (computers ?w1))"
      using d dc by (simp_all add: comp_def if_distrib [of bid] cong: if_cong)
    ultimately have "consistent ?w1" by (simp add: consistent_def)
    then show ?thesis unfolding kept(6)
      by (simp only: consistent_cong [OF insert_notification_frame(1,2)])
  next
    case cast_error
    with assms show ?thesis by (simp add: consistent_cong [OF console_log_frame(1,2)])
  qed
qed

lemma updateBookingTime_consistent:
  assumes "consistent w"
  shows "consistent (snd (updateBookingTime actor i body w))"
proof -
  from assms have d: "distinct (map bid (bookings w))" and dc: "distinct (map cid (computers w))"
    and inv: "booked_has_approved w"
    by (simp_all add: consistent_def)
  show ?thesis
  proof (cases rule: updateBookingTime_cases [of actor i body w])
    case unchanged
    with assms show ?thesis by simp
  next
    case (cast_error e)
    with assms show ?thesis by (simp add: consistent_cong [OF console_log_frame(1,2)])
  next
    case (same_computer b j)
    let ?g = "\<lambda>x. if bid x = bid b then assign_time None body x else x"
    let ?w1 = "save_booking_time (bid b) None body w"
    have "booked_has_approved ?w1"
    proof (rule booked_has_approvedI)
      fix c assume "c \<in> set (computers ?w1)" "cstatus c = ''booked''"
      then have c: "c \<in> set (computers w)" "cstatus c = ''booked''" by simp_all
      with inv obtain b' where b': "b' \<in> set (bookings w)" "computerId b' = cid c"
        "status b' = ''approved''"
        by (rule booked_has_approvedD)
      from b'(1) have "?g b' \<in> set (bookings ?w1)" by simp
      moreover from b' have "computerId (?g b') = cid c" "status (?g b') = ''approved''"
        by simp_all
      ultimately show "\<exists>x \<in> set (bookings ?w1). computerId x = cid c \<and> status x = ''approved''"
        by (intro bexI [of _ "?g b'"]) simp_all
    qed
    moreover have "distinct (map bid (bookings ?w1))" "distinct (map cid (computers ?w1))"
      using d dc by (simp_all add: comp_def if_distrib [of bid] cong: if_cong)
    ultimately have "consistent ?w1" by (simp add: consistent_def)
    then show ?thesis unfolding same_computer(3) .
  next
    case (released b j k c)
    let ?g = "\<lambda>x. if bid x = bid b then assign_time (Some k) body x else x"
    let ?w2 = "set_computer_status k ''booked''
                 (set_computer_status (computerId b) ''available'' w)"
    let ?w3 = "save_booking_time (bid b) (Some k) body ?w2"
    from released(1) have b: "b \<in> set (bookings w)" by (simp add: Booking_findById_Some)
    have "booked_has_approved ?w3"
    proof (rule booked_has_approvedI)
      fix c' assume "c' \<in> set (computers ?w3)" "cstatus c' = ''booked''"
      then obtain c0 where c0: "c0 \<in> set (computers w)" "cid c' = cid c0"
        "cid c0 = k \<or> (cid c0 \<noteq> computerId b \<and> cstatus c0 = ''booked'')"
        by (auto split: if_splits)
      show "\<exists>x \<in> set (bookings ?w3). computerId x = cid c' \<and> status x = ''approved''"
      proof (cases "cid c0 = k")
        case True
        from b have "assign_time (Some k) body b \<in> set (bookings ?w3)"
          by (auto simp: image_iff intro!: bexI [of _ b])
        with True c0(2) released(2) show ?thesis
          by (intro bexI [of _ "assign_time (Some k) body b"]) simp_all
      next
        case False
        with c0 have nb: "cid c0 \<noteq> computerId b" and bk: "cstatus c0 = ''booked''" by simp_all
        from inv c0(1) bk obtain b' where b': "b' \<in> set (bookings w)" "computerId b' = cid c0"
          "status b' = ''approved''"
          by (rule booked_has_approvedD)
        have "bid b' \<noteq> bid b"
        proof
          assume "bid b' = bid b"
          with d b b' have "b' = b" by (auto intro: bid_unique)
          with b'(2) nb show False by simp
        qed
        with b' c0(2) show ?thesis by (auto simp: image_iff intro!: bexI [of _ b'])
      qed
    qed
    moreover have "distinct (map bid (bookings ?w3))" "distinct (map cid (computers ?w3))"
      using d dc by (simp_all add: comp_def if_distrib [of bid] if_distrib [of cid] cong: if_cong)
    ultimately have "consistent ?w3" by (simp add: consistent_def)
    then show ?thesis unfolding released(5) .
  next
    case (kept b j k c other)
    let ?w2 = "set_computer_status k ''booked'' w"
    let ?w3 = "save_booking_time (bid b) (Some k) body ?w2"
    from kept(1) have b: "b \<in> set (bookings w)" by (simp add: Booking_findById_Some)
    from kept(4) have other: "other \<in> set (bookings w)" "computerId other = computerId b"
      "status other = ''approved''" "bid other \<noteq> bid b"
      by (auto simp: find_Some_iff in_set_conv_nth)
    have "booked_has_approved ?w3"
    proof (rule booked_has_approvedI)
      fix c' assume "c' \<in> set (computers ?w3)" "cstatus c' = ''booked''"
      then obtain c0 where c0: "c0 \<in> set (computers w)" "cid c' = cid c0"
        "cid c0 = k \<or> cstatus c0 = ''booked''"
        by (auto split: if_splits)
      show "\<exists>x \<in> set (bookings ?w3). computerId x = cid c' \<and> status x = ''approved''"
      proof (cases "cid c0 = k")
        case True
        from b have "assign_time (Some k) body b \<in> set (bookings ?w3)"
          by (auto simp: image_iff intro!: bexI [of _ b])
        with True c0(2) kept(2) show ?thesis
          by (intro bexI [of _ "assign_time (Some k) body b"]) simp_all
      next
        case False
        with c0 have bk: "cstatus c0 = ''booked''" by simp
        from inv c0(1) bk obtain b' where b': "b' \<in> set (bookings w)" "computerId b' = cid c0"
          "status b' = ''approved''"
          by (rule booked_has_approvedD)
        show ?thesis
        proof (cases "bid b' = bid b")
          case True
          with d b b' have "b' = b" by (auto intro: bid_unique)
          with b'(2) other c0(2) show ?thesis by (auto simp: image_iff intro!: bexI [of _ other])
        next
          case False
          with b' c0(2) show ?thesis by (auto simp: image_iff intro!: bexI [of _ b'])
        qed
      qed
    qed
    moreover have "distinct (map bid (bookings ?w3))" "distinct (map cid (computers ?w3))"
      using d dc by (simp_all add: comp_def if_distrib [of bid] if_distrib [of cid] cong: if_cong)
    ultimately have "consistent ?w3" by (simp add: consistent_def)
    then show ?thesis unfolding kept(5) .
  qed
qed

lemma map_cid_sans_status:
  "map sans_status cs' = map sans_status cs \<Longrightarrow> map cid cs' = map cid cs"
proof -
  assume "map sans_status cs' = map sans_status cs"
  then have "map cid (map sans_status cs') = map cid (map sans_status cs)" by simp
  then show ?thesis by (simp add: sans_status_def comp_def)
qed

lemma map_bid_keys:
  "map (\<lambda>b. (bid b, computerId b)) bs' = map (\<lambda>b. (bid b, computerId b)) bs \<Longrightarrow>
   map bid bs' = map bid bs"
proof -
  assume "map (\<lambda>b. (bid b, computerId b)) bs' = map (\<lambda>b. (bid b, computerId b)) bs"
  then have "map fst (map (\<lambda>b. (bid b, computerId b)) bs') =
             map fst (map (\<lambda>b. (bid b, computerId b)) bs)" by simp
  then show ?thesis by (simp add: comp_def)
qed

lemma keys_agree:
  assumes "map (\<lambda>b. (bid b, computerId b)) bs' = map (\<lambda>b. (bid b, computerId b)) bs"
    and "\<forall>b \<in> set bs. bid b = k \<longrightarrow> computerId b = v"
  shows "\<forall>b \<in> set bs'. bid b = k \<longrightarrow> computerId b = v"
proof (intro ballI impI)
  fix b assume "b \<in> set bs'" "bid b = k"
  then have "(k, computerId b) \<in> set (map (\<lambda>b. (bid b, computerId b)) bs')" by force
  with assms(1) have "(k, computerId b) \<in> set (map (\<lambda>b. (bid b, computerId b)) bs)" by simp
  with assms(2) show "computerId b = v" by auto
qed

lemma handle_step_consistent:
  assumes dc: "distinct (map cid (computers w))"
    and agree: "\<forall>b' \<in> set (bookings w). bid b' = bid x \<longrightarrow> computerId b' = computerId x"
    and inv: "booked_has_approved w"
    and cf: "\<forall>i. \<not> f (ComputerFindById i) \<and> \<not> f (ComputerSave i)"
  shows "\<exists>w'. handleExpiredBooking f x w = (None, w') \<and> booked_has_approved w'
     \<and> map sans_status (computers w') = map sans_status (computers w)
     \<and> map (\<lambda>b. (bid b, computerId b)) (bookings w') = map (\<lambda>b. (bid b, computerId b)) (bookings w)"
proof (cases "f (BookingSave (bid x))")
  case True
  from handleExpiredBooking_save_fails [of f x w] True inv show ?thesis
    by (simp add: booked_has_approved_def)
next
  case save: False
  from handleExpiredBooking_effect [of f x w]
  obtain w' where h: "handleExpiredBooking f x w = (None, w')"
    and bk0: "bookings w' = (if f (BookingSave (bid x)) then bookings w
                      else bookings (save_booking_status (bid x) ''completed'' w))"
    and cp0: "computers w' =
         (if f (BookingSave (bid x)) \<or> f (ComputerFindById (computerId x))
          then computers w
          else case Computer_findById (computerId x) w of
                 None \<Rightarrow> computers w
               | Some c \<Rightarrow> if cstatus c = ''booked'' \<and> \<not> f (ComputerSave (cid c))
                           then computers (set_computer_status (cid c) ''available'' w)
                           else computers w)"
    by blast
  from bk0 have bk: "bookings w' =
      map (\<lambda>b. if bid b = bid x then b\<lparr>status := ''completed''\<rparr> else b) (bookings w)"
    using save by simp
  from cp0 have cp: "computers w' =
          (case Computer_findById (computerId x) w of
                 None \<Rightarrow> computers w
               | Some c \<Rightarrow> if cstatus c = ''booked''
                           then computers (set_computer_status (cid c) ''available'' w)
                           else computers w)"
    using save cf by (simp split: option.splits)
  have s: "map sans_status (computers w') = map sans_status (computers w)"
    unfolding cp by (auto simp: sans_status_def split: option.splits)
  have k: "map (\<lambda>b. (bid b, computerId b)) (bookings w') = map (\<lambda>b. (bid b, computerId b)) (bookings w)"
    unfolding bk by simp
  have "booked_has_approved w'"
  proof (rule booked_has_approvedI)
    fix c' assume c': "c' \<in> set (computers w')" "cstatus c' = ''booked''"
    have old: "c' \<in> set (computers w)"
      and other: "\<forall>c0. Computer_findById (computerId x) w = Some c0 \<longrightarrow> cid c' \<noteq> cid c0"
    proof -
      show "c' \<in> set (computers w)"
        using c' unfolding cp by (auto split: option.splits if_splits)
      show "\<forall>c0. Computer_findById (computerId x) w = Some c0 \<longrightarrow> cid c' \<noteq> cid c0"
      proof (intro allI impI notI)
        fix c0 assume f: "Computer_findById (computerId x) w = Some c0" and e: "cid c' = cid c0"
        show False
        proof (cases "cstatus c0 = ''booked''")
          case True
          with f c' e show False unfolding cp by (auto split: if_splits)
        next
          case False
          with f c' have "c' \<in> set (computers w)" unfolding cp by simp
          from find_cid_unique [OF dc f [unfolded Computer_findById_def] this e] c'(2) False
          show False by simp
        qed
      qed
    qed
    from inv old c'(2) obtain b' where b': "b' \<in> set (bookings w)" "computerId b' = cid c'"
      "status b' = ''approved''"
      by (rule booked_has_approvedD)
    have "bid b' \<noteq> bid x"
    proof
      assume "bid b' = bid x"
      with agree b' have cx: "computerId x = cid c'" by auto
      with old have "Computer_findById (computerId x) w \<noteq> None"
        by (auto simp: Computer_findById_def find_None_iff)
      then obtain c0 where c0: "Computer_findById (computerId x) w = Some c0" by auto
      then have "cid c0 = computerId x" by (simp add: Computer_findById_Some)
      with other c0 cx show False by auto
    qed
    with b' show "\<exists>b \<in> set (bookings w'). computerId b = cid c' \<and> status b = ''approved''"
      unfolding bk by (auto simp: image_iff intro!: bexI [of _ b'])
  qed
  with h s k show ?thesis by blast
qed

lemma sweep_loop_consistent:
  assumes "distinct (map cid (computers w))"
    and "\<forall>x \<in> set xs. \<forall>b' \<in> set (bookings w). bid b' = bid x \<longrightarrow> computerId b' = computerId x"
    and "booked_has_approved w"
    and "\<forall>i. \<not> f (ComputerFindById i) \<and> \<not> f (ComputerSave i)"
  shows "\<exists>w'. for_each (handleExpiredBooking f) xs w = (None, w') \<and> booked_has_approved w'
     \<and> map sans_status (computers w') = map sans_status (computers w)
     \<and> map (\<lambda>b. (bid b, computerId b)) (bookings w') = map (\<lambda>b. (bid b, computerId b)) (bookings w)"
  using assms
proof (induction xs arbitrary: w)
  case Nil
  then show ?case by (simp add: done_proc_def)
next
  case (Cons x xs)
  from Cons.prems(2) have ax: "\<forall>b' \<in> set (bookings w). bid b' = bid x \<longrightarrow> computerId b' = computerId x"
    by simp
  from handle_step_consistent [OF Cons.prems(1) ax Cons.prems(3,4)]
  obtain w1 where h: "handleExpiredBooking f x w = (None, w1)"
    and i1: "booked_has_approved w1"
    and s1: "map sans_status (computers w1) = map sans_status (computers w)"
    and k1: "map (\<lambda>b. (bid b, computerId b)) (bookings w1) = map (\<lambda>b. (bid b, computerId b)) (bookings w)"
    by blast
  from Cons.prems(1) map_cid_sans_status [OF s1] have d1: "distinct (map cid (computers w1))" by simp
  have a1: "\<forall>y \<in> set xs. \<forall>b' \<in> set (bookings w1). bid b' = bid y \<longrightarrow> computerId b' = computerId y"
  proof
    fix y assume "y \<in> set xs"
    with Cons.prems(2) have "\<forall>b' \<in> set (bookings w). bid b' = bid y \<longrightarrow> computerId b' = computerId y"
      by simp
    with k1 show "\<forall>b' \<in> set (bookings w1). bid b' = bid y \<longrightarrow> computerId b' = computerId y"
      by (rule keys_agree)
  qed
  from Cons.IH [OF d1 a1 i1 Cons.prems(4)]
  obtain w2 where l: "for_each (handleExpiredBooking f) xs w1 = (None, w2)"
    and i2: "booked_has_approved w2"
    and s2: "map sans_status (computers w2) = map sans_status (computers w1)"
    and k2: "map (\<lambda>b. (bid b, computerId b)) (bookings w2) = map (\<lambda>b. (bid b, computerId b)) (bookings w1)"
    by blast
  from h l have "for_each (handleExpiredBooking f) (x # xs) w = (None, w2)"
    by (simp add: seq_def)
  with i2 s1 s2 k1 k2 show ?case by simp
qed

lemma sweep_consistent:
  assumes "consistent w"
    and cf: "\<forall>i. \<not> f (ComputerFindById i) \<and> \<not> f (ComputerSave i)"
  shows "consistent (snd (checkExpiredBookings f cd ct w))"
proof -
  from assms(1) have d: "distinct (map bid (bookings w))"
    and dc: "distinct (map cid (computers w))" and inv: "booked_has_approved w"
    by (simp_all add: consistent_def)
  have ag: "\<forall>x \<in> set (expiredBookings cd ct w). \<forall>b' \<in> set (bookings w).
              bid b' = bid x \<longrightarrow> computerId b' = computerId x"
  proof (intro ballI impI)
    fix x b' assume "x \<in> set (expiredBookings cd ct w)" "b' \<in> set (bookings w)" "bid b' = bid x"
    with d have "b' = x" by (auto simp: expiredBookings_def intro: bid_unique)
    then show "computerId b' = computerId x" by simp
  qed
  from sweep_loop_consistent [OF dc ag inv cf]
  obtain w1 where l: "for_each (handleExpiredBooking f) (expiredBookings cd ct w) w = (None, w1)"
    and i1: "booked_has_approved w1"
    and s1: "map sans_status (computers w1) = map sans_status (computers w)"
    and k1: "map (\<lambda>b. (bid b, computerId b)) (bookings w1) = map (\<lambda>b. (bid b, computerId b)) (bookings w)"
    by blast
  from d dc map_cid_sans_status [OF s1] map_bid_keys [OF k1] i1 have c1: "consistent w1"
    by (simp add: consistent_def)
  show ?thesis
  proof (cases "f BookingFind")
    case True
    with assms(1) show ?thesis
      by (simp add: checkExpiredBookings_find_fails consistent_cong [OF console_log_frame(1,2)])
  next
    case False
    from checkExpiredBookings_loop [of f cd ct w w1] False l
    have r: "snd (checkExpiredBookings f cd ct w) =
               console_log (LogUpdatedCount (length (expiredBookings cd ct w))) w1"
      by simp
    from c1 show ?thesis unfolding r by (simp only: consistent_cong [OF console_log_frame(1,2)])
  qed
qed

lemma createBooking_computers:
  "computers (snd (createBooking newId actor body w)) = computers w"
  by (cases rule: createBooking_cases [of newId actor body w]) simp_all

lemma apply_op_consistent:
  assumes "consistent w"
    and "\<And>f cd ct. x = ExpirationSweep f cd ct \<Longrightarrow>
           \<forall>i. \<not> f (ComputerFindById i) \<and> \<not> f (ComputerSave i)"
  shows "consistent (apply_op w x)"
proof (cases x)
  case (CreateBooking newId actor body)
  with assms(1) show ?thesis by (simp add: create_consistent)
next
  case (SetBookingStatus actor i body)
  with assms(1) show ?thesis by (simp add: setBookingStatus_consistent)
next
  case (UpdateBookingTime actor i body)
  with assms(1) show ?thesis by (simp add: updateBookingTime_consistent)
next
  case (ExpirationSweep f cd ct)
  from sweep_consistent [OF assms(1) assms(2) [OF ExpirationSweep], of cd ct] ExpirationSweep
  show ?thesis by simp
qed

section \<open>The checks of the form and the interval rules\<close>

lemma differenceInDays_startOfDay:
  "differenceInDays (msPerDay * q) (msPerDay * p) = q - p"
proof -
  consider "p < q" | "p = q" | "q < p" by linarith
  then show ?thesis
  proof cases
    case 1
    then show ?thesis
      by (simp add: differenceInDays_def compareLocalAscending_def differenceInCalendarDays_def
          msPerDay_def Let_def algebra_simps)
  next
    case 2
    then show ?thesis
      by (simp add: differenceInDays_def compareLocalAscending_def differenceInCalendarDays_def
          msPerDay_def Let_def)
  next
    case 3
    then show ?thesis
      by (simp add: differenceInDays_def compareLocalAscending_def differenceInCalendarDays_def
          msPerDay_def Let_def algebra_simps)
  qed
qed

lemma getDateTime_startOfDay:
  "getDateTime (msPerDay * p) t = msPerMinute * (1440 * p + (getHours t * 60 + getMinutes t))"
  by (simp add: getDateTime_def msPerDay_def msPerHour_def msPerMinute_def algebra_simps)

lemma isBefore_minutes:
  "isBefore (msPerMinute * a) (msPerMinute * b) \<longleftrightarrow> a < b"
  by (simp add: isBefore_def msPerMinute_def)

lemma isBefore_days:
  "isBefore (msPerDay * q) (msPerDay * p) \<longleftrightarrow> q < p"
  by (simp add: isBefore_def msPerDay_def)

lemma differenceInHours_less_1:
  assumes "b \<le> a"
  shows "differenceInHours (msPerMinute * a) (msPerMinute * b) < 1 \<longleftrightarrow> a - b < 60"
proof (cases "a = b")
  case True
  then show ?thesis by (simp add: differenceInHours_def)
next
  case False
  with assms have lt: "0 < a - b" by simp
  have d: "msPerMinute * a - msPerMinute * b = 60000 * (a - b)"
    by (simp add: msPerMinute_def algebra_simps)
  have "(60000 * (a - b)) div (60000 * 60) = (a - b) div 60"
    by (rule div_mult_mult1) simp
  then have q: "(60000 * (a - b)) div msPerHour = (a - b) div 60"
    by (simp add: msPerHour_def)
  from lt have "sgn (60000 * (a - b)) = 1" "\<bar>60000 * (a - b)\<bar> = 60000 * (a - b)" by simp_all
  then have "differenceInHours (msPerMinute * a) (msPerMinute * b) = (a - b) div 60"
    unfolding differenceInHours_def d using q by simp
  moreover from lt have "(a - b) div 60 < 1 \<longleftrightarrow> a - b < 60" by presburger
  ultimately show ?thesis by simp
qed

lemma getDay_startOfDay: "getDay (msPerDay * p) = weekday p"
  by (simp add: getDay_def weekday_def msPerDay_def)

lemma startOfDay_Some:
  "startOfDay (Some t) \<Longrightarrow> \<exists>p. t = msPerDay * p"
  by (auto simp: startOfDay_def msPerDay_def)

lemma inj_message_of: "inj message_of"
proof (rule injI)
  fix x y assume "message_of x = message_of y"
  then show "x = y" by (cases x; cases y) simp_all
qed

lemma validateForm_rules:
  assumes "startOfDay (f_startDate fm)" "startOfDay (f_endDate fm)"
  shows "validateForm fm =
     map_option message_of
       (interval_rules (formMissing fm) (dayNumber (f_startDate fm)) (dayNumber (f_endDate fm))
          (minuteOfDay (f_startTime fm)) (minuteOfDay (f_endTime fm)))"
proof (cases "f_startDate fm = None \<or> f_endDate fm = None \<or> f_startTime fm = None \<or>
    f_endTime fm = None")
  case True
  then have "formMissing fm" by (auto simp: formMissing_def)
  moreover from True have "validateForm fm = Some ''Please fill in all required fields''"
    by (auto simp: validateForm_def split: option.splits)
  ultimately show ?thesis by (simp add: interval_rules_def)
next
  case False
  then obtain sd ed st et where f: "f_startDate fm = Some sd" "f_endDate fm = Some ed"
    "f_startTime fm = Some st" "f_endTime fm = Some et"
    by auto
  from assms f obtain p q where pq: "sd = msPerDay * p" "ed = msPerDay * q"
    by (auto dest!: startOfDay_Some)
  have dn: "dayNumber (f_startDate fm) = p" "dayNumber (f_endDate fm) = q"
    using f pq by (simp_all add: dayNumber_def msPerDay_def)
  let ?sm = "getHours st * 60 + getMinutes st"
  let ?em = "getHours et * 60 + getMinutes et"
  have mn: "minuteOfDay (f_startTime fm) = ?sm" "minuteOfDay (f_endTime fm) = ?em"
    using f by (simp_all add: minuteOfDay_def)
  show ?thesis
  proof (cases "formMissing fm")
    case True
    with f have "validateForm fm = Some ''Please fill in all required fields''"
      by (simp add: validateForm_def formMissing_def)
    with True show ?thesis by (simp add: interval_rules_def)
  next
    case nm: False
    with f have v: "validateForm fm =
          (if weekday p = 0
          then Some ''Lab is closed on Sundays. Please select a different start date.''
          else if weekday q = 0
          then Some ''Lab is closed on Sundays. Please select a different end date.''
          else if q < p
          then Some ''End date must be after or equal to start date''
          else if q - p + 1 > 7
          then Some ''Booking duration cannot exceed 7 days''
          else if 1440 * q + ?em < 1440 * p + ?sm
          then Some ''End time must be after start time''
          else if q - p = 0 \<and>
                  differenceInHours (msPerMinute * (1440 * q + ?em)) (msPerMinute * (1440 * p + ?sm)) < 1
          then Some ''Minimum booking duration is 1 hour for same-day bookings''
          else None)"
      unfolding validateForm_def formMissing_def pq
      by (simp add: getDay_startOfDay isBefore_days differenceInDays_startOfDay
          getDateTime_startOfDay isBefore_minutes Let_def)
    show ?thesis
    proof (cases "1440 * q + ?em < 1440 * p + ?sm")
      case True
      with nm show ?thesis unfolding v dn mn interval_rules_def
        by (simp add: mult.commute)
    next
      case False
      then have "1440 * p + ?sm \<le> 1440 * q + ?em" by simp
      from differenceInHours_less_1 [OF this] nm False show ?thesis
        unfolding v dn mn interval_rules_def
        by (simp add: mult.commute)
    qed
  qed
qed

lemma format_date_nonempty: "format_date d \<noteq> ''''"
  by (simp add: format_date_def split: prod.splits)

lemma format_time_nonempty: "format_time t \<noteq> ''''"
  by (simp add: format_time_def)

lemma validateForm_None:
  assumes "validateForm fm = None"
  shows "\<exists>sd ed st et. f_startDate fm = Some sd \<and> f_endDate fm = Some ed \<and>
           f_startTime fm = Some st \<and> f_endTime fm = Some et"
    and "selectedComputer fm \<noteq> ''''" and "trim (f_reason fm) \<noteq> ''''"
proof -
  from assms obtain sd ed st et where f: "f_startDate fm = Some sd" "f_endDate fm = Some ed"
    "f_startTime fm = Some st" "f_endTime fm = Some et"
    by (cases "f_startDate fm"; cases "f_endDate fm"; cases "f_startTime fm"; cases "f_endTime fm")
      (simp_all add: validateForm_def)
  then show "\<exists>sd ed st et. f_startDate fm = Some sd \<and> f_endDate fm = Some ed \<and>
           f_startTime fm = Some st \<and> f_endTime fm = Some et"
    by simp
  have "\<not> (selectedComputer fm = '''' \<or> trim (f_reason fm) = '''' \<or>
             trim (f_problemStatement fm) = '''' \<or> f_datasetType fm = '''' \<or>
             trim (f_datasetLink fm) = '''' \<or> trim (f_bottleneckExplanation fm) = '''' \<or>
             f_datasetSize fm = 0)"
  proof
    assume "selectedComputer fm = '''' \<or> trim (f_reason fm) = '''' \<or>
             trim (f_problemStatement fm) = '''' \<or> f_datasetType fm = '''' \<or>
             trim (f_datasetLink fm) = '''' \<or> trim (f_bottleneckExplanation fm) = '''' \<or>
             f_datasetSize fm = 0"
    then have "validateForm fm = Some ''Please fill in all required fields''"
      unfolding validateForm_def f by simp
    with assms show False by simp
  qed
  then show "selectedComputer fm \<noteq> ''''" "trim (f_reason fm) \<noteq> ''''" by simp_all
qed

lemma bookingData_wellformed:
  assumes "validateForm fm = None"
  shows "\<not> falsy (req_computerId (bookingData fm))" "\<not> falsy (req_startDate (bookingData fm))"
    "\<not> falsy (req_endDate (bookingData fm))" "\<not> falsy (req_startTime (bookingData fm))"
    "\<not> falsy (req_endTime (bookingData fm))" "\<not> falsy (req_reason (bookingData fm))"
    "str (req_computerId (bookingData fm)) = selectedComputer fm"
  using validateForm_None [OF assms]
  by (auto simp: bookingData_def falsy_def str_def format_date_nonempty format_time_nonempty)

lemma createBooking_wellformed:
  assumes "\<not> falsy (req_computerId body)" "\<not> falsy (req_startDate body)"
    "\<not> falsy (req_endDate body)" "\<not> falsy (req_startTime body)"
    "\<not> falsy (req_endTime body)" "\<not> falsy (req_reason body)"
  shows "castObjectId (str (req_computerId body)) = None \<Longrightarrow>
           createBooking newId actor body w =
             (Message 500 ''Error creating booking'',
              console_log (ErrCreatingBooking (CastError (str (req_computerId body)))) w)"
    and "castObjectId (str (req_computerId body)) = Some j \<Longrightarrow> Computer_findById j w = None \<Longrightarrow>
           createBooking newId actor body w = (Message 404 ''Computer not found'', w)"
    and "castObjectId (str (req_computerId body)) = Some j \<Longrightarrow> Computer_findById j w = Some c \<Longrightarrow>
         newId \<notin> set (map bid (bookings w)) \<Longrightarrow>
           fst (createBooking newId actor body w) = Json 201 (new_Booking newId actor body)
           \<and> bookings (snd (createBooking newId actor body w)) =
               bookings w @ [new_Booking newId actor body]
           \<and> computers (snd (createBooking newId actor body w)) = computers w"
  using assms by (auto simp: createBooking_def Let_def)

lemma monday_form_rules:
  "interval_rules (formMissing monday_form) (dayNumber (f_startDate monday_form))
     (dayNumber (f_endDate monday_form)) (minuteOfDay (f_startTime monday_form))
     (minuteOfDay (f_endTime monday_form)) = None"
  "interval_rules (formMissing sunday_form) (dayNumber (f_startDate sunday_form))
     (dayNumber (f_endDate sunday_form)) (minuteOfDay (f_startTime sunday_form))
     (minuteOfDay (f_endTime sunday_form)) = Some ClosureDayStart"
  "interval_rules (formMissing short_form) (dayNumber (f_startDate short_form))
     (dayNumber (f_endDate short_form)) (minuteOfDay (f_startTime short_form))
     (minuteOfDay (f_endTime short_form)) = Some DurationTooShort"
  by code_simp+

lemma monday_form_startOfDay:
  "startOfDay (f_startDate monday_form)" "startOfDay (f_endDate monday_form)"
  "startOfDay (f_startDate sunday_form)" "startOfDay (f_endDate sunday_form)"
  "startOfDay (f_startDate short_form)" "startOfDay (f_endDate short_form)"
  by code_simp+

lemma monday_form_booking:
  "map (\<lambda>b. (startDate b, endDate b, startTime b, endTime b, status b))
     (bookings lab @ [new_Booking ''0000000000000000000000b1'' ''alice'' (bookingData monday_form)]) =
   [(''2024-06-10'', ''2024-06-10'', ''09:00'', ''10:00'', ''pending'')]"
  by code_simp

text \<open>A form whose date fields hold 15:00 and 09:00 of the same Monday: the comparison of
  the dates is one of instants, and the form refuses a request whose end date is not
  before its start date.\<close>

lemma afternoon_form_rules:
  "validateForm (monday_form\<lparr>f_startDate := Some (19884 * 86400000 + 15 * 3600000),
                             f_endDate := Some (19884 * 86400000 + 9 * 3600000)\<rparr>) =
     Some ''End date must be after or equal to start date''"
  "interval_rules False 19884 19884 540 600 = None"
  by code_simp+

text \<open>A reason made of a no-break space and a space is blank.\<close>

lemma blank_reason_rules:
  "startOfDay (f_startDate (monday_form\<lparr>f_reason := [CHR 0xA0, CHR 0x20]\<rparr>))"
  "startOfDay (f_endDate (monday_form\<lparr>f_reason := [CHR 0xA0, CHR 0x20]\<rparr>))"
  "validateForm (monday_form\<lparr>f_reason := [CHR 0xA0, CHR 0x20]\<rparr>) =
     Some ''Please fill in all required fields''"
  by code_simp+

section \<open>Booked computers and approved bookings\<close>

text \<open>
  C1, as the specification words it, fails, at 10:01 on 10 June 2024 and at midnight of
  the next day. After a booking that ended at 10:00 has been created and approved, the
  computer is booked, though its only approved booking has ended. After two bookings of
  the computer have been approved and the sweep has completed the first, the computer is
  available, though the second booking is approved and ends two days later. When the
  save of the computer fails during the sweep, the booking is completed and the computer
  stays booked, with no approved booking at all. And the status is also written by the
  route that moves a booking, which is none of the operations of the claim: moving the
  approved booking to the second computer makes the first available and the second
  booked.
\<close>

theorem C1_counterexample:
  "claimed_invariant ''2024-06-10'' ''10:01'' lab
   \<and> map cstatus (computers (run lab [create_b1, approve_b1])) = [''booked'']
   \<and> map (\<lambda>b. (status b, hasEnded ''2024-06-10'' ''10:01'' b))
         (bookings (run lab [create_b1, approve_b1])) = [(''approved'', True)]
   \<and> \<not> claimed_invariant ''2024-06-10'' ''10:01'' (run lab [create_b1, approve_b1])
   \<and> map cstatus (computers (run lab [create_b1, create_b2, approve_b1, approve_b2,
                                       ExpirationSweep no_faults ''2024-06-10'' ''10:01''])) =
       [''available'']
   \<and> map (\<lambda>b. (status b, hasEnded ''2024-06-10'' ''10:01'' b))
         (bookings (run lab [create_b1, create_b2, approve_b1, approve_b2,
                             ExpirationSweep no_faults ''2024-06-10'' ''10:01''])) =
       [(''completed'', True), (''approved'', False)]
   \<and> \<not> claimed_invariant ''2024-06-10'' ''10:01''
         (run lab [create_b1, create_b2, approve_b1, approve_b2,
                   ExpirationSweep no_faults ''2024-06-10'' ''10:01''])
   \<and> map cstatus (computers (run lab [create_b1, approve_b1,
                                       ExpirationSweep release_fails ''2024-06-11'' ''00:00''])) =
       [''booked'']
   \<and> map status (bookings (run lab [create_b1, approve_b1,
                                    ExpirationSweep release_fails ''2024-06-11'' ''00:00''])) =
       [''completed'']
   \<and> \<not> claimed_invariant ''2024-06-11'' ''00:00''
         (run lab [create_b1, approve_b1, ExpirationSweep release_fails ''2024-06-11'' ''00:00''])
   \<and> map cstatus (computers (run two_lab [create_b1, approve_b1])) = [''booked'', ''available'']
   \<and> map cstatus (computers (run two_lab [create_b1, approve_b1, move_b1])) =
       [''available'', ''booked'']"
  by code_simp

text \<open>
  C1 (as amended). From a consistent state (ids unique in each collection, every booked
  computer with an approved booking), after any sequence of creations, status requests,
  moves of a booking and sweeps in which no read and no save of a computer fails, the
  state is consistent again: a computer whose status is booked has at least one booking
  with status approved, ended or not. And of these operations only a status request, a
  move and a sweep write the status of a computer: a creation writes none.
\<close>

theorem C1_booked_has_approved:
  assumes "consistent w" and "list_all served ops"
  shows "consistent (run w ops)
       \<and> (\<forall>v x. map cstatus (computers (apply_op v x)) \<noteq> map cstatus (computers v) \<longrightarrow>
              (\<exists>actor i body. x = SetBookingStatus actor i body)
            \<or> (\<exists>actor i body. x = UpdateBookingTime actor i body)
            \<or> (\<exists>f currentDate currentTime. x = ExpirationSweep f currentDate currentTime))"
proof (intro conjI allI impI)
  show "consistent (run w ops)"
    using assms unfolding run_def
  proof (induction ops arbitrary: w)
    case Nil
    then show ?case by simp
  next
    case (Cons x xs)
    have "consistent (apply_op w x)"
    proof (rule apply_op_consistent [OF Cons.prems(1)])
      fix f cd ct assume "x = ExpirationSweep f cd ct"
      with Cons.prems(2) show "\<forall>i. \<not> f (ComputerFindById i) \<and> \<not> f (ComputerSave i)"
        by (simp add: computer_calls_succeed_def)
    qed
    with Cons.IH [of "apply_op w x"] Cons.prems(2) show ?case by simp
  qed
next
  fix v x
  assume "map cstatus (computers (apply_op v x)) \<noteq> map cstatus (computers v)"
  then show "(\<exists>actor i body. x = SetBookingStatus actor i body)
            \<or> (\<exists>actor i body. x = UpdateBookingTime actor i body)
            \<or> (\<exists>f currentDate currentTime. x = ExpirationSweep f currentDate currentTime)"
    by (cases x) (simp_all add: createBooking_computers)
qed

lemma two_lab_moved:
  "map cstatus (computers (run two_lab [create_b1, approve_b1, move_b1])) =
     [''available'', ''booked'']"
  "map (\<lambda>b. (status b, computerId b)) (bookings (run two_lab [create_b1, approve_b1, move_b1])) =
     [(''approved'', ''0000000000000000000000c2'')]"
  "map cstatus (computers (run lab [create_b1, approve_b1])) = [''booked'']"
  "map status (bookings (run lab [create_b1, approve_b1])) = [''approved'']"
  "map cstatus (computers (apply_op (run two_lab [create_b1, approve_b1]) move_b1)) \<noteq>
   map cstatus (computers (run two_lab [create_b1, approve_b1]))"
  by code_simp+

text \<open>The laboratory after two bookings have been approved and the first completed by a
  sweep; after one booking has been approved; and the laboratory with two computers after
  the approved booking has been moved from the first to the second.\<close>

theorem C1_witness:
  "consistent lab
   \<and> list_all served [create_b1, create_b2, approve_b1, approve_b2,
                       ExpirationSweep no_faults ''2024-06-10'' ''10:01'']
   \<and> consistent (run lab [create_b1, create_b2, approve_b1, approve_b2,
                          ExpirationSweep no_faults ''2024-06-10'' ''10:01''])
   \<and> consistent (run lab [create_b1, approve_b1])
   \<and> map cstatus (computers (run lab [create_b1, approve_b1])) = [''booked'']
   \<and> map status (bookings (run lab [create_b1, approve_b1])) = [''approved'']
   \<and> consistent two_lab \<and> list_all served [create_b1, approve_b1, move_b1]
   \<and> consistent (run two_lab [create_b1, approve_b1, move_b1])
   \<and> map cstatus (computers (run two_lab [create_b1, approve_b1, move_b1])) =
       [''available'', ''booked'']
   \<and> map (\<lambda>b. (status b, computerId b)) (bookings (run two_lab [create_b1, approve_b1, move_b1])) =
       [(''approved'', ''0000000000000000000000c2'')]
   \<and> map cstatus (computers (apply_op (run two_lab [create_b1, approve_b1]) move_b1)) \<noteq>
       map cstatus (computers (run two_lab [create_b1, approve_b1]))
   \<and> ((\<exists>actor i body. move_b1 = SetBookingStatus actor i body)
        \<or> (\<exists>actor i body. move_b1 = UpdateBookingTime actor i body)
        \<or> (\<exists>f currentDate currentTime. move_b1 = ExpirationSweep f currentDate currentTime))"
proof -
  have h: "consistent lab" "consistent two_lab"
    by (simp_all add: consistent_def booked_has_approved_def lab_def two_lab_def pc1_def pc2_def)
  have s: "list_all served [create_b1, create_b2, approve_b1, approve_b2,
                       ExpirationSweep no_faults ''2024-06-10'' ''10:01'']"
    "list_all served [create_b1, approve_b1]"
    "list_all served [create_b1, approve_b1, move_b1]"
    by (simp_all add: create_b1_def create_b2_def approve_b1_def approve_b2_def move_b1_def
        computer_calls_succeed_def no_faults_def)
  from C1_booked_has_approved [OF h(1) s(1)] C1_booked_has_approved [OF h(1) s(2)]
    C1_booked_has_approved [OF h(2) s(3)]
  have "consistent (run lab [create_b1, create_b2, approve_b1, approve_b2,
                          ExpirationSweep no_faults ''2024-06-10'' ''10:01''])"
    "consistent (run lab [create_b1, approve_b1])"
    "consistent (run two_lab [create_b1, approve_b1, move_b1])"
    by blast+
  moreover from C1_booked_has_approved [OF h(2) s(3)] two_lab_moved(5)
  have "(\<exists>actor i body. move_b1 = SetBookingStatus actor i body)
        \<or> (\<exists>actor i body. move_b1 = UpdateBookingTime actor i body)
        \<or> (\<exists>f currentDate currentTime. move_b1 = ExpirationSweep f currentDate currentTime)"
    by blast
  ultimately show ?thesis using h s(1,3) two_lab_moved by blast
qed

section \<open>Validation of a booking request\<close>

text \<open>
  C2, as it is worded for every creation request, fails: the route applies none of the
  interval rules. It checks that the fields are present and that the computer exists, so
  a request for Sunday 9 June 2024 that is sent to it is stored as a pending booking.
\<close>

theorem C2_counterexample:
  "req_startDate sunday_request = Some ''2024-06-09''
   \<and> format_date (19883 * msPerDay) = ''2024-06-09'' \<and> getDay (19883 * msPerDay) = 0
   \<and> fst (createBooking ''0000000000000000000000b1'' ''alice'' sunday_request lab) =
       Json 201 (new_Booking ''0000000000000000000000b1'' ''alice'' sunday_request)
   \<and> map (\<lambda>b. (startDate b, status b))
        (bookings (snd (createBooking ''0000000000000000000000b1'' ''alice'' sunday_request lab))) =
       [(''2024-06-09'', ''pending'')]"
  by code_simp

text \<open>
  C2 (as amended). The rules are those of the booking form. For a form whose two dates
  are the start of a day, as the date pickers deliver them, the message set by
  \<^verbatim>\<open>handleSubmit\<close> is the one of the first rule of the specification that fails, in its
  order: missing fields, start on Sunday, end on Sunday, end date before start date, more
  than seven days inclusive, end instant before start instant, less than 60 minutes
  within one day (a booking over several days has no minimum). Distinct rules have
  distinct messages. A form that fails a rule sends nothing and changes nothing. A form
  that passes is sent to the route; the selected computer being given by an object id,
  the route answers not found when the computer does not exist and otherwise (the
  generated id being new) stores a pending booking.
\<close>

theorem C2_validation_order:
  assumes "startOfDay (f_startDate fm)" and "startOfDay (f_endDate fm)"
  shows "validateForm fm =
           map_option message_of
             (interval_rules (formMissing fm) (dayNumber (f_startDate fm))
                (dayNumber (f_endDate fm)) (minuteOfDay (f_startTime fm))
                (minuteOfDay (f_endTime fm)))
       \<and> inj message_of
       \<and> (\<forall>msg. validateForm fm = Some msg \<longrightarrow>
             handleSubmit newId actor fm w = (SetError msg, w))
       \<and> (validateForm fm = None \<longrightarrow>
            (\<forall>j. castObjectId (selectedComputer fm) = Some j \<and> Computer_findById j w = None \<longrightarrow>
               handleSubmit newId actor fm w = (SetError ''Computer not found'', w))
            \<and> (\<forall>j c. castObjectId (selectedComputer fm) = Some j \<and>
                    Computer_findById j w = Some c \<and>
                    newId \<notin> set (map bid (bookings w)) \<longrightarrow>
                    fst (handleSubmit newId actor fm w) =
                      SetSuccess ''Booking request submitted successfully!''
                    \<and> bookings (snd (handleSubmit newId actor fm w)) =
                        bookings w @ [new_Booking newId actor (bookingData fm)]
                    \<and> status (new_Booking newId actor (bookingData fm)) = ''pending''))"
proof (intro conjI allI impI)
  show "validateForm fm =
           map_option message_of
             (interval_rules (formMissing fm) (dayNumber (f_startDate fm))
                (dayNumber (f_endDate fm)) (minuteOfDay (f_startTime fm))
                (minuteOfDay (f_endTime fm)))"
    by (rule validateForm_rules [OF assms])
  show "inj message_of" by (rule inj_message_of)
next
  fix msg assume "validateForm fm = Some msg"
  then show "handleSubmit newId actor fm w = (SetError msg, w)"
    by (simp add: handleSubmit_def)
next
  fix j
  assume v: "validateForm fm = None"
    and n: "castObjectId (selectedComputer fm) = Some j \<and> Computer_findById j w = None"
  note wf = bookingData_wellformed [OF v]
  from createBooking_wellformed(2) [OF wf(1-6), of j w newId actor] n wf(7)
  have "createBooking newId actor (bookingData fm) w = (Message 404 ''Computer not found'', w)"
    by simp
  with v show "handleSubmit newId actor fm w = (SetError ''Computer not found'', w)"
    by (simp add: handleSubmit_def)
next
  fix j c
  assume v: "validateForm fm = None"
    and c: "castObjectId (selectedComputer fm) = Some j \<and> Computer_findById j w = Some c \<and>
            newId \<notin> set (map bid (bookings w))"
  note wf = bookingData_wellformed [OF v]
  from createBooking_wellformed(3) [OF wf(1-6), of j w c newId actor] c wf(7)
  have r: "fst (createBooking newId actor (bookingData fm) w) =
             Json 201 (new_Booking newId actor (bookingData fm))"
    "bookings (snd (createBooking newId actor (bookingData fm) w)) =
               bookings w @ [new_Booking newId actor (bookingData fm)]"
    by simp_all
  obtain w' where w': "createBooking newId actor (bookingData fm) w =
      (Json 201 (new_Booking newId actor (bookingData fm)), w')"
    using r(1) by (cases "createBooking newId actor (bookingData fm) w") simp
  with v r(2) show "fst (handleSubmit newId actor fm w) =
      SetSuccess ''Booking request submitted successfully!''"
    "bookings (snd (handleSubmit newId actor fm w)) =
       bookings w @ [new_Booking newId actor (bookingData fm)]"
    by (simp_all add: handleSubmit_def)
  show "status (new_Booking newId actor (bookingData fm)) = ''pending''"
    by (simp add: new_Booking_def)
qed

lemma monday_form_computer:
  "castObjectId (selectedComputer monday_form) = Some ''0000000000000000000000c1''"
  "Computer_findById ''0000000000000000000000c1'' lab = Some pc1"
  "''0000000000000000000000b1'' \<notin> set (map bid (bookings lab))"
  by code_simp+

lemma absent_computer_form:
  "startOfDay (f_startDate (monday_form\<lparr>selectedComputer := ''0000000000000000000000c7''\<rparr>))"
  "startOfDay (f_endDate (monday_form\<lparr>selectedComputer := ''0000000000000000000000c7''\<rparr>))"
  "validateForm (monday_form\<lparr>selectedComputer := ''0000000000000000000000c7''\<rparr>) = None"
  "castObjectId (selectedComputer (monday_form\<lparr>selectedComputer := ''0000000000000000000000c7''\<rparr>)) =
     Some ''0000000000000000000000c7''"
  "Computer_findById ''0000000000000000000000c7'' lab = None"
  by code_simp+

text \<open>A Monday booking of one hour is stored as pending; a Sunday booking, a booking of
  half an hour and a booking whose reason is blank are refused by the form; a booking of
  a computer that does not exist is refused by the route.\<close>

theorem C2_witness:
  "startOfDay (f_startDate monday_form) \<and> startOfDay (f_endDate monday_form)
   \<and> validateForm monday_form = None
   \<and> fst (handleSubmit ''0000000000000000000000b1'' ''alice'' monday_form lab) =
       SetSuccess ''Booking request submitted successfully!''
   \<and> map (\<lambda>b. (startDate b, endDate b, startTime b, endTime b, status b))
        (bookings (snd (handleSubmit ''0000000000000000000000b1'' ''alice'' monday_form lab))) =
       [(''2024-06-10'', ''2024-06-10'', ''09:00'', ''10:00'', ''pending'')]
   \<and> startOfDay (f_startDate sunday_form) \<and> startOfDay (f_endDate sunday_form)
   \<and> handleSubmit ''0000000000000000000000b1'' ''alice'' sunday_form lab =
       (SetError ''Lab is closed on Sundays. Please select a different start date.'', lab)
   \<and> startOfDay (f_startDate short_form) \<and> startOfDay (f_endDate short_form)
   \<and> handleSubmit ''0000000000000000000000b1'' ''alice'' short_form lab =
       (SetError ''Minimum booking duration is 1 hour for same-day bookings'', lab)
   \<and> handleSubmit ''0000000000000000000000b1'' ''alice''
        (monday_form\<lparr>f_reason := [CHR 0xA0, CHR 0x20]\<rparr>) lab =
       (SetError ''Please fill in all required fields'', lab)
   \<and> handleSubmit ''0000000000000000000000b1'' ''alice''
        (monday_form\<lparr>selectedComputer := ''0000000000000000000000c7''\<rparr>) lab =
       (SetError ''Computer not found'', lab)"
proof -
  note sod = monday_form_startOfDay
  note m = C2_validation_order [OF sod(1,2), of "''0000000000000000000000b1''" "''alice''" lab]
  note s = C2_validation_order [OF sod(3,4), of "''0000000000000000000000b1''" "''alice''" lab]
  note t = C2_validation_order [OF sod(5,6), of "''0000000000000000000000b1''" "''alice''" lab]
  from m have "validateForm monday_form = map_option message_of
             (interval_rules (formMissing monday_form) (dayNumber (f_startDate monday_form))
                (dayNumber (f_endDate monday_form)) (minuteOfDay (f_startTime monday_form))
                (minuteOfDay (f_endTime monday_form)))"
    by blast
  then have v: "validateForm monday_form = None" by (simp only: monday_form_rules option.map)
  note c = monday_form_computer
  from m v c have r: "fst (handleSubmit ''0000000000000000000000b1'' ''alice'' monday_form lab) =
       SetSuccess ''Booking request submitted successfully!''"
    "bookings (snd (handleSubmit ''0000000000000000000000b1'' ''alice'' monday_form lab)) =
       bookings lab @ [new_Booking ''0000000000000000000000b1'' ''alice'' (bookingData monday_form)]"
    by blast+
  have r2: "map (\<lambda>b. (startDate b, endDate b, startTime b, endTime b, status b))
        (bookings (snd (handleSubmit ''0000000000000000000000b1'' ''alice'' monday_form lab))) =
       [(''2024-06-10'', ''2024-06-10'', ''09:00'', ''10:00'', ''pending'')]"
    unfolding r(2) by (rule monday_form_booking)
  from s have "validateForm sunday_form = map_option message_of
             (interval_rules (formMissing sunday_form) (dayNumber (f_startDate sunday_form))
                (dayNumber (f_endDate sunday_form)) (minuteOfDay (f_startTime sunday_form))
                (minuteOfDay (f_endTime sunday_form)))"
    by blast
  then have "validateForm sunday_form =
      Some ''Lab is closed on Sundays. Please select a different start date.''"
    by (simp only: monday_form_rules option.map message_of.simps)
  with s have e1: "handleSubmit ''0000000000000000000000b1'' ''alice'' sunday_form lab =
       (SetError ''Lab is closed on Sundays. Please select a different start date.'', lab)"
    by blast
  from t have "validateForm short_form = map_option message_of
             (interval_rules (formMissing short_form) (dayNumber (f_startDate short_form))
                (dayNumber (f_endDate short_form)) (minuteOfDay (f_startTime short_form))
                (minuteOfDay (f_endTime short_form)))"
    by blast
  then have "validateForm short_form =
      Some ''Minimum booking duration is 1 hour for same-day bookings''"
    by (simp only: monday_form_rules option.map message_of.simps)
  with t have e2: "handleSubmit ''0000000000000000000000b1'' ''alice'' short_form lab =
       (SetError ''Minimum booking duration is 1 hour for same-day bookings'', lab)"
    by blast
  from C2_validation_order [OF blank_reason_rules(1,2), of "''0000000000000000000000b1''"
      "''alice''" lab] blank_reason_rules(3)
  have e3: "handleSubmit ''0000000000000000000000b1'' ''alice''
        (monday_form\<lparr>f_reason := [CHR 0xA0, CHR 0x20]\<rparr>) lab =
       (SetError ''Please fill in all required fields'', lab)"
    by blast
  from C2_validation_order [OF absent_computer_form(1,2), of "''0000000000000000000000b1''"
      "''alice''" lab] absent_computer_form(3,4,5)
  have e4: "handleSubmit ''0000000000000000000000b1'' ''alice''
        (monday_form\<lparr>selectedComputer := ''0000000000000000000000c7''\<rparr>) lab =
       (SetError ''Computer not found'', lab)"
    by blast
  from sod v r(1) r2 e1 e2 e3 e4 show ?thesis by blast
qed

section \<open>The selection of the sweep\<close>

text \<open>
  C3, as the specification words it, fails: an approved booking that began yesterday and
  ended today at 10:00 is not selected at 12:00 today, since a booking is compared by time
  of day only when it also starts today.
\<close>

theorem C3_counterexample:
  "overnight \<in> set (bookings (lab\<lparr>bookings := [overnight]\<rparr>))
   \<and> status overnight = ''approved''
   \<and> claimed_selection ''2024-06-11'' ''12:00'' overnight
   \<and> overnight \<notin> set (expiredBookings ''2024-06-11'' ''12:00'' (lab\<lparr>bookings := [overnight]\<rparr>))"
  by (simp add: overnight_def lab_def claimed_selection_def expiredBookings_def isExpired_def
      hasEnded_def)

text \<open>
  C3 (as amended). A booking is selected by the sweep at \<open>(currentDate, currentTime)\<close>
  if and only if its status is approved and either its end date is strictly before the
  current date, or it starts and ends on the current date and its end time is strictly
  before the current time. A booking with any other status is never selected.
\<close>

theorem C3_selection:
  "b \<in> set (expiredBookings currentDate currentTime w) \<longleftrightarrow>
     b \<in> set (bookings w) \<and> status b = ''approved'' \<and>
     (endDate b < currentDate \<or>
      (startDate b = currentDate \<and> endDate b = currentDate \<and> endTime b < currentTime))"
  by (auto simp: expiredBookings_def isExpired_def hasEnded_def)

section \<open>Terminal states\<close>

lemma find_updated:
  assumes "distinct (map bid bs)" "b \<in> set bs" "bid (g b) = bid b"
  shows "find (\<lambda>x. bid x = bid b) (map (\<lambda>x. if bid x = bid b then g x else x) bs) = Some (g b)"
  using assms
proof (induction bs)
  case Nil
  then show ?case by simp
next
  case (Cons a bs)
  show ?case
  proof (cases "bid a = bid b")
    case True
    with Cons.prems have "a = b" by (auto simp: image_iff)
    with Cons.prems show ?thesis by simp
  next
    case False
    with Cons show ?thesis by auto
  qed
qed

lemma rejected_lab_bookings:
  "bookings rejected_lab =
     [\<lparr>bid = ''0000000000000000000000b1'', userId = ''alice'', computerId = ''0000000000000000000000c1'', startDate = ''2024-06-10'',
       endDate = ''2024-06-10'', startTime = ''09:00'', endTime = ''10:00'',
       reason = ''test'', status = ''rejected'', rejectionReason = Some ''no free slot'',
       project = no_details\<rparr>]"
  by code_simp

lemma rejected_lab_users: "users rejected_lab = [admin1, alice]"
  by code_simp

lemma updateBookingTime_keeps_terminal:
  assumes "distinct (map bid (bookings w))" "b \<in> set (bookings w)" "terminal (status b)"
  shows "b \<in> set (bookings (snd (updateBookingTime actor i body w)))"
proof -
  have other: "bid b \<noteq> bid b0" if "Booking_findById j w = Some b0" "status b0 = ''approved''"
    for j b0
  proof
    assume "bid b = bid b0"
    moreover from that(1) have "b0 \<in> set (bookings w)" by (simp add: Booking_findById_Some)
    ultimately have "b = b0" using assms(1,2) by (auto intro: bid_unique)
    with that(2) assms(3) show False by (simp add: terminal_def)
  qed
  show ?thesis
  proof (cases rule: updateBookingTime_cases [of actor i body w])
    case unchanged
    with assms(2) show ?thesis by simp
  next
    case (cast_error e)
    with assms(2) show ?thesis by simp
  next
    case (same_computer b0 j)
    from other [OF same_computer(1,2)] assms(2) show ?thesis
      unfolding same_computer(3) by (auto simp: image_iff intro!: bexI [of _ b])
  next
    case (released b0 j k c)
    from other [OF released(1,2)] assms(2) show ?thesis
      unfolding released(5) by (auto simp: image_iff intro!: bexI [of _ b])
  next
    case (kept b0 j k c other)
    from other [OF kept(1,2)] assms(2) show ?thesis
      unfolding kept(5) by (auto simp: image_iff intro!: bexI [of _ b])
  qed
qed

text \<open>
  C4, as the specification words it, fails: a rejected booking, which is in a terminal
  state, becomes approved when an admin approves it; the status route does not look at
  the current status.
\<close>

theorem C4_counterexample:
  "map status (bookings rejected_lab) = [''rejected''] \<and> terminal ''rejected''
   \<and> map status (bookings (apply_op rejected_lab approve_b1)) = [''approved'']"
  by code_simp

text \<open>
  C4 (as amended). With unique booking ids: creation changes no existing booking; the
  sweep changes exactly the bookings it selects (and can save), from approved to
  completed, which is the only automatic transition; so a booking in a terminal state
  is left as it is by both, as it is by the route that moves a booking, which accepts
  approved bookings only. The status route has no guard on the current status: for an
  admin and a valid request it sets the status of any existing booking, terminal or not,
  named by its object id, to the target, and keeps the stored rejection reason unless the
  target is rejected.
\<close>

theorem C4_terminal_bookings:
  assumes "distinct (map bid (bookings w))"
  shows "(\<exists>bs. bookings (snd (createBooking newId actor body w)) = bookings w @ bs)
   \<and> bookings (snd (checkExpiredBookings f currentDate currentTime w)) =
       map (\<lambda>x. if isExpired currentDate currentTime x \<and> \<not> f BookingFind \<and> \<not> f (BookingSave (bid x))
                then x\<lparr>status := ''completed''\<rparr> else x) (bookings w)
   \<and> (\<forall>b \<in> set (bookings w). terminal (status b) \<longrightarrow>
         b \<in> set (bookings (snd (createBooking newId actor body w)))
         \<and> b \<in> set (bookings (snd (checkExpiredBookings f currentDate currentTime w)))
         \<and> b \<in> set (bookings (snd (updateBookingTime mover i change w))))
   \<and> (\<forall>b u. b \<in> set (bookings w) \<and> castObjectId (bid b) = Some (bid b) \<and>
            find (\<lambda>u. firebaseUid u = admin) (users w) = Some u \<and> role u = ''admin'' \<and>
            str (req_status decision) \<in> set [''approved'', ''rejected'', ''cancelled''] \<and>
            \<not> (str (req_status decision) = ''rejected'' \<and> falsy (req_rejectionReason decision)) \<longrightarrow>
            Booking_findById (bid b) (snd (setBookingStatus admin (bid b) decision w)) =
              Some (b\<lparr>status := str (req_status decision),
                      rejectionReason := (if str (req_status decision) = ''rejected''
                                          then req_rejectionReason decision
                                          else rejectionReason b)\<rparr>))"
proof (intro conjI ballI allI impI)
  show c: "\<exists>bs. bookings (snd (createBooking newId actor body w)) = bookings w @ bs"
    by (cases rule: createBooking_cases [of newId actor body w]) simp_all
  show s: "bookings (snd (checkExpiredBookings f currentDate currentTime w)) =
       map (\<lambda>x. if isExpired currentDate currentTime x \<and> \<not> f BookingFind \<and> \<not> f (BookingSave (bid x))
                then x\<lparr>status := ''completed''\<rparr> else x) (bookings w)"
    by (rule sweep_bookings_distinct [OF assms])
  fix b
  assume b: "b \<in> set (bookings w)" and t: "terminal (status b)"
  from c b show "b \<in> set (bookings (snd (createBooking newId actor body w)))" by auto
  from t have "\<not> isExpired currentDate currentTime b"
    by (auto simp: terminal_def isExpired_def)
  with b show "b \<in> set (bookings (snd (checkExpiredBookings f currentDate currentTime w)))"
    unfolding s by (auto simp: image_iff intro!: bexI [of _ b])
  show "b \<in> set (bookings (snd (updateBookingTime mover i change w)))"
    by (rule updateBookingTime_keeps_terminal [OF assms b t])
next
  fix b u
  assume a: "b \<in> set (bookings w) \<and> castObjectId (bid b) = Some (bid b) \<and>
            find (\<lambda>u. firebaseUid u = admin) (users w) = Some u \<and> role u = ''admin'' \<and>
            str (req_status decision) \<in> set [''approved'', ''rejected'', ''cancelled''] \<and>
            \<not> (str (req_status decision) = ''rejected'' \<and> falsy (req_rejectionReason decision))"
  then have fb: "Booking_findById (bid b) w = Some b"
    using Booking_findById_distinct [OF assms] by blast
  from a have "bookings (snd (setBookingStatus admin (bid b) decision w)) =
     map (\<lambda>x. if bid x = bid b
              then x\<lparr>status := str (req_status decision),
                     rejectionReason := (if str (req_status decision) = ''rejected''
                                         then req_rejectionReason decision else rejectionReason b)\<rparr>
              else x) (bookings w)"
    by (intro setBookingStatus_bookings [OF _ _ _ _ fb]) blast+
  moreover have "find (\<lambda>x. bid x = bid b)
     (map (\<lambda>x. if bid x = bid b
              then (\<lambda>x. x\<lparr>status := str (req_status decision),
                     rejectionReason := (if str (req_status decision) = ''rejected''
                                         then req_rejectionReason decision else rejectionReason b)\<rparr>) x
              else x) (bookings w)) =
     Some ((\<lambda>x. x\<lparr>status := str (req_status decision),
                     rejectionReason := (if str (req_status decision) = ''rejected''
                                         then req_rejectionReason decision else rejectionReason b)\<rparr>) b)"
    using a by (intro find_updated [OF assms]) simp_all
  ultimately show "Booking_findById (bid b) (snd (setBookingStatus admin (bid b) decision w)) =
              Some (b\<lparr>status := str (req_status decision),
                      rejectionReason := (if str (req_status decision) = ''rejected''
                                          then req_rejectionReason decision
                                          else rejectionReason b)\<rparr>)"
    by (simp add: Booking_findById_def)
qed

theorem C4_witness:
  "distinct (map bid (bookings rejected_lab))
   \<and> castObjectId ''0000000000000000000000b1'' = Some ''0000000000000000000000b1''
   \<and> map status (bookings rejected_lab) = [''rejected''] \<and> terminal ''rejected''
   \<and> bookings (snd (checkExpiredBookings no_faults ''2024-06-11'' ''00:00'' rejected_lab)) =
       bookings rejected_lab
   \<and> take 1 (bookings (snd (createBooking ''0000000000000000000000b2'' ''alice'' threeday_request rejected_lab))) =
       bookings rejected_lab
   \<and> map startTime (bookings (snd (updateBookingTime ''admin1''
        ''0000000000000000000000b1''
        \<lparr>upd_startTime = Some ''11:00'', upd_endTime = None, upd_computerId = None,
          upd_endDate = None\<rparr> rejected_lab))) = [''09:00'']
   \<and> map_option status
        (Booking_findById ''0000000000000000000000b1'' (snd (setBookingStatus ''admin1'' ''0000000000000000000000b1'' approve rejected_lab))) =
       Some ''approved''"
proof -
  let ?b = "\<lparr>bid = ''0000000000000000000000b1'', userId = ''alice'', computerId = ''0000000000000000000000c1'', startDate = ''2024-06-10'',
       endDate = ''2024-06-10'', startTime = ''09:00'', endTime = ''10:00'',
       reason = ''test'', status = ''rejected'', rejectionReason = Some ''no free slot'',
       project = no_details\<rparr>"
  have d: "distinct (map bid (bookings rejected_lab))" by (simp add: rejected_lab_bookings)
  have t: "map status (bookings rejected_lab) = [''rejected'']" "terminal ''rejected''"
    by (simp_all add: rejected_lab_bookings terminal_def)
  have m: "?b \<in> set (bookings rejected_lab)" by (simp add: rejected_lab_bookings)
  have k: "castObjectId (bid ?b) = Some (bid ?b)" by code_simp
  have adm: "find (\<lambda>u. firebaseUid u = ''admin1'') (users rejected_lab) = Some admin1"
    "role admin1 = ''admin''"
    by (simp_all add: rejected_lab_users admin1_def)
  have st: "str (req_status approve) \<in> set [''approved'', ''rejected'', ''cancelled'']"
    "\<not> (str (req_status approve) = ''rejected'' \<and> falsy (req_rejectionReason approve))"
    by (simp_all add: approve_def str_def)
  note inst = C4_terminal_bookings [OF d, of "''0000000000000000000000b2''" "''alice''" threeday_request no_faults
      "''2024-06-11''" "''00:00''" "''admin1''" "''0000000000000000000000b1''"
      "\<lparr>upd_startTime = Some ''11:00'', upd_endTime = None, upd_computerId = None,
        upd_endDate = None\<rparr>" "''admin1''" approve]
  have mv': "map startTime (bookings (snd (updateBookingTime ''admin1''
        ''0000000000000000000000b1''
        \<lparr>upd_startTime = Some ''11:00'', upd_endTime = None, upd_computerId = None,
          upd_endDate = None\<rparr> rejected_lab))) = [''09:00'']"
    by code_simp
  from inst have "bookings (snd (checkExpiredBookings no_faults ''2024-06-11'' ''00:00'' rejected_lab)) =
       map (\<lambda>x. if isExpired ''2024-06-11'' ''00:00'' x \<and> \<not> no_faults BookingFind \<and>
                    \<not> no_faults (BookingSave (bid x))
                then x\<lparr>status := ''completed''\<rparr> else x) (bookings rejected_lab)"
    by blast
  then have s: "bookings (snd (checkExpiredBookings no_faults ''2024-06-11'' ''00:00'' rejected_lab)) =
       bookings rejected_lab"
    by (simp add: rejected_lab_bookings isExpired_def)
  from inst obtain bs where
    "bookings (snd (createBooking ''0000000000000000000000b2'' ''alice'' threeday_request rejected_lab)) =
       bookings rejected_lab @ bs"
    by blast
  then have c: "take 1 (bookings (snd (createBooking ''0000000000000000000000b2'' ''alice'' threeday_request rejected_lab))) =
       bookings rejected_lab"
    by (simp add: rejected_lab_bookings)
  from inst m k adm st
  have "Booking_findById (bid ?b) (snd (setBookingStatus ''admin1'' (bid ?b) approve rejected_lab)) =
              Some (?b\<lparr>status := str (req_status approve),
                      rejectionReason := (if str (req_status approve) = ''rejected''
                                          then req_rejectionReason approve
                                          else rejectionReason ?b)\<rparr>)"
    by blast
  then have a: "map_option status
        (Booking_findById ''0000000000000000000000b1'' (snd (setBookingStatus ''admin1'' ''0000000000000000000000b1'' approve rejected_lab))) =
       Some ''approved''"
    by (simp add: approve_def str_def)
  from k have "castObjectId ''0000000000000000000000b1'' = Some ''0000000000000000000000b1''"
    by simp
  with d t s c a mv' show ?thesis by blast
qed

section \<open>Computers in maintenance\<close>

lemma set_computer_status_other:
  assumes "c \<in> set (computers w)" "cid c \<noteq> j"
  shows "c \<in> set (computers (set_computer_status j s w))"
  using assms by (auto simp: image_iff intro!: bexI [of _ c])

text \<open>
  C5, as the specification words it, fails: approving a booking on a computer in
  maintenance sets the computer to booked, and rejecting one sets it to available (no
  other approved booking refers to it).
\<close>

theorem C5_counterexample:
  "map cstatus (computers maintenance_lab) = [''maintenance'']
   \<and> map cstatus (computers (run maintenance_lab [create_b1, approve_b1])) = [''booked'']
   \<and> map cstatus (computers (run maintenance_lab [create_b1, reject_b1])) = [''available'']"
  by code_simp

text \<open>
  C5 (as amended). With unique computer ids, the status of a computer in maintenance is
  changed neither by the sweep, whatever store calls fail, nor by the creation of a
  booking, nor by a status request for a booking on another computer (the booking that
  the id of the request denotes).
\<close>

theorem C5_maintenance:
  assumes "distinct (map cid (computers w))" and "c \<in> set (computers w)"
    and "cstatus c = ''maintenance''"
  shows "c \<in> set (computers (snd (checkExpiredBookings f currentDate currentTime w)))
   \<and> computers (snd (createBooking newId actor body w)) = computers w
   \<and> ((\<forall>j b. castObjectId i = Some j \<and> Booking_findById j w = Some b \<longrightarrow>
               computerId b \<noteq> cid c) \<longrightarrow>
        c \<in> set (computers (snd (setBookingStatus admin i decision w))))"
proof (intro conjI impI)
  from assms(3) have "cstatus c \<noteq> ''booked''" by simp
  with sweep_computers [OF assms(1), of f currentDate currentTime] assms(2)
  show "c \<in> set (computers (snd (checkExpiredBookings f currentDate currentTime w)))" by blast
  show "computers (snd (createBooking newId actor body w)) = computers w"
    by (cases rule: createBooking_cases [of newId actor body w]) simp_all
  assume other: "\<forall>j b. castObjectId i = Some j \<and> Booking_findById j w = Some b \<longrightarrow>
                   computerId b \<noteq> cid c"
  show "c \<in> set (computers (snd (setBookingStatus admin i decision w)))"
  proof (cases rule: setBookingStatus_cases [of admin i decision w])
    case unchanged
    with assms(2) show ?thesis by simp
  next
    case (missing_computer b)
    with assms(2) show ?thesis by simp
  next
    case (approved b c0 n j)
    from approved(1,3,5) other have "cid c \<noteq> cid c0" by (auto dest: Computer_findById_Some)
    from set_computer_status_other [OF _ this, of "save_booking (bid b) ''approved'' (rejectionReason b) w" "''booked''"]
      assms(2)
    show ?thesis unfolding approved(4) by simp
  next
    case (released b c0 n j)
    from released(1,4,7) other have "cid c \<noteq> cid c0" by (auto dest: Computer_findById_Some)
    from set_computer_status_other [OF _ this, of "save_booking (bid b) (str (req_status decision))
              (if str (req_status decision) = ''rejected'' then req_rejectionReason decision
               else rejectionReason b) w" "''available''"]
      assms(2)
    show ?thesis unfolding released(6) by simp
  next
    case (kept b c0 n other)
    with assms(2) show ?thesis by simp
  next
    case cast_error
    with assms(2) show ?thesis by simp
  qed
qed

text \<open>A sweep completes the ended booking on the computer in maintenance, and the
  booking on the other computer is approved: the computer stays in maintenance.\<close>

lemma closed_lab_sweep:
  "map status (bookings (snd (checkExpiredBookings no_faults ''2024-06-11'' ''00:00'' closed_lab))) =
     [''completed'', ''pending'']"
  by code_simp

lemma closed_lab_approve:
  "map cstatus (computers (snd (setBookingStatus ''admin1'' ''0000000000000000000000b4'' approve closed_lab))) =
     [''maintenance'', ''booked'']"
  by code_simp

theorem C5_witness:
  "distinct (map cid (computers closed_lab))
   \<and> pc1\<lparr>cstatus := ''maintenance''\<rparr> \<in> set (computers closed_lab)
   \<and> cstatus (pc1\<lparr>cstatus := ''maintenance''\<rparr>) = ''maintenance''
   \<and> map status (bookings (snd (checkExpiredBookings no_faults ''2024-06-11'' ''00:00'' closed_lab))) =
       [''completed'', ''pending'']
   \<and> pc1\<lparr>cstatus := ''maintenance''\<rparr>
       \<in> set (computers (snd (checkExpiredBookings no_faults ''2024-06-11'' ''00:00'' closed_lab)))
   \<and> castObjectId ''0000000000000000000000b4'' = Some ''0000000000000000000000b4''
   \<and> Booking_findById ''0000000000000000000000b4'' closed_lab = Some waiting
   \<and> computerId waiting \<noteq> cid (pc1\<lparr>cstatus := ''maintenance''\<rparr>)
   \<and> map cstatus (computers (snd (setBookingStatus ''admin1'' ''0000000000000000000000b4'' approve closed_lab))) =
       [''maintenance'', ''booked'']
   \<and> pc1\<lparr>cstatus := ''maintenance''\<rparr>
       \<in> set (computers (snd (setBookingStatus ''admin1'' ''0000000000000000000000b4'' approve closed_lab)))"
proof -
  have h: "distinct (map cid (computers closed_lab))"
    "pc1\<lparr>cstatus := ''maintenance''\<rparr> \<in> set (computers closed_lab)"
    "cstatus (pc1\<lparr>cstatus := ''maintenance''\<rparr>) = ''maintenance''"
    by (simp_all add: closed_lab_def lab_def pc1_def pc2_def)
  have n: "Booking_findById ''0000000000000000000000b4'' closed_lab = Some waiting"
    "computerId waiting \<noteq> cid (pc1\<lparr>cstatus := ''maintenance''\<rparr>)"
    by (simp_all add: Booking_findById_def closed_lab_def ended1_def waiting_def overnight_def
        pc1_def)
  have k: "castObjectId ''0000000000000000000000b4'' = Some ''0000000000000000000000b4''"
    by code_simp
  from C5_maintenance [OF h, of no_faults "''2024-06-11''" "''00:00''" "''0000000000000000000000b2''" "''alice''"
      threeday_request "''0000000000000000000000b4''" "''admin1''" approve] n k
  have "pc1\<lparr>cstatus := ''maintenance''\<rparr>
       \<in> set (computers (snd (checkExpiredBookings no_faults ''2024-06-11'' ''00:00'' closed_lab)))"
    "pc1\<lparr>cstatus := ''maintenance''\<rparr>
       \<in> set (computers (snd (setBookingStatus ''admin1'' ''0000000000000000000000b4'' approve closed_lab)))"
    by simp_all
  with h n k closed_lab_sweep closed_lab_approve show ?thesis by blast
qed

section \<open>Rejection reasons\<close>

lemma rejected_has_reason_cong:
  "bookings w' = bookings w \<Longrightarrow> rejected_has_reason w' = rejected_has_reason w"
  by (simp add: rejected_has_reason_def)

lemma rejected_has_reason_append:
  "bookings w' = bookings w @ [b] \<Longrightarrow> status b \<noteq> ''rejected'' \<Longrightarrow>
   rejected_has_reason w \<Longrightarrow> rejected_has_reason w'"
  by (simp add: rejected_has_reason_def)

lemma rejected_has_reason_save:
  assumes "rejected_has_reason w" "s = ''rejected'' \<longrightarrow> \<not> falsy r"
  shows "rejected_has_reason (save_booking j s r w)"
  using assms unfolding rejected_has_reason_def by auto

lemma create_keeps_reasons:
  assumes "rejected_has_reason w"
  shows "rejected_has_reason (snd (createBooking newId actor body w))"
proof (cases rule: createBooking_cases [of newId actor body w])
  case refused
  with assms show ?thesis by simp
next
  case duplicate
  with assms show ?thesis by (simp only: rejected_has_reason_cong [OF console_log_frame(1)])
next
  case cast_error
  with assms show ?thesis by (simp only: rejected_has_reason_cong [OF console_log_frame(1)])
next
  case (created c)
  have "status (new_Booking newId actor body) \<noteq> ''rejected''" by (simp add: new_Booking_def)
  from rejected_has_reason_append [OF created(3) this assms] show ?thesis .
qed

lemma setBookingStatus_keeps_reasons:
  assumes "rejected_has_reason w"
  shows "rejected_has_reason (snd (setBookingStatus actor i body w))"
proof (cases rule: setBookingStatus_cases [of actor i body w])
  case unchanged
  with assms show ?thesis by simp
next
  case (missing_computer b)
  have "rejected_has_reason (save_booking (bid b) (str (req_status body))
              (if str (req_status body) = ''rejected'' then req_rejectionReason body
               else rejectionReason b) w)"
    by (rule rejected_has_reason_save [OF assms]) (use missing_computer(3) in simp)
  then show ?thesis unfolding missing_computer(5)
    by (simp only: rejected_has_reason_cong [OF console_log_frame(1)])
next
  case (approved b c n)
  have "rejected_has_reason (save_booking (bid b) ''approved'' (rejectionReason b) w)"
    by (rule rejected_has_reason_save [OF assms]) simp
  then show ?thesis unfolding approved(4)
    by (simp only: rejected_has_reason_cong [OF insert_notification_frame(1)]
        rejected_has_reason_cong [OF set_computer_status_frame(1)])
next
  case (released b c n)
  have "rejected_has_reason (save_booking (bid b) (str (req_status body))
              (if str (req_status body) = ''rejected'' then req_rejectionReason body
               else rejectionReason b) w)"
    by (rule rejected_has_reason_save [OF assms]) (use released(3) in simp)
  then show ?thesis unfolding released(6)
    by (simp only: rejected_has_reason_cong [OF insert_notification_frame(1)]
        rejected_has_reason_cong [OF set_computer_status_frame(1)])
next
  case (kept b c n other)
  have "rejected_has_reason (save_booking (bid b) (str (req_status body))
              (if str (req_status body) = ''rejected'' then req_rejectionReason body
               else rejectionReason b) w)"
    by (rule rejected_has_reason_save [OF assms]) (use kept(3) in simp)
  then show ?thesis unfolding kept(6)
    by (simp only: rejected_has_reason_cong [OF insert_notification_frame(1)])
next
  case cast_error
  with assms show ?thesis by (simp only: rejected_has_reason_cong [OF console_log_frame(1)])
qed

lemma save_booking_time_keeps_reasons:
  "rejected_has_reason w \<Longrightarrow> rejected_has_reason (save_booking_time j k body w)"
  unfolding rejected_has_reason_def by auto

lemma updateBookingTime_keeps_reasons:
  assumes "rejected_has_reason w"
  shows "rejected_has_reason (snd (updateBookingTime actor i body w))"
proof (cases rule: updateBookingTime_cases [of actor i body w])
  case unchanged
  with assms show ?thesis by simp
next
  case (cast_error e)
  with assms show ?thesis by (simp only: rejected_has_reason_cong [OF console_log_frame(1)])
next
  case (same_computer b j)
  from save_booking_time_keeps_reasons [OF assms] show ?thesis unfolding same_computer(3) .
next
  case (released b j k c)
  have "rejected_has_reason (set_computer_status k ''booked''
          (set_computer_status (computerId b) ''available'' w))"
    using assms by (simp only: rejected_has_reason_cong [OF set_computer_status_frame(1)])
  from save_booking_time_keeps_reasons [OF this] show ?thesis unfolding released(5) .
next
  case (kept b j k c other)
  have "rejected_has_reason (set_computer_status k ''booked'' w)"
    using assms by (simp only: rejected_has_reason_cong [OF set_computer_status_frame(1)])
  from save_booking_time_keeps_reasons [OF this] show ?thesis unfolding kept(5) .
qed

lemma sweep_keeps_reasons:
  assumes "rejected_has_reason w"
  shows "rejected_has_reason (snd (checkExpiredBookings f cd ct w))"
proof -
  obtain P where "bookings (snd (checkExpiredBookings f cd ct w)) =
         map (\<lambda>b. if P b then b\<lparr>status := ''completed''\<rparr> else b) (bookings w)"
    using sweep_bookings_shape by blast
  with assms show ?thesis by (auto simp: rejected_has_reason_def)
qed

lemma apply_op_keeps_reasons:
  "rejected_has_reason w \<Longrightarrow> rejected_has_reason (apply_op w x)"
  by (cases x)
    (simp_all add: create_keeps_reasons setBookingStatus_keeps_reasons
      updateBookingTime_keeps_reasons sweep_keeps_reasons)

text \<open>
  C6, as the specification words it, fails: after a booking has been rejected, approving
  it leaves the stored rejection reason in place, so a booking that is not rejected has a
  rejection reason.
\<close>

theorem C6_counterexample:
  "map (\<lambda>b. (status b, rejectionReason b)) (bookings (run lab [create_b1, reject_b1])) =
     [(''rejected'', Some ''no free slot'')]
   \<and> map (\<lambda>b. (status b, rejectionReason b)) (bookings (run lab [create_b1, reject_b1, approve_b1])) =
     [(''approved'', Some ''no free slot'')]"
  by code_simp

text \<open>
  C6 (as amended). After every sequence of operations of the engine (creations, status
  requests, moves of a booking, and sweeps, whatever store calls fail in them), from a
  state where this holds, every booking whose status is rejected has a non-empty
  rejection reason.
\<close>

theorem C6_rejected_has_reason:
  "rejected_has_reason w \<Longrightarrow> rejected_has_reason (run w ops)"
  unfolding run_def
  by (induction ops arbitrary: w) (simp_all add: apply_op_keeps_reasons)

lemma rejected_lab_continued:
  "map (\<lambda>b. (status b, rejectionReason b))
     (bookings (run rejected_lab [create_b2, approve_b2, move_b1,
                                  ExpirationSweep first_save_fails ''2024-06-11'' ''00:00''])) =
   [(''rejected'', Some ''no free slot''), (''approved'', None)]"
  by code_simp

text \<open>From the empty laboratory a booking is created and rejected: it carries the reason
  given. From there a second booking is created and approved, a move of the rejected
  booking is refused, and a sweep runs: the rejected booking still carries its reason.\<close>

theorem C6_witness:
  "rejected_has_reason lab
   \<and> rejected_has_reason (run lab [create_b1, reject_b1])
   \<and> map (\<lambda>b. (status b, rejectionReason b)) (bookings (run lab [create_b1, reject_b1])) =
       [(''rejected'', Some ''no free slot'')]
   \<and> rejected_has_reason
        (run (run lab [create_b1, reject_b1])
           [create_b2, approve_b2, move_b1,
            ExpirationSweep first_save_fails ''2024-06-11'' ''00:00''])
   \<and> map (\<lambda>b. (status b, rejectionReason b))
        (bookings (run (run lab [create_b1, reject_b1])
                     [create_b2, approve_b2, move_b1,
                      ExpirationSweep first_save_fails ''2024-06-11'' ''00:00''])) =
       [(''rejected'', Some ''no free slot''), (''approved'', None)]"
proof -
  have h: "rejected_has_reason lab" by (simp add: rejected_has_reason_def lab_def)
  from C6_rejected_has_reason [OF h, of "[create_b1, reject_b1]"]
  have r: "rejected_has_reason (run lab [create_b1, reject_b1])" .
  from C6_rejected_has_reason [OF r, of "[create_b2, approve_b2, move_b1,
            ExpirationSweep first_save_fails ''2024-06-11'' ''00:00'']"]
  have r': "rejected_has_reason
        (run (run lab [create_b1, reject_b1])
           [create_b2, approve_b2, move_b1,
            ExpirationSweep first_save_fails ''2024-06-11'' ''00:00''])" .
  have e: "map (\<lambda>b. (status b, rejectionReason b)) (bookings (run lab [create_b1, reject_b1])) =
       [(''rejected'', Some ''no free slot'')]"
    using rejected_lab_bookings by (simp add: rejected_lab_def)
  from h r r' e rejected_lab_continued [unfolded rejected_lab_def] show ?thesis by blast
qed

section \<open>Running the sweep twice\<close>

text \<open>
  C7. A sweep whose store calls succeed sets the status of every selected booking to
  completed, so a second sweep at the same date and time selects no booking: it processes
  nothing and only reports a count of zero.
\<close>

theorem C7_sweep_idempotent:
  "bookings (snd (checkExpiredBookings no_faults currentDate currentTime w)) =
     map (\<lambda>b. if bid b \<in> set (map bid (expiredBookings currentDate currentTime w))
              then b\<lparr>status := ''completed''\<rparr> else b) (bookings w)
   \<and> expiredBookings currentDate currentTime
       (snd (checkExpiredBookings no_faults currentDate currentTime w)) = []
   \<and> checkExpiredBookings no_faults currentDate currentTime
       (snd (checkExpiredBookings no_faults currentDate currentTime w)) =
     (None, console_log (LogUpdatedCount 0)
              (snd (checkExpiredBookings no_faults currentDate currentTime w)))"
proof -
  let ?w1 = "snd (checkExpiredBookings no_faults currentDate currentTime w)"
  have b: "bookings ?w1 =
     map (\<lambda>b. if bid b \<in> set (map bid (expiredBookings currentDate currentTime w))
              then b\<lparr>status := ''completed''\<rparr> else b) (bookings w)"
    by (rule sweep_bookings_no_faults)
  have e: "expiredBookings currentDate currentTime ?w1 = []"
    unfolding expiredBookings_def [of _ _ ?w1] b
    unfolding expiredBookings_def by (rule no_expired_after)
  have "checkExpiredBookings no_faults currentDate currentTime ?w1 =
          (None, console_log (LogUpdatedCount 0) ?w1)"
    using sweep_nothing_expired [of currentDate currentTime ?w1 no_faults] e by (simp add: no_faults_def)
  with b e show ?thesis by blast
qed

section \<open>Failures during a sweep\<close>

text \<open>
  C8. Whatever calls to the store fail, the sweep returns without an exception. When its
  query fails, that is logged and nothing else happens. Otherwise every selected booking
  is handled, in the order of the selection and from the state that the handling of the
  bookings before it has left, whether or not those failed, and the number of selected
  bookings is logged. The handling of a booking never throws. When the save of the
  booking fails, the error is logged and nothing is changed. When the read of its
  computer or the save of the released computer fails, the booking has been completed and
  the error is logged. In each of these cases the booking is not logged as processed.
  When none of the three fails, the booking is completed, its computer is released if it
  was booked, the notifications are stored up to the first that fails (which is then
  logged), and the booking is logged as processed.
\<close>

theorem C8_sweep_isolates_failures:
  "fst (checkExpiredBookings f currentDate currentTime w) = None
   \<and> (f BookingFind \<longrightarrow>
        snd (checkExpiredBookings f currentDate currentTime w) =
          console_log (ErrExpirationService (StoreError BookingFind)) w)
   \<and> (\<not> f BookingFind \<longrightarrow>
        snd (checkExpiredBookings f currentDate currentTime w) =
          console_log (LogUpdatedCount (length (expiredBookings currentDate currentTime w)))
            (foldl (\<lambda>v x. snd (handleExpiredBooking f x v)) w
               (expiredBookings currentDate currentTime w)))
   \<and> fst (handleExpiredBooking f b v) = None
   \<and> (f (BookingSave (bid b)) \<longrightarrow>
        snd (handleExpiredBooking f b v) =
          console_log (ErrHandlingExpired (StoreError (BookingSave (bid b)))) v)
   \<and> (\<not> f (BookingSave (bid b)) \<and> f (ComputerFindById (computerId b)) \<longrightarrow>
        snd (handleExpiredBooking f b v) =
          console_log (ErrHandlingExpired (StoreError (ComputerFindById (computerId b))))
            (save_booking_status (bid b) ''completed'' v))
   \<and> (\<forall>c. \<not> f (BookingSave (bid b)) \<and> \<not> f (ComputerFindById (computerId b)) \<and>
           Computer_findById (computerId b) v = Some c \<and> cstatus c = ''booked'' \<and>
           f (ComputerSave (cid c)) \<longrightarrow>
        snd (handleExpiredBooking f b v) =
          console_log (ErrHandlingExpired (StoreError (ComputerSave (cid c))))
            (save_booking_status (bid b) ''completed'' v))
   \<and> (\<not> f (BookingSave (bid b)) \<and> \<not> f (ComputerFindById (computerId b)) \<and>
       (\<forall>c. Computer_findById (computerId b) v = Some c \<and> cstatus c = ''booked'' \<longrightarrow>
            \<not> f (ComputerSave (cid c))) \<longrightarrow>
        snd (handleExpiredBooking f b v) =
          console_log (LogBookingProcessed (bid b))
            (notify_expiration f b
               (release_computer b (save_booking_status (bid b) ''completed'' v))))"
proof (intro conjI impI allI)
  show "fst (checkExpiredBookings f currentDate currentTime w) = None"
    by (rule checkExpiredBookings_never_throws)
  show "fst (handleExpiredBooking f b v) = None"
    by (rule handleExpiredBooking_never_throws)
next
  assume "f BookingFind"
  then show "snd (checkExpiredBookings f currentDate currentTime w) =
          console_log (ErrExpirationService (StoreError BookingFind)) w"
    by (simp add: checkExpiredBookings_find_fails)
next
  assume "\<not> f BookingFind"
  then show "snd (checkExpiredBookings f currentDate currentTime w) =
          console_log (LogUpdatedCount (length (expiredBookings currentDate currentTime w)))
            (foldl (\<lambda>v x. snd (handleExpiredBooking f x v)) w
               (expiredBookings currentDate currentTime w))"
    by (simp add: checkExpiredBookings_exact)
next
  assume "f (BookingSave (bid b))"
  then show "snd (handleExpiredBooking f b v) =
          console_log (ErrHandlingExpired (StoreError (BookingSave (bid b)))) v"
    by (simp add: handleExpiredBooking_save_fails)
next
  assume "\<not> f (BookingSave (bid b)) \<and> f (ComputerFindById (computerId b))"
  then show "snd (handleExpiredBooking f b v) =
          console_log (ErrHandlingExpired (StoreError (ComputerFindById (computerId b))))
            (save_booking_status (bid b) ''completed'' v)"
    by (simp add: handleExpiredBooking_find_fails)
next
  fix c
  assume "\<not> f (BookingSave (bid b)) \<and> \<not> f (ComputerFindById (computerId b)) \<and>
           Computer_findById (computerId b) v = Some c \<and> cstatus c = ''booked'' \<and>
           f (ComputerSave (cid c))"
  then show "snd (handleExpiredBooking f b v) =
          console_log (ErrHandlingExpired (StoreError (ComputerSave (cid c))))
            (save_booking_status (bid b) ''completed'' v)"
    by (simp add: handleExpiredBooking_release_fails)
next
  assume "\<not> f (BookingSave (bid b)) \<and> \<not> f (ComputerFindById (computerId b)) \<and>
       (\<forall>c. Computer_findById (computerId b) v = Some c \<and> cstatus c = ''booked'' \<longrightarrow>
            \<not> f (ComputerSave (cid c)))"
  then show "snd (handleExpiredBooking f b v) =
          console_log (LogBookingProcessed (bid b))
            (notify_expiration f b
               (release_computer b (save_booking_status (bid b) ''completed'' v)))"
    by (simp add: handleExpiredBooking_processed)
qed

lemma busy_lab_expired:
  "expiredBookings ''2024-06-11'' ''00:00'' busy_lab = [ended1, ended2]"
  by (simp add: expiredBookings_def busy_lab_def lab_def ended1_def ended2_def overnight_def
      isExpired_def hasEnded_def)

text \<open>The state after the save of the first booking has failed and the second booking
  has been processed.\<close>

lemma busy_lab_first_save_fails:
  fixes w' :: world
  assumes "w' = console_log (LogUpdatedCount 2)
             (console_log (LogBookingProcessed (bid ended2))
                (notify_expiration first_save_fails ended2
                   (release_computer ended2
                      (save_booking_status (bid ended2) ''completed''
                         (console_log (ErrHandlingExpired (StoreError (BookingSave (bid ended1))))
                            busy_lab)))))"
  shows "map status (bookings w') = [''approved'', ''completed'']"
    and "map cstatus (computers w') = [''available'']"
    and "map (\<lambda>n. (recipient n, title n)) (notifications w') =
           [(''alice'', ''Booking Session Ended''),
            (''0000000000000000000000a0'', ''Computer Available'')]"
    and "console w' =
           [ErrHandlingExpired (StoreError (BookingSave ''0000000000000000000000b1'')),
            LogComputerUpdated ''0000000000000000000000c1'' ''available'',
            LogNotificationsSent ''0000000000000000000000b2'',
            LogBookingProcessed ''0000000000000000000000b2'',
            LogUpdatedCount 2]"
  unfolding assms by code_simp+

text \<open>The state after the save of the computer has failed for both bookings.\<close>

lemma busy_lab_release_fails:
  fixes w' :: world
  assumes "w' = console_log (LogUpdatedCount 2)
             (console_log (ErrHandlingExpired (StoreError (ComputerSave (cid (pc1\<lparr>cstatus := ''booked''\<rparr>)))))
                (save_booking_status (bid ended2) ''completed''
                   (console_log (ErrHandlingExpired (StoreError (ComputerSave (cid (pc1\<lparr>cstatus := ''booked''\<rparr>)))))
                      (save_booking_status (bid ended1) ''completed'' busy_lab))))"
  shows "map status (bookings w') = [''completed'', ''completed'']"
    and "map cstatus (computers w') = [''booked'']"
    and "notifications w' = []"
    and "console w' =
           [ErrHandlingExpired (StoreError (ComputerSave ''0000000000000000000000c1'')),
            ErrHandlingExpired (StoreError (ComputerSave ''0000000000000000000000c1'')),
            LogUpdatedCount 2]"
  unfolding assms by code_simp+

text \<open>The state after the read of the computer has failed for the first booking.\<close>

lemma busy_lab_lookup_fails:
  fixes w' :: world
  assumes "w' = console_log (ErrHandlingExpired (StoreError (ComputerFindById (computerId ended1))))
                  (save_booking_status (bid ended1) ''completed'' busy_lab)"
  shows "map status (bookings w') = [''completed'', ''approved'']"
    and "map cstatus (computers w') = [''booked'']"
    and "console w' =
           [ErrHandlingExpired (StoreError (ComputerFindById ''0000000000000000000000c1''))]"
  unfolding assms by code_simp+

text \<open>Two ended bookings on a booked computer. When the save of the first booking fails,
  the second is still completed, the computer released and the notifications sent. When
  the save of the computer fails, both bookings are completed and both failures logged.
  When the query fails, only that is logged. When the read of the computer fails in the
  handling of the first booking, the booking is completed and the failure logged.\<close>

theorem C8_witness:
  "fst (checkExpiredBookings first_save_fails ''2024-06-11'' ''00:00'' busy_lab) = None
   \<and> map status (bookings (snd (checkExpiredBookings first_save_fails ''2024-06-11'' ''00:00'' busy_lab)))
       = [''approved'', ''completed'']
   \<and> map cstatus (computers (snd (checkExpiredBookings first_save_fails ''2024-06-11'' ''00:00'' busy_lab)))
       = [''available'']
   \<and> map (\<lambda>n. (recipient n, title n))
        (notifications (snd (checkExpiredBookings first_save_fails ''2024-06-11'' ''00:00'' busy_lab)))
       = [(''alice'', ''Booking Session Ended''),
          (''0000000000000000000000a0'', ''Computer Available'')]
   \<and> console (snd (checkExpiredBookings first_save_fails ''2024-06-11'' ''00:00'' busy_lab)) =
       [ErrHandlingExpired (StoreError (BookingSave ''0000000000000000000000b1'')),
        LogComputerUpdated ''0000000000000000000000c1'' ''available'',
        LogNotificationsSent ''0000000000000000000000b2'',
        LogBookingProcessed ''0000000000000000000000b2'',
        LogUpdatedCount 2]
   \<and> fst (checkExpiredBookings release_fails ''2024-06-11'' ''00:00'' busy_lab) = None
   \<and> map status (bookings (snd (checkExpiredBookings release_fails ''2024-06-11'' ''00:00'' busy_lab)))
       = [''completed'', ''completed'']
   \<and> map cstatus (computers (snd (checkExpiredBookings release_fails ''2024-06-11'' ''00:00'' busy_lab)))
       = [''booked'']
   \<and> console (snd (checkExpiredBookings release_fails ''2024-06-11'' ''00:00'' busy_lab)) =
       [ErrHandlingExpired (StoreError (ComputerSave ''0000000000000000000000c1'')),
        ErrHandlingExpired (StoreError (ComputerSave ''0000000000000000000000c1'')),
        LogUpdatedCount 2]
   \<and> checkExpiredBookings query_fails ''2024-06-11'' ''00:00'' busy_lab =
       (None, console_log (ErrExpirationService (StoreError BookingFind)) busy_lab)
   \<and> fst (handleExpiredBooking lookup_fails ended1 busy_lab) = None
   \<and> map status (bookings (snd (handleExpiredBooking lookup_fails ended1 busy_lab))) =
       [''completed'', ''approved'']
   \<and> map cstatus (computers (snd (handleExpiredBooking lookup_fails ended1 busy_lab))) =
       [''booked'']
   \<and> console (snd (handleExpiredBooking lookup_fails ended1 busy_lab)) =
       [ErrHandlingExpired (StoreError (ComputerFindById ''0000000000000000000000c1''))]"
proof -
  let ?f = first_save_fails
  let ?v1 = "console_log (ErrHandlingExpired (StoreError (BookingSave (bid ended1)))) busy_lab"
  note a = C8_sweep_isolates_failures [of ?f "''2024-06-11''" "''00:00''" busy_lab ended1 busy_lab]
  note b = C8_sweep_isolates_failures [of ?f "''2024-06-11''" "''00:00''" busy_lab ended2 ?v1]
  have fa: "\<not> ?f BookingFind" "?f (BookingSave (bid ended1))"
    by (simp_all add: first_save_fails_def ended1_def)
  have fb: "\<not> ?f (BookingSave (bid ended2))" "\<not> ?f (ComputerFindById (computerId ended2))"
    "\<forall>c. Computer_findById (computerId ended2) ?v1 = Some c \<and> cstatus c = ''booked'' \<longrightarrow>
         \<not> ?f (ComputerSave (cid c))"
    by (simp_all add: first_save_fails_def ended2_def)
  from a have t1: "fst (checkExpiredBookings ?f ''2024-06-11'' ''00:00'' busy_lab) = None"
    by blast
  from a fa(1) have s1: "snd (checkExpiredBookings ?f ''2024-06-11'' ''00:00'' busy_lab) =
      console_log (LogUpdatedCount (length (expiredBookings ''2024-06-11'' ''00:00'' busy_lab)))
        (foldl (\<lambda>v x. snd (handleExpiredBooking ?f x v)) busy_lab
           (expiredBookings ''2024-06-11'' ''00:00'' busy_lab))"
    by blast
  from a fa(2) have h1: "snd (handleExpiredBooking ?f ended1 busy_lab) = ?v1" by blast
  from b fb have h2: "snd (handleExpiredBooking ?f ended2 ?v1) =
      console_log (LogBookingProcessed (bid ended2))
        (notify_expiration ?f ended2
           (release_computer ended2 (save_booking_status (bid ended2) ''completed'' ?v1)))"
    by blast
  from s1 h1 h2 have e1: "snd (checkExpiredBookings ?f ''2024-06-11'' ''00:00'' busy_lab) =
      console_log (LogUpdatedCount 2)
        (console_log (LogBookingProcessed (bid ended2))
           (notify_expiration ?f ended2
              (release_computer ended2 (save_booking_status (bid ended2) ''completed'' ?v1))))"
    by (simp add: busy_lab_expired)
  let ?g = release_fails
  let ?c = "pc1\<lparr>cstatus := ''booked''\<rparr>"
  let ?u1 = "console_log (ErrHandlingExpired (StoreError (ComputerSave (cid ?c))))
               (save_booking_status (bid ended1) ''completed'' busy_lab)"
  note c = C8_sweep_isolates_failures [of ?g "''2024-06-11''" "''00:00''" busy_lab ended1 busy_lab]
  note d = C8_sweep_isolates_failures [of ?g "''2024-06-11''" "''00:00''" busy_lab ended2 ?u1]
  have gc: "\<not> ?g BookingFind" "\<not> ?g (BookingSave (bid ended1))"
    "\<not> ?g (ComputerFindById (computerId ended1))"
    "Computer_findById (computerId ended1) busy_lab = Some ?c" "cstatus ?c = ''booked''"
    "?g (ComputerSave (cid ?c))"
    by (simp_all add: release_fails_def ended1_def overnight_def busy_lab_def lab_def pc1_def
        Computer_findById_def)
  have gd: "\<not> ?g (BookingSave (bid ended2))" "\<not> ?g (ComputerFindById (computerId ended2))"
    "Computer_findById (computerId ended2) ?u1 = Some ?c"
    by (simp_all add: release_fails_def ended2_def overnight_def busy_lab_def lab_def pc1_def
        Computer_findById_def)
  from c have t2: "fst (checkExpiredBookings ?g ''2024-06-11'' ''00:00'' busy_lab) = None"
    by blast
  from c gc(1) have s2: "snd (checkExpiredBookings ?g ''2024-06-11'' ''00:00'' busy_lab) =
      console_log (LogUpdatedCount (length (expiredBookings ''2024-06-11'' ''00:00'' busy_lab)))
        (foldl (\<lambda>v x. snd (handleExpiredBooking ?g x v)) busy_lab
           (expiredBookings ''2024-06-11'' ''00:00'' busy_lab))"
    by blast
  from c gc have k1: "snd (handleExpiredBooking ?g ended1 busy_lab) = ?u1" by blast
  from d gd gc(5,6) have k2: "snd (handleExpiredBooking ?g ended2 ?u1) =
      console_log (ErrHandlingExpired (StoreError (ComputerSave (cid ?c))))
        (save_booking_status (bid ended2) ''completed'' ?u1)"
    by blast
  from s2 k1 k2 have e2: "snd (checkExpiredBookings ?g ''2024-06-11'' ''00:00'' busy_lab) =
      console_log (LogUpdatedCount 2)
        (console_log (ErrHandlingExpired (StoreError (ComputerSave (cid ?c))))
           (save_booking_status (bid ended2) ''completed'' ?u1))"
    by (simp add: busy_lab_expired)
  note q = C8_sweep_isolates_failures [of query_fails "''2024-06-11''" "''00:00''" busy_lab
      ended1 busy_lab]
  have "query_fails BookingFind" by (simp add: query_fails_def)
  with q have "fst (checkExpiredBookings query_fails ''2024-06-11'' ''00:00'' busy_lab) = None"
    "snd (checkExpiredBookings query_fails ''2024-06-11'' ''00:00'' busy_lab) =
       console_log (ErrExpirationService (StoreError BookingFind)) busy_lab"
    by blast+
  then have e3: "checkExpiredBookings query_fails ''2024-06-11'' ''00:00'' busy_lab =
       (None, console_log (ErrExpirationService (StoreError BookingFind)) busy_lab)"
    by (simp add: prod_eq_iff)
  note l = C8_sweep_isolates_failures [of lookup_fails "''2024-06-11''" "''00:00''" busy_lab
      ended1 busy_lab]
  have lf: "\<not> lookup_fails (BookingSave (bid ended1))"
    "lookup_fails (ComputerFindById (computerId ended1))"
    by (simp_all add: lookup_fails_def ended1_def overnight_def)
  from l have t4: "fst (handleExpiredBooking lookup_fails ended1 busy_lab) = None" by blast
  from l lf have e4: "snd (handleExpiredBooking lookup_fails ended1 busy_lab) =
      console_log (ErrHandlingExpired (StoreError (ComputerFindById (computerId ended1))))
        (save_booking_status (bid ended1) ''completed'' busy_lab)"
    by blast
  from t1 t2 busy_lab_first_save_fails [OF e1] busy_lab_release_fails(1,2,4) [OF e2] e3 t4
    busy_lab_lookup_fails [OF e4]
  show ?thesis by blast
qed

section \<open>The order of the checks of a status request\<close>

text \<open>
  C9, as it is worded for every request, fails: the route first checks the actor, and a
  user who is not an admin is answered 403, not the invalid-status error, when asking
  for a status that does not exist.
\<close>

theorem C9_counterexample:
  "find (\<lambda>u. firebaseUid u = ''alice'') (users lab) = Some alice \<and> role alice = ''user''
   \<and> str (req_status complete) \<notin> set [''approved'', ''rejected'', ''cancelled'']
   \<and> Booking_findById ''0000000000000000000000ff'' lab = None
   \<and> setBookingStatus ''alice'' ''0000000000000000000000ff'' complete lab = (Message 403 ''Admin access required'', lab)"
  by code_simp

text \<open>
  C9 (as amended). For an admin, the target status and the rejection reason are checked
  before the booking is looked up: a target outside approved, rejected and cancelled
  gives the invalid-status error, and a rejection without a reason gives the
  missing-reason error, whether or not the booking exists. For any actor, such a request
  changes nothing and is never answered with the not-found error, which is returned only
  when both checks have passed and the id of the request is an object id of no booking.
\<close>

theorem C9_checks_before_lookup:
  "((\<exists>u. find (\<lambda>u. firebaseUid u = actor) (users w) = Some u \<and> role u = ''admin'') \<longrightarrow>
      (str (req_status body) \<notin> set [''approved'', ''rejected'', ''cancelled''] \<longrightarrow>
         setBookingStatus actor i body w = (Message 400 ''Invalid status'', w))
      \<and> (str (req_status body) = ''rejected'' \<and> falsy (req_rejectionReason body) \<longrightarrow>
           setBookingStatus actor i body w = (Message 400 ''Rejection reason is required'', w)))
   \<and> (str (req_status body) \<notin> set [''approved'', ''rejected'', ''cancelled''] \<or>
        (str (req_status body) = ''rejected'' \<and> falsy (req_rejectionReason body)) \<longrightarrow>
        snd (setBookingStatus actor i body w) = w \<and>
        fst (setBookingStatus actor i body w) \<noteq> Message 404 ''Booking not found'')
   \<and> (\<forall>w'. setBookingStatus actor i body w = (Message 404 ''Booking not found'', w') \<longrightarrow>
          str (req_status body) \<in> set [''approved'', ''rejected'', ''cancelled'']
          \<and> \<not> (str (req_status body) = ''rejected'' \<and> falsy (req_rejectionReason body))
          \<and> (\<exists>j. castObjectId i = Some j \<and> Booking_findById j w = None) \<and> w' = w)"
proof (intro conjI impI allI)
  assume "\<exists>u. find (\<lambda>u. firebaseUid u = actor) (users w) = Some u \<and> role u = ''admin''"
    and "str (req_status body) \<notin> set [''approved'', ''rejected'', ''cancelled'']"
  then show "setBookingStatus actor i body w = (Message 400 ''Invalid status'', w)"
    by (auto simp: setBookingStatus_def)
next
  assume "\<exists>u. find (\<lambda>u. firebaseUid u = actor) (users w) = Some u \<and> role u = ''admin''"
    and "str (req_status body) = ''rejected'' \<and> falsy (req_rejectionReason body)"
  then show "setBookingStatus actor i body w = (Message 400 ''Rejection reason is required'', w)"
    by (auto simp: setBookingStatus_def)
next
  assume bad: "str (req_status body) \<notin> set [''approved'', ''rejected'', ''cancelled''] \<or>
        (str (req_status body) = ''rejected'' \<and> falsy (req_rejectionReason body))"
  then show "snd (setBookingStatus actor i body w) = w"
    by (cases "find (\<lambda>u. firebaseUid u = actor) (users w)") (auto simp: setBookingStatus_def)
  from bad show "fst (setBookingStatus actor i body w) \<noteq> Message 404 ''Booking not found''"
    by (cases "find (\<lambda>u. firebaseUid u = actor) (users w)") (auto simp: setBookingStatus_def)
next
  fix w'
  assume r: "setBookingStatus actor i body w = (Message 404 ''Booking not found'', w')"
  then show "str (req_status body) \<in> set [''approved'', ''rejected'', ''cancelled'']"
    "\<not> (str (req_status body) = ''rejected'' \<and> falsy (req_rejectionReason body))"
    "\<exists>j. castObjectId i = Some j \<and> Booking_findById j w = None" "w' = w"
    by (auto simp: setBookingStatus_def Let_def split: option.splits if_splits)
qed

text \<open>An admin and a user ask for a status that does not exist, and the admin rejects
  without a reason, a booking that does not exist.\<close>

theorem C9_witness:
  "find (\<lambda>u. firebaseUid u = ''admin1'') (users lab) = Some admin1 \<and> role admin1 = ''admin''
   \<and> Booking_findById ''0000000000000000000000ff'' lab = None
   \<and> setBookingStatus ''admin1'' ''0000000000000000000000ff'' complete lab = (Message 400 ''Invalid status'', lab)
   \<and> setBookingStatus ''admin1'' ''0000000000000000000000ff'' reject_without_reason lab =
       (Message 400 ''Rejection reason is required'', lab)
   \<and> snd (setBookingStatus ''alice'' ''0000000000000000000000ff'' complete lab) = lab"
proof -
  have h: "find (\<lambda>u. firebaseUid u = ''admin1'') (users lab) = Some admin1" "role admin1 = ''admin''"
    by (simp_all add: lab_def admin1_def)
  then have a: "\<exists>u. find (\<lambda>u. firebaseUid u = ''admin1'') (users lab) = Some u \<and> role u = ''admin''"
    by blast
  have n: "Booking_findById ''0000000000000000000000ff'' lab = None" by (simp add: Booking_findById_def lab_def)
  have b: "str (req_status complete) \<notin> set [''approved'', ''rejected'', ''cancelled'']"
    "str (req_status reject_without_reason) = ''rejected'' \<and>
     falsy (req_rejectionReason reject_without_reason)"
    by (simp_all add: complete_def reject_without_reason_def str_def falsy_def)
  from C9_checks_before_lookup [of "''admin1''" lab complete "''0000000000000000000000ff''"] a b(1)
  have r1: "setBookingStatus ''admin1'' ''0000000000000000000000ff'' complete lab = (Message 400 ''Invalid status'', lab)"
    by blast
  from C9_checks_before_lookup [of "''admin1''" lab reject_without_reason "''0000000000000000000000ff''"] a b(2)
  have r2: "setBookingStatus ''admin1'' ''0000000000000000000000ff'' reject_without_reason lab =
       (Message 400 ''Rejection reason is required'', lab)"
    by blast
  from C9_checks_before_lookup [of "''alice''" lab complete "''0000000000000000000000ff''"] b(1)
  have r3: "snd (setBookingStatus ''alice'' ''0000000000000000000000ff'' complete lab) = lab"
    by blast
  from h n r1 r2 r3 show ?thesis by blast
qed

section \<open>Creation looks only at the existence of the computer\<close>

text \<open>
  C10, as the specification words it, fails: a missing computer is not always answered
  with the not-found error. A request with all required fields whose computer id is not
  an object id names no computer; the lookup throws, and the answer is the generic error
  of the route, 500.
\<close>

theorem C10_counterexample:
  "\<not> falsy (req_computerId (monday_request\<lparr>req_computerId := Some ''c7''\<rparr>))
   \<and> map cid (computers lab) = [''0000000000000000000000c1'']
   \<and> castObjectId ''c7'' = None
   \<and> createBooking ''0000000000000000000000b1'' ''alice''
        (monday_request\<lparr>req_computerId := Some ''c7''\<rparr>) lab =
       (Message 500 ''Error creating booking'',
        console_log (ErrCreatingBooking (CastError ''c7'')) lab)"
  by code_simp

text \<open>
  C10 (as amended). For a creation request with all required fields present: when the
  computer id is an object id of no computer, the answer is the not-found error and
  nothing changes; when it is the object id of a computer, then (the generated id being
  new) a pending booking on that computer is stored, whatever the status of the computer:
  available, booked or in maintenance, and no computer is changed; when it is not an
  object id, the answer is the generic error of the route and nothing is stored.
\<close>

theorem C10_create_ignores_availability:
  assumes "\<not> falsy (req_computerId body)" "\<not> falsy (req_startDate body)"
    "\<not> falsy (req_endDate body)" "\<not> falsy (req_startTime body)"
    "\<not> falsy (req_endTime body)" "\<not> falsy (req_reason body)"
  shows "(\<forall>j. castObjectId (str (req_computerId body)) = Some j \<and> Computer_findById j w = None \<longrightarrow>
            createBooking newId actor body w = (Message 404 ''Computer not found'', w))
       \<and> (\<forall>j c. castObjectId (str (req_computerId body)) = Some j \<and>
               Computer_findById j w = Some c \<and> newId \<notin> set (map bid (bookings w)) \<longrightarrow>
               fst (createBooking newId actor body w) = Json 201 (new_Booking newId actor body)
               \<and> status (new_Booking newId actor body) = ''pending''
               \<and> computerId (new_Booking newId actor body) = cid c
               \<and> bookings (snd (createBooking newId actor body w)) =
                   bookings w @ [new_Booking newId actor body]
               \<and> computers (snd (createBooking newId actor body w)) = computers w)
       \<and> (castObjectId (str (req_computerId body)) = None \<longrightarrow>
            createBooking newId actor body w =
              (Message 500 ''Error creating booking'',
               console_log (ErrCreatingBooking (CastError (str (req_computerId body)))) w))"
proof (intro conjI allI impI)
  fix j
  assume "castObjectId (str (req_computerId body)) = Some j \<and> Computer_findById j w = None"
  with createBooking_wellformed(2) [OF assms, of j w newId actor]
  show "createBooking newId actor body w = (Message 404 ''Computer not found'', w)" by simp
next
  fix j c
  assume a: "castObjectId (str (req_computerId body)) = Some j \<and>
             Computer_findById j w = Some c \<and> newId \<notin> set (map bid (bookings w))"
  with createBooking_wellformed(3) [OF assms, of j w c newId actor]
  show "fst (createBooking newId actor body w) = Json 201 (new_Booking newId actor body)"
    "bookings (snd (createBooking newId actor body w)) =
       bookings w @ [new_Booking newId actor body]"
    "computers (snd (createBooking newId actor body w)) = computers w"
    by simp_all
  show "status (new_Booking newId actor body) = ''pending''" by (simp add: new_Booking_def)
  from a show "computerId (new_Booking newId actor body) = cid c"
    by (auto simp: new_Booking_def dest: Computer_findById_Some)
next
  assume "castObjectId (str (req_computerId body)) = None"
  with createBooking_wellformed(1) [OF assms, of newId actor w]
  show "createBooking newId actor body w =
          (Message 500 ''Error creating booking'',
           console_log (ErrCreatingBooking (CastError (str (req_computerId body)))) w)"
    by simp
qed

lemma monday_request_computer:
  "castObjectId (str (req_computerId monday_request)) = Some ''0000000000000000000000c1''"
  "Computer_findById ''0000000000000000000000c1'' maintenance_lab =
     Some (pc1\<lparr>cstatus := ''maintenance''\<rparr>)"
  "Computer_findById ''0000000000000000000000c1'' busy_lab = Some (pc1\<lparr>cstatus := ''booked''\<rparr>)"
  "''0000000000000000000000b1'' \<notin> set (map bid (bookings maintenance_lab))"
  "''0000000000000000000000b9'' \<notin> set (map bid (bookings busy_lab))"
  "castObjectId (str (req_computerId
      (monday_request\<lparr>req_computerId := Some ''0000000000000000000000C7''\<rparr>))) =
     Some ''0000000000000000000000c7''"
  "Computer_findById ''0000000000000000000000c7'' busy_lab = None"
  "castObjectId (str (req_computerId (monday_request\<lparr>req_computerId := Some ''c7''\<rparr>))) = None"
  "str (req_computerId (monday_request\<lparr>req_computerId := Some ''c7''\<rparr>)) = ''c7''"
  by code_simp+

text \<open>A computer in maintenance, a booked computer, an object id of no computer (written
  with a capital digit), and an id that is not an object id.\<close>

theorem C10_witness:
  "\<not> falsy (req_computerId monday_request) \<and> \<not> falsy (req_startDate monday_request)
   \<and> \<not> falsy (req_endDate monday_request) \<and> \<not> falsy (req_startTime monday_request)
   \<and> \<not> falsy (req_endTime monday_request) \<and> \<not> falsy (req_reason monday_request)
   \<and> map cstatus (computers maintenance_lab) = [''maintenance'']
   \<and> fst (createBooking ''0000000000000000000000b1'' ''alice'' monday_request maintenance_lab) =
        Json 201 (new_Booking ''0000000000000000000000b1'' ''alice'' monday_request)
   \<and> map status (bookings (snd (createBooking ''0000000000000000000000b1'' ''alice''
                                  monday_request maintenance_lab))) = [''pending'']
   \<and> computers (snd (createBooking ''0000000000000000000000b1'' ''alice''
                        monday_request maintenance_lab)) = computers maintenance_lab
   \<and> map cstatus (computers busy_lab) = [''booked'']
   \<and> fst (createBooking ''0000000000000000000000b9'' ''alice'' monday_request busy_lab) =
        Json 201 (new_Booking ''0000000000000000000000b9'' ''alice'' monday_request)
   \<and> createBooking ''0000000000000000000000b9'' ''alice''
        (monday_request\<lparr>req_computerId := Some ''0000000000000000000000C7''\<rparr>) busy_lab =
        (Message 404 ''Computer not found'', busy_lab)
   \<and> createBooking ''0000000000000000000000b9'' ''alice''
        (monday_request\<lparr>req_computerId := Some ''c7''\<rparr>) busy_lab =
        (Message 500 ''Error creating booking'',
         console_log (ErrCreatingBooking (CastError ''c7'')) busy_lab)"
proof -
  have wf: "\<not> falsy (req_computerId monday_request)" "\<not> falsy (req_startDate monday_request)"
    "\<not> falsy (req_endDate monday_request)" "\<not> falsy (req_startTime monday_request)"
    "\<not> falsy (req_endTime monday_request)" "\<not> falsy (req_reason monday_request)"
    by (simp_all add: monday_request_def falsy_def)
  have wf': "\<not> falsy (req_computerId (monday_request\<lparr>req_computerId := Some k\<rparr>))"
    "\<not> falsy (req_startDate (monday_request\<lparr>req_computerId := Some k\<rparr>))"
    "\<not> falsy (req_endDate (monday_request\<lparr>req_computerId := Some k\<rparr>))"
    "\<not> falsy (req_startTime (monday_request\<lparr>req_computerId := Some k\<rparr>))"
    "\<not> falsy (req_endTime (monday_request\<lparr>req_computerId := Some k\<rparr>))"
    "\<not> falsy (req_reason (monday_request\<lparr>req_computerId := Some k\<rparr>))"
    if "k \<noteq> ''''" for k
    using that by (simp_all add: monday_request_def falsy_def)
  note m = monday_request_computer
  have st: "map cstatus (computers maintenance_lab) = [''maintenance'']"
    "map cstatus (computers busy_lab) = [''booked'']"
    by (simp_all add: maintenance_lab_def busy_lab_def lab_def)
  from C10_create_ignores_availability [OF wf, of maintenance_lab
      "''0000000000000000000000b1''" "''alice''"] m(1,2,4)
  have r1: "fst (createBooking ''0000000000000000000000b1'' ''alice'' monday_request maintenance_lab) =
        Json 201 (new_Booking ''0000000000000000000000b1'' ''alice'' monday_request)"
    "status (new_Booking ''0000000000000000000000b1'' ''alice'' monday_request) = ''pending''"
    "bookings (snd (createBooking ''0000000000000000000000b1'' ''alice'' monday_request maintenance_lab)) =
        bookings maintenance_lab @ [new_Booking ''0000000000000000000000b1'' ''alice'' monday_request]"
    "computers (snd (createBooking ''0000000000000000000000b1'' ''alice''
                        monday_request maintenance_lab)) = computers maintenance_lab"
    by blast+
  from C10_create_ignores_availability [OF wf, of busy_lab
      "''0000000000000000000000b9''" "''alice''"] m(1,3,5)
  have r2: "fst (createBooking ''0000000000000000000000b9'' ''alice'' monday_request busy_lab) =
        Json 201 (new_Booking ''0000000000000000000000b9'' ''alice'' monday_request)"
    by blast
  from C10_create_ignores_availability [OF wf' [of "''0000000000000000000000C7''"], of busy_lab
      "''0000000000000000000000b9''" "''alice''"] m(6,7)
  have r3: "createBooking ''0000000000000000000000b9'' ''alice''
        (monday_request\<lparr>req_computerId := Some ''0000000000000000000000C7''\<rparr>) busy_lab =
        (Message 404 ''Computer not found'', busy_lab)"
    by blast
  from C10_create_ignores_availability [OF wf' [of "''c7''"], of busy_lab
      "''0000000000000000000000b9''" "''alice''"] m(8)
  have "createBooking ''0000000000000000000000b9'' ''alice''
        (monday_request\<lparr>req_computerId := Some ''c7''\<rparr>) busy_lab =
        (Message 500 ''Error creating booking'',
         console_log (ErrCreatingBooking
           (CastError (str (req_computerId (monday_request\<lparr>req_computerId := Some ''c7''\<rparr>)))))
           busy_lab)"
    by blast
  then have r4: "createBooking ''0000000000000000000000b9'' ''alice''
        (monday_request\<lparr>req_computerId := Some ''c7''\<rparr>) busy_lab =
        (Message 500 ''Error creating booking'',
         console_log (ErrCreatingBooking (CastError ''c7'')) busy_lab)"
    by (simp only: m(9))
  have "map status (bookings (snd (createBooking ''0000000000000000000000b1'' ''alice''
                                  monday_request maintenance_lab))) = [''pending'']"
    unfolding r1(3) using r1(2) by (simp add: maintenance_lab_def lab_def)
  with wf st r1(1,4) r2 r3 r4 show ?thesis by blast
qed

end
